theory Spec2Isabelle
  imports Main "HOL-Library.Sublist" "HOL-Library.AList"
begin

section \<open>Data model\<close>

text \<open>
  Strings are lists of characters; a character stands for one code unit of a JavaScript
  string, so \<open>slice\<close>, \<open>at\<close>, \<open>startsWith\<close> and \<open>+\<close> are the list operations
  \<open>take\<close>, \<open>last\<close>, \<open>butlast\<close>, \<open>prefix\<close> and \<open>@\<close>.

  A parsed JSON body is an object: a list of fields read with \<open>map_of\<close>
  (\<open>'k' in data\<close> is \<open>map_of data k \<noteq> None\<close>, \<open>data.k\<close> is \<open>map_of data k\<close>,
  \<open>None\<close> standing for \<open>undefined\<close>). Numbers are integers.
\<close>

datatype jval =
    JNull
  | JBool bool
  | JNum int
  | JStr string
  | JArr "jval list"
  | JObj "(string \<times> jval) list"

type_synonym jobj = "(string \<times> jval) list"

subsection \<open>types.ts\<close>

record WeixinOptions =
  appid :: string
  secret :: string

record WeixinToken =
  access_token :: string
  refresh_token :: "string option"

subsection \<open>error.ts\<close>

text \<open>
  The two error classes. \<open>this.name = this.constructor.name\<close> makes the name a function
  of the class, so the class is the constructor and the name is computed from it.
\<close>

datatype WeixinError =
    WeixinError string jobj
  | WeixinAuthCodeError string jobj

fun error_name :: "WeixinError \<Rightarrow> string" where
  "error_name (WeixinError m r) = ''WeixinError''"
| "error_name (WeixinAuthCodeError m r) = ''WeixinAuthCodeError''"

fun error_message :: "WeixinError \<Rightarrow> string" where
  "error_message (WeixinError m r) = m"
| "error_message (WeixinAuthCodeError m r) = m"

fun error_response :: "WeixinError \<Rightarrow> jobj" where
  "error_response (WeixinError m r) = r"
| "error_response (WeixinAuthCodeError m r) = r"

definition toJSON :: "WeixinError \<Rightarrow> jobj" where
  "toJSON e =
     [(''name'', JStr (error_name e)),
      (''message'', JStr (error_message e)),
      (''response'', JObj (error_response e))]"

text \<open>The \<open>switch\<close> compares with \<open>===\<close>: only the number itself matches a case.\<close>

definition authcodeErrorMap :: "jval option \<Rightarrow> string option" where
  "authcodeErrorMap errcode =
     (if errcode = Some (JNum 40029) then Some ''invalid code''
      else if errcode = Some (JNum 40163) then Some ''code has been used''
      else if errcode = Some (JNum 42003) then Some ''code has expired''
      else None)"

text \<open>\<open>title.at(-1)\<close> of the empty string is \<open>undefined\<close>, which is not \<open>'.'\<close>.\<close>

definition formatMessage :: "string \<Rightarrow> string \<Rightarrow> string" where
  "formatMessage title detail =
     (if title \<noteq> [] \<and> last title = CHR ''.''
      then butlast title @ '': '' @ detail @ ''.''
      else title @ '': '' @ detail)"

text \<open>
  \<open>if (authCodeMessage)\<close> tests truthiness: \<open>undefined\<close> and the empty string are falsy.
\<close>

definition createError :: "string \<Rightarrow> jobj \<Rightarrow> WeixinError" where
  "createError msg resp =
     (case authcodeErrorMap (map_of resp ''errcode'') of
        None \<Rightarrow> WeixinError msg resp
      | Some authCodeMessage \<Rightarrow>
          if authCodeMessage \<noteq> []
          then WeixinAuthCodeError (formatMessage msg authCodeMessage) resp
          else WeixinError msg resp)"

subsection \<open>memory-store.ts\<close>

record Token =
  data :: WeixinToken
  expiresAt :: int

type_synonym token_table = "string \<rightharpoonup> Token"

text \<open>
  The three store operations, with the value of \<open>Date.now()\<close> (milliseconds) as an
  argument. \<open>getTokenData\<close> returns the token or \<open>None\<close> for \<open>null\<close>, and the table
  after the lazy eviction.
\<close>

definition getTokenData :: "int \<Rightarrow> string \<Rightarrow> token_table \<Rightarrow> WeixinToken option \<times> token_table" where
  "getTokenData now k tbl =
     (case tbl k of
        None \<Rightarrow> (None, tbl)
      | Some token \<Rightarrow>
          if expiresAt token \<le> now then (None, tbl(k := None))
          else (Some (data token), tbl))"

definition setToken :: "int \<Rightarrow> string \<Rightarrow> WeixinToken \<Rightarrow> int \<Rightarrow> token_table \<Rightarrow> token_table" where
  "setToken now k token ttl tbl = tbl(k \<mapsto> \<lparr>data = token, expiresAt = now + ttl * 1000\<rparr>)"

definition deleteToken :: "string \<Rightarrow> token_table \<Rightarrow> token_table" where
  "deleteToken k tbl = tbl(k := None)"

section \<open>The environment and the state\<close>

datatype http_method = GET | POST

text \<open>
  A response as the client reads it: the \<open>content-type\<close> header (\<open>None\<close> when absent)
  and the result of \<open>res.json()\<close> (\<open>None\<close> when the body is not JSON and the promise
  rejects).
\<close>

record response =
  content_type :: "string option"
  json :: "jobj option"

text \<open>
  What \<open>fetch\<close> is called with. The serialisation to a URL and a body is kept
  structured: a GET carries the URL before \<open>?\<close> and the query parameters, a POST
  the URL and the object given to \<open>JSON.stringify\<close>.
\<close>

datatype netcall =
    HttpGet string jobj
  | HttpPost string jobj

text \<open>
  The world outside the program: the reply to the n-th network call (\<open>None\<close> when
  \<open>fetch\<close> rejects) and the value of the n-th read of \<open>Date.now()\<close>.
\<close>

record world =
  fetch_reply :: "nat \<Rightarrow> response option"
  date_now :: "nat \<Rightarrow> int"

text \<open>
  The log of what a run did, in order: the calls of the token functions with their
  \<open>forceRefresh\<close> argument, the store operations with their key (a read also
  with what it returned), and the network calls. A network call is logged with the
  \<open>accessToken\<close> argument of the \<open>request\<close> that made it (\<open>None\<close> for
  \<open>null\<close>: the token endpoints), what was sent and what came back.
\<close>

datatype event =
    Call_getAccessToken bool
  | Call_getStableAccessToken bool
  | Call_createAccessToken
  | Call_createStableAccessToken bool
  | Store_get string "WeixinToken option"
  | Store_set string
  | Store_delete string
  | Fetch "string option" netcall "response option"

text \<open>
  The state of one run: the table of the memory store, how many network calls and clock
  reads have been made (the positions in the world's two sequences), and the log. Every
  \<open>await\<close> is run to its end before the next statement: one logical request is
  modelled, not its interleaving with other tasks.
\<close>

record state =
  tokens :: token_table
  net_calls :: nat
  clock_reads :: nat
  trace :: "event list"

text \<open>
  What can be thrown: the plain \<open>Error\<close> of the path check, a \<open>WeixinError\<close> made
  by \<open>createError\<close>, the rejection of \<open>fetch\<close>, the rejection of \<open>res.json()\<close>,
  and \<open>IllTyped\<close> for a token reply that breaks its declared type (see
  \<open>store_new_token\<close>). A throw keeps the state reached so far.
\<close>

datatype thrown =
    PlainError string
  | Thrown WeixinError
  | FetchRejected
  | BodyNotJson
  | IllTyped

type_synonym 'a result = "(thrown + 'a) \<times> state"

definition log_event :: "event \<Rightarrow> state \<Rightarrow> state" where
  "log_event e s = s\<lparr>trace := trace s @ [e]\<rparr>"

definition new_events :: "state \<Rightarrow> state \<Rightarrow> event list" where
  "new_events s s' = drop (length (trace s)) (trace s')"

subsection \<open>The store inside the state\<close>

text \<open>
  \<open>store.get\<close> reads the clock only when the key is present, \<open>store.set\<close> always,
  \<open>store.delete\<close> never.
\<close>

definition store_get :: "world \<Rightarrow> string \<Rightarrow> state \<Rightarrow> WeixinToken option \<times> state" where
  "store_get w k s =
     (case tokens s k of
        None \<Rightarrow> (None, log_event (Store_get k None) s)
      | Some token \<Rightarrow>
          (case getTokenData (date_now w (clock_reads s)) k (tokens s) of
             (r, tbl) \<Rightarrow>
               (r, (log_event (Store_get k r) s)\<lparr>tokens := tbl, clock_reads := Suc (clock_reads s)\<rparr>)))"

definition store_set :: "world \<Rightarrow> string \<Rightarrow> WeixinToken \<Rightarrow> int \<Rightarrow> state \<Rightarrow> state" where
  "store_set w k token ttl s =
     (let s1 = log_event (Store_set k) s in
      s1\<lparr>tokens := setToken (date_now w (clock_reads s1)) k token ttl (tokens s1),
         clock_reads := Suc (clock_reads s1)\<rparr>)"

definition store_delete :: "string \<Rightarrow> state \<Rightarrow> state" where
  "store_delete k s = (let s1 = log_event (Store_delete k) s in s1\<lparr>tokens := deleteToken k (tokens s1)\<rparr>)"

section \<open>fetcher.ts\<close>

definition API_URL :: string where
  "API_URL = ''https://api.weixin.qq.com''"

definition path_error :: string where
  "path_error = ''Path must start with '' @ [CHR 0x27] @ ''/'' @ [CHR 0x27]"

definition fetch :: "world \<Rightarrow> string option \<Rightarrow> netcall \<Rightarrow> state \<Rightarrow> response result" where
  "fetch w accessToken c s =
     (let reply = fetch_reply w (net_calls s);
          s1 = (log_event (Fetch accessToken c reply) s)\<lparr>net_calls := Suc (net_calls s)\<rparr>
      in case reply of
           None \<Rightarrow> (Inl FetchRejected, s1)
         | Some res \<Rightarrow> (Inr res, s1))"

text \<open>\<open>if (accessToken)\<close>: \<open>null\<close> and the empty string are falsy.\<close>

definition truthy :: "string option \<Rightarrow> bool" where
  "truthy a = (case a of None \<Rightarrow> False | Some t \<Rightarrow> t \<noteq> [])"

definition fetcher_request ::
  "world \<Rightarrow> http_method \<Rightarrow> string \<Rightarrow> string option \<Rightarrow> jobj \<Rightarrow> state \<Rightarrow> response result" where
  "fetcher_request w method path accessToken params s =
     (case path of
        [] \<Rightarrow> (Inl (PlainError path_error), s)
      | c # _ \<Rightarrow>
          if c \<noteq> CHR ''/'' then (Inl (PlainError path_error), s)
          else if method = GET then
            (let queryParams =
                   (if truthy accessToken
                    then AList.update ''access_token'' (JStr (the accessToken)) params
                    else params)
             in fetch w accessToken (HttpGet (API_URL @ path) queryParams) s)
          else
            (let path' = (if truthy accessToken then path @ ''?access_token='' @ the accessToken else path)
             in fetch w accessToken (HttpPost (API_URL @ path') params) s))"

definition res_json :: "response \<Rightarrow> state \<Rightarrow> jobj result" where
  "res_json res s = (case json res of None \<Rightarrow> (Inl BodyNotJson, s) | Some d \<Rightarrow> (Inr d, s))"

definition createAccessToken :: "world \<Rightarrow> string \<Rightarrow> string \<Rightarrow> state \<Rightarrow> jobj result" where
  "createAccessToken w aid sec s =
     (case fetcher_request w GET ''/cgi-bin/token'' None
             [(''appid'', JStr aid), (''secret'', JStr sec),
              (''grant_type'', JStr ''client_credential'')]
             (log_event Call_createAccessToken s) of
        (Inl e, s1) \<Rightarrow> (Inl e, s1)
      | (Inr res, s1) \<Rightarrow> res_json res s1)"

definition createStableAccessToken :: "world \<Rightarrow> string \<Rightarrow> string \<Rightarrow> bool \<Rightarrow> state \<Rightarrow> jobj result" where
  "createStableAccessToken w aid sec forceRefresh s =
     (case fetcher_request w POST ''/cgi-bin/stable_token'' None
             [(''appid'', JStr aid), (''secret'', JStr sec),
              (''grant_type'', JStr ''client_credential''),
              (''force_refresh'', JBool forceRefresh)]
             (log_event (Call_createStableAccessToken forceRefresh) s) of
        (Inl e, s1) \<Rightarrow> (Inl e, s1)
      | (Inr res, s1) \<Rightarrow> res_json res s1)"

section \<open>client.ts\<close>

definition compositeKey :: "string \<Rightarrow> string \<Rightarrow> bool \<Rightarrow> string" where
  "compositeKey aid sec is_stable = aid @ '':'' @ take 6 sec @ (if is_stable then '':stable'' else [])"

text \<open>
  The statements of \<open>getAccessToken\<close> and \<open>getStableAccessToken\<close> after the creation
  call, which the two share word for word but for the message. The token response is read
  at its declared type: \<open>access_token\<close> a string and \<open>expires_in\<close> a number. A reply
  with an \<open>access_token\<close> field that breaks the declared type is outside the model:
  the code has no test for it and would go on with the values as they are (a token that is
  not a string, a TTL that is not a number). \<open>IllTyped\<close> marks where the model stops;
  it is not an error that the code raises.
\<close>

definition store_new_token :: "world \<Rightarrow> string \<Rightarrow> string \<Rightarrow> jobj \<Rightarrow> state \<Rightarrow> string result" where
  "store_new_token w k context d s =
     (case map_of d ''access_token'' of
        None \<Rightarrow> (Inl (Thrown (createError context d)), s)
      | Some (JStr tok) \<Rightarrow>
          (case map_of d ''expires_in'' of
             Some (JNum expires_in) \<Rightarrow>
               (let ttl = expires_in - 10
                in (Inr tok, store_set w k \<lparr>access_token = tok, refresh_token = None\<rparr> ttl s))
           | _ \<Rightarrow> (Inl IllTyped, s))
      | Some _ \<Rightarrow> (Inl IllTyped, s))"

definition getAccessToken :: "world \<Rightarrow> WeixinOptions \<Rightarrow> bool \<Rightarrow> state \<Rightarrow> string result" where
  "getAccessToken w opts forceRefresh s =
     (let s0 = log_event (Call_getAccessToken forceRefresh) s;
          k = compositeKey (appid opts) (take 6 (secret opts)) False;
          create = (\<lambda>s1. case createAccessToken w (appid opts) (secret opts) s1 of
                       (Inl e, s2) \<Rightarrow> (Inl e, s2)
                     | (Inr d, s2) \<Rightarrow> store_new_token w k ''Unable to get an access token.'' d s2)
      in if forceRefresh then create (store_delete k s0)
         else (case store_get w k s0 of
                 (Some cachedToken, s1) \<Rightarrow> (Inr (access_token cachedToken), s1)
               | (None, s1) \<Rightarrow> create s1))"

definition getStableAccessToken :: "world \<Rightarrow> WeixinOptions \<Rightarrow> bool \<Rightarrow> state \<Rightarrow> string result" where
  "getStableAccessToken w opts forceRefresh s =
     (let s0 = log_event (Call_getStableAccessToken forceRefresh) s;
          k = compositeKey (appid opts) (take 6 (secret opts)) True;
          create = (\<lambda>s1. case createStableAccessToken w (appid opts) (secret opts) forceRefresh s1 of
                       (Inl e, s2) \<Rightarrow> (Inl e, s2)
                     | (Inr d, s2) \<Rightarrow> store_new_token w k ''Unable to get a stable access token.'' d s2)
      in if forceRefresh then create (store_delete k s0)
         else (case store_get w k s0 of
                 (Some cachedToken, s1) \<Rightarrow> (Inr (access_token cachedToken), s1)
               | (None, s1) \<Rightarrow> create s1))"

text \<open>\<open>res.headers.get('content-type')?.startsWith('application/json')\<close>\<close>

definition json_content :: "response \<Rightarrow> bool" where
  "json_content res =
     (case content_type res of None \<Rightarrow> False | Some ct \<Rightarrow> prefix ''application/json'' ct)"

definition request_failed :: "string \<Rightarrow> string" where
  "request_failed path = ''Request to '' @ [CHR 0x27] @ path @ [CHR 0x27] @ '' is failed.''"

text \<open>
  \<open>#request\<close> and \<open>#raw\<close> call themselves once, with \<open>isRetry = true\<close>; the retried
  call cannot call itself again.
\<close>

function client_request ::
  "world \<Rightarrow> WeixinOptions \<Rightarrow> http_method \<Rightarrow> string \<Rightarrow> jobj \<Rightarrow> bool \<Rightarrow> state \<Rightarrow> jobj result" where
  "client_request w opts method path params isRetry s =
     (case getAccessToken w opts False s of
        (Inl e, s1) \<Rightarrow> (Inl e, s1)
      | (Inr accessToken, s1) \<Rightarrow>
          (case fetcher_request w method path (Some accessToken) params s1 of
             (Inl e, s2) \<Rightarrow> (Inl e, s2)
           | (Inr res, s2) \<Rightarrow>
               (case res_json res s2 of
                  (Inl e, s3) \<Rightarrow> (Inl e, s3)
                | (Inr d, s3) \<Rightarrow>
                    if map_of d ''errcode'' \<noteq> None \<and> map_of d ''errcode'' \<noteq> Some (JNum 0) then
                      if \<not> isRetry \<and> map_of d ''errcode'' = Some (JNum 40001) then
                        (case getAccessToken w opts True s3 of
                           (Inl e, s4) \<Rightarrow> (Inl e, s4)
                         | (Inr _, s4) \<Rightarrow> client_request w opts method path params True s4)
                      else (Inl (Thrown (createError (request_failed path) d)), s3)
                    else (Inr d, s3))))"
  by pat_completeness auto
termination
  by (relation "measure (\<lambda>(w, opts, method, path, params, isRetry, s). if isRetry then 0 else 1)") auto

function client_raw ::
  "world \<Rightarrow> WeixinOptions \<Rightarrow> http_method \<Rightarrow> string \<Rightarrow> jobj \<Rightarrow> bool \<Rightarrow> state \<Rightarrow> response result" where
  "client_raw w opts method path params isRetry s =
     (case getAccessToken w opts False s of
        (Inl e, s1) \<Rightarrow> (Inl e, s1)
      | (Inr accessToken, s1) \<Rightarrow>
          (case fetcher_request w method path (Some accessToken) params s1 of
             (Inl e, s2) \<Rightarrow> (Inl e, s2)
           | (Inr res, s2) \<Rightarrow>
               if json_content res then
                 (case res_json res s2 of
                    (Inl e, s3) \<Rightarrow> (Inl e, s3)
                  | (Inr d, s3) \<Rightarrow>
                      if \<not> isRetry \<and> map_of d ''errcode'' = Some (JNum 40001) then
                        (case getAccessToken w opts True s3 of
                           (Inl e, s4) \<Rightarrow> (Inl e, s4)
                         | (Inr _, s4) \<Rightarrow> client_raw w opts method path params True s4)
                      else (Inl (Thrown (createError (request_failed path) d)), s3))
               else (Inr res, s2)))"
  by pat_completeness auto
termination
  by (relation "measure (\<lambda>(w, opts, method, path, params, isRetry, s). if isRetry then 0 else 1)") auto

definition get :: "world \<Rightarrow> WeixinOptions \<Rightarrow> string \<Rightarrow> jobj \<Rightarrow> state \<Rightarrow> jobj result" where
  "get w opts path query s = client_request w opts GET path query False s"

definition post :: "world \<Rightarrow> WeixinOptions \<Rightarrow> string \<Rightarrow> jobj \<Rightarrow> state \<Rightarrow> jobj result" where
  "post w opts path body s = client_request w opts POST path body False s"

definition getRaw :: "world \<Rightarrow> WeixinOptions \<Rightarrow> string \<Rightarrow> jobj \<Rightarrow> state \<Rightarrow> response result" where
  "getRaw w opts path query s = client_raw w opts GET path query False s"

definition postRaw :: "world \<Rightarrow> WeixinOptions \<Rightarrow> string \<Rightarrow> jobj \<Rightarrow> state \<Rightarrow> response result" where
  "postRaw w opts path body s = client_raw w opts POST path body False s"

section \<open>Reading the log\<close>

text \<open>
  A data-endpoint call is a network call made by a \<open>request\<close> that was given an access
  token (the client always gives one; the token endpoints give \<open>null\<close>).
  \<open>data_replies\<close> lists the replies to the data-endpoint calls, in order.
\<close>

fun data_replies :: "event list \<Rightarrow> response option list" where
  "data_replies [] = []"
| "data_replies (Fetch (Some t) c r # es) = r # data_replies es"
| "data_replies (e # es) = data_replies es"

fun is_token_manager_call :: "event \<Rightarrow> bool" where
  "is_token_manager_call (Call_getAccessToken f) = True"
| "is_token_manager_call (Call_getStableAccessToken f) = True"
| "is_token_manager_call e = False"

fun is_creation :: "event \<Rightarrow> bool" where
  "is_creation Call_createAccessToken = True"
| "is_creation (Call_createStableAccessToken f) = True"
| "is_creation e = False"

fun is_cache_miss :: "event \<Rightarrow> bool" where
  "is_cache_miss (Store_get k None) = True"
| "is_cache_miss e = False"

fun is_network_call :: "event \<Rightarrow> bool" where
  "is_network_call (Fetch t c r) = True"
| "is_network_call e = False"

definition token_manager_calls :: "event list \<Rightarrow> nat" where
  "token_manager_calls es = length (filter is_token_manager_call es)"

definition creations :: "event list \<Rightarrow> nat" where
  "creations es = length (filter is_creation es)"

definition cache_misses :: "event list \<Rightarrow> nat" where
  "cache_misses es = length (filter is_cache_miss es)"

definition forced_refreshes :: "event list \<Rightarrow> nat" where
  "forced_refreshes es = count_list es (Call_getAccessToken True)"

definition network_calls :: "event list \<Rightarrow> nat" where
  "network_calls es = length (filter is_network_call es)"

text \<open>
  What an attempt that cannot retry makes of the reply to its data call: the branches of
  \<open>#request\<close> and of \<open>#raw\<close> after the call, without the retry.
\<close>

definition json_outcome :: "string \<Rightarrow> response option \<Rightarrow> thrown + jobj" where
  "json_outcome path reply =
     (case reply of
        None \<Rightarrow> Inl FetchRejected
      | Some res \<Rightarrow>
          (case json res of
             None \<Rightarrow> Inl BodyNotJson
           | Some d \<Rightarrow>
               if map_of d ''errcode'' \<noteq> None \<and> map_of d ''errcode'' \<noteq> Some (JNum 0)
               then Inl (Thrown (createError (request_failed path) d))
               else Inr d))"

definition raw_outcome :: "string \<Rightarrow> response option \<Rightarrow> thrown + response" where
  "raw_outcome path reply =
     (case reply of
        None \<Rightarrow> Inl FetchRejected
      | Some res \<Rightarrow>
          if json_content res then
            (case json res of
               None \<Rightarrow> Inl BodyNotJson
             | Some d \<Rightarrow> Inl (Thrown (createError (request_failed path) d)))
          else Inr res)"

text \<open>The reply is a JSON body with \<open>errcode\<close> 40001.\<close>

definition invalid_credential :: "response option \<Rightarrow> bool" where
  "invalid_credential reply =
     (case reply of
        None \<Rightarrow> False
      | Some res \<Rightarrow>
          (case json res of
             None \<Rightarrow> False
           | Some d \<Rightarrow> map_of d ''errcode'' = Some (JNum 40001)))"

text \<open>The same for \<open>#raw\<close>, which parses the body only under a JSON content type.\<close>

definition invalid_credential_raw :: "response option \<Rightarrow> bool" where
  "invalid_credential_raw reply =
     (case reply of
        None \<Rightarrow> False
      | Some res \<Rightarrow> json_content res \<and> invalid_credential reply)"

text \<open>The state with the entry under one key replaced (\<open>None\<close>: removed).\<close>

definition with_entry :: "string \<Rightarrow> Token option \<Rightarrow> state \<Rightarrow> state" where
  "with_entry k x s = s\<lparr>tokens := (tokens s)(k := x)\<rparr>"

text \<open>Calling an operation n times in a row, collecting the outcomes.\<close>

fun repeated :: "(state \<Rightarrow> 'a result) \<Rightarrow> nat \<Rightarrow> state \<Rightarrow> (thrown + 'a) list \<times> state" where
  "repeated f 0 s = ([], s)"
| "repeated f (Suc n) s =
     (case f s of (r, s1) \<Rightarrow> (case repeated f n s1 of (rs, s2) \<Rightarrow> (r # rs, s2)))"

section \<open>Example runs\<close>

text \<open>
  Concrete inputs: a client as the repository's tests configure it, replies as their
  \<open>createResponse\<close> builds them, a world that answers the calls from a script and
  whose clock stands still, a store that is empty and one that holds a token.
\<close>

definition example_options :: WeixinOptions where
  "example_options = \<lparr>appid = ''appid'', secret = ''secret''\<rparr>"

definition json_response :: "jobj \<Rightarrow> response" where
  "json_response d = \<lparr>content_type = Some ''application/json'', json = Some d\<rparr>"

definition image_response :: response where
  "image_response = \<lparr>content_type = Some ''image/jpeg'', json = None\<rparr>"

definition token_response :: "string \<Rightarrow> response" where
  "token_response tok = json_response [(''access_token'', JStr tok), (''expires_in'', JNum 7200)]"

definition errcode_response :: "int \<Rightarrow> response" where
  "errcode_response c = json_response [(''errcode'', JNum c), (''errmsg'', JStr ''failed'')]"

definition scripted_world :: "response list \<Rightarrow> int \<Rightarrow> world" where
  "scripted_world rs t =
     \<lparr>fetch_reply = (\<lambda>n. if n < length rs then Some (rs ! n) else None),
      date_now = (\<lambda>n. t)\<rparr>"

definition cold_state :: state where
  "cold_state = \<lparr>tokens = Map.empty, net_calls = 0, clock_reads = 0, trace = []\<rparr>"

definition warm_state :: state where
  "warm_state =
     \<lparr>tokens = [''appid:secret'' \<mapsto>
                  \<lparr>data = \<lparr>access_token = ''CACHED'', refresh_token = None\<rparr>,
                   expiresAt = 7190000\<rparr>],
      net_calls = 0, clock_reads = 0, trace = []\<rparr>"

text \<open>
  Scripts of replies. With a cached token: the data endpoint rejects the token, the forced
  refresh gets a new one, the second attempt succeeds; or the token is rejected twice. With
  an empty store the same, after a first token creation.
\<close>

definition quota_payload :: jobj where
  "quota_payload = [(''quota'', JObj [(''daily_limit'', JNum 100), (''used'', JNum 1), (''remain'', JNum 99)])]"

definition stale_then_ok :: world where
  "stale_then_ok =
     scripted_world [errcode_response 40001, token_response ''FRESH'', json_response quota_payload] 1000"

definition stale_then_image :: world where
  "stale_then_image =
     scripted_world [errcode_response 40001, token_response ''FRESH'', image_response] 1000"

definition cold_stale_then_ok :: world where
  "cold_stale_then_ok =
     scripted_world [token_response ''FIRST'', errcode_response 40001, token_response ''FRESH'',
                     json_response quota_payload] 1000"

definition cold_stale_then_image :: world where
  "cold_stale_then_image =
     scripted_world [token_response ''FIRST'', errcode_response 40001, token_response ''FRESH'',
                     image_response] 1000"

definition stale_twice :: world where
  "stale_twice =
     scripted_world [errcode_response 40001, token_response ''FRESH'', errcode_response 40001] 1000"

text \<open>
  Replies with a JSON content type that carry no error: \<open>errcode\<close> zero, and no
  \<open>errcode\<close> at all. A token endpoint that answers with an error payload. A second
  client with the same \<open>appid\<close> and another secret, and a store that holds a stable
  token.
\<close>

definition zero_errcode :: world where
  "zero_errcode = scripted_world [json_response [(''errcode'', JNum 0), (''errmsg'', JStr ''ok'')]] 1000"

definition no_errcode :: world where
  "no_errcode = scripted_world [json_response quota_payload] 1000"

definition image_world :: world where
  "image_world = scripted_world [image_response] 1000"

definition invalid_secret_world :: world where
  "invalid_secret_world = scripted_world [errcode_response 40125] 1000"

definition silent_world :: world where
  "silent_world = scripted_world [] 1000"

definition other_client :: WeixinOptions where
  "other_client = \<lparr>appid = ''appid'', secret = ''secret-of-another-client''\<rparr>"

definition unrelated_client :: WeixinOptions where
  "unrelated_client = \<lparr>appid = ''appid'', secret = ''SECRET''\<rparr>"

definition warm_stable_state :: state where
  "warm_stable_state =
     \<lparr>tokens = [''appid:secret:stable'' \<mapsto>
                  \<lparr>data = \<lparr>access_token = ''STABLE'', refresh_token = None\<rparr>,
                   expiresAt = 7190000\<rparr>],
      net_calls = 0, clock_reads = 0, trace = []\<rparr>"

text \<open>
  Two more scripts for a cached token that the data endpoint rejects: the second attempt is
  rejected again, with a message of its own, or it is answered with \<open>errcode\<close> 0 under
  a JSON content type.
\<close>

definition stale_twice_told_apart :: world where
  "stale_twice_told_apart =
     scripted_world [errcode_response 40001, token_response ''FRESH'',
                     json_response [(''errcode'', JNum 40001), (''errmsg'', JStr ''still invalid'')]] 1000"

definition stale_then_zero :: world where
  "stale_then_zero =
     scripted_world [errcode_response 40001, token_response ''FRESH'',
                     json_response [(''errcode'', JNum 0), (''errmsg'', JStr ''ok'')]] 1000"

section \<open>Lemmas about the log\<close>

declare client_request.simps [simp del] client_raw.simps [simp del]

lemma data_replies_append [simp]: "data_replies (xs @ ys) = data_replies xs @ data_replies ys"
  by (induction xs rule: data_replies.induct) auto

lemma token_manager_calls_simps [simp]:
  "token_manager_calls [] = 0"
  "token_manager_calls (e # es) = (if is_token_manager_call e then 1 else 0) + token_manager_calls es"
  "token_manager_calls (xs @ ys) = token_manager_calls xs + token_manager_calls ys"
  by (simp_all add: token_manager_calls_def)

lemma creations_simps [simp]:
  "creations [] = 0"
  "creations (e # es) = (if is_creation e then 1 else 0) + creations es"
  "creations (xs @ ys) = creations xs + creations ys"
  by (simp_all add: creations_def)

lemma cache_misses_simps [simp]:
  "cache_misses [] = 0"
  "cache_misses (e # es) = (if is_cache_miss e then 1 else 0) + cache_misses es"
  "cache_misses (xs @ ys) = cache_misses xs + cache_misses ys"
  by (simp_all add: cache_misses_def)

lemma forced_refreshes_simps [simp]:
  "forced_refreshes [] = 0"
  "forced_refreshes (e # es) = (if e = Call_getAccessToken True then 1 else 0) + forced_refreshes es"
  "forced_refreshes (xs @ ys) = forced_refreshes xs + forced_refreshes ys"
  by (simp_all add: forced_refreshes_def)

lemma network_calls_simps [simp]:
  "network_calls [] = 0"
  "network_calls (e # es) = (if is_network_call e then 1 else 0) + network_calls es"
  "network_calls (xs @ ys) = network_calls xs + network_calls ys"
  by (simp_all add: network_calls_def)

lemmas run_defs = get_def post_def getRaw_def postRaw_def
  getAccessToken_def getStableAccessToken_def createAccessToken_def createStableAccessToken_def
  fetcher_request_def fetch_def
  store_new_token_def store_get_def store_set_def store_delete_def getTokenData_def
  setToken_def deleteToken_def res_json_def log_event_def truthy_def compositeKey_def
  json_content_def new_events_def API_URL_def request_failed_def
  client_request.simps client_raw.simps

lemmas example_defs = example_options_def json_response_def image_response_def
  token_response_def errcode_response_def scripted_world_def cold_state_def warm_state_def
  quota_payload_def stale_then_ok_def stale_then_image_def cold_stale_then_ok_def
  cold_stale_then_image_def stale_twice_def zero_errcode_def no_errcode_def image_world_def
  invalid_secret_world_def silent_world_def other_client_def unrelated_client_def
  warm_stable_state_def stale_twice_told_apart_def stale_then_zero_def

lemma new_events_append: "trace s' = trace s @ es \<Longrightarrow> new_events s s' = es"
  by (simp add: new_events_def)

lemma fetcher_request_summary:
  assumes "fetcher_request w m path a params s = (r, s')"
  shows "(\<not> prefix ''/'' path \<and> s' = s \<and> r = Inl (PlainError path_error)) \<or>
         (prefix ''/'' path \<and> (\<exists>c. trace s' = trace s @ [Fetch a c (fetch_reply w (net_calls s))]) \<and>
          tokens s' = tokens s \<and> clock_reads s' = clock_reads s \<and> net_calls s' = Suc (net_calls s) \<and>
          r = (case fetch_reply w (net_calls s) of None \<Rightarrow> Inl FetchRejected | Some res \<Rightarrow> Inr res))"
  using assms
  by (cases path) (auto simp: fetcher_request_def fetch_def log_event_def Let_def split: if_splits option.splits)

lemma getAccessToken_summary:
  assumes "getAccessToken w opts f s = (r, s')"
  shows "\<exists>es. trace s' = trace s @ Call_getAccessToken f # es \<and> data_replies es = [] \<and>
           token_manager_calls es = 0 \<and> forced_refreshes es = 0 \<and>
           creations es = cache_misses es + (if f then 1 else 0) \<and>
           cache_misses es \<le> (if f then 0 else 1)"
  using assms
  by (auto simp: getAccessToken_def createAccessToken_def fetcher_request_def fetch_def
        store_new_token_def store_get_def store_set_def store_delete_def getTokenData_def
        res_json_def log_event_def Let_def
      split: if_splits option.splits prod.splits sum.splits jval.splits)

section \<open>One attempt, and the whole request\<close>

lemma client_request_attempt:
  assumes run: "client_request w opts m path params isRetry s = (r, s')"
  obtains
    (failed) es where "trace s' = trace s @ es" "token_manager_calls es = 1"
      "forced_refreshes es = 0" "creations es = cache_misses es" "cache_misses es \<le> 1"
      "data_replies es = []" "isl r"
  | (answered) es reply where "trace s' = trace s @ es" "token_manager_calls es = 1"
      "forced_refreshes es = 0" "creations es = cache_misses es" "cache_misses es \<le> 1"
      "data_replies es = [reply]" "isRetry \<or> \<not> invalid_credential reply"
      "r = json_outcome path reply"
  | (retry) es reply s3 where "\<not> isRetry" "trace s3 = trace s @ es" "token_manager_calls es = 1"
      "forced_refreshes es = 0" "creations es = cache_misses es" "cache_misses es \<le> 1"
      "data_replies es = [reply]" "invalid_credential reply"
      "case getAccessToken w opts True s3 of
         (Inl e, s4) \<Rightarrow> r = Inl e \<and> s' = s4
       | (Inr t, s4) \<Rightarrow> client_request w opts m path params True s4 = (r, s')"
proof -
  obtain r1 s1 where g: "getAccessToken w opts False s = (r1, s1)" by fastforce
  obtain es1 where es1: "trace s1 = trace s @ Call_getAccessToken False # es1"
      "data_replies es1 = []" "token_manager_calls es1 = 0" "forced_refreshes es1 = 0"
      "creations es1 = cache_misses es1" "cache_misses es1 \<le> 1"
    using getAccessToken_summary[OF g] by auto
  show ?thesis
  proof (cases r1)
    case (Inl e)
    with g run have "r = Inl e" "s' = s1" by (simp_all add: client_request.simps)
    with es1 show ?thesis
      by (intro failed[of "Call_getAccessToken False # es1"]) simp_all
  next
    case (Inr tok)
    obtain r2 s2 where f: "fetcher_request w m path (Some tok) params s1 = (r2, s2)" by fastforce
    from fetcher_request_summary[OF f] show ?thesis
    proof (elim disjE conjE exE)
      assume "s2 = s1" "r2 = Inl (PlainError path_error)"
      with g Inr f run have "r = Inl (PlainError path_error)" "s' = s1"
        by (simp_all add: client_request.simps)
      with es1 show ?thesis
        by (intro failed[of "Call_getAccessToken False # es1"]) simp_all
    next
      fix c
      assume tr: "trace s2 = trace s1 @ [Fetch (Some tok) c (fetch_reply w (net_calls s1))]"
        and r2: "r2 = (case fetch_reply w (net_calls s1) of None \<Rightarrow> Inl FetchRejected | Some res \<Rightarrow> Inr res)"
      let ?reply = "fetch_reply w (net_calls s1)"
      let ?es = "Call_getAccessToken False # es1 @ [Fetch (Some tok) c ?reply]"
      have tr2: "trace s2 = trace s @ ?es" using tr es1 by simp
      have counts: "token_manager_calls ?es = 1" "forced_refreshes ?es = 0"
        "creations ?es = cache_misses ?es" "cache_misses ?es \<le> 1" "data_replies ?es = [?reply]"
        using es1 by simp_all
      show ?thesis
      proof (cases "\<not> isRetry \<and> invalid_credential ?reply")
        case True
        then obtain res d where rd: "?reply = Some res" "json res = Some d"
            "map_of d ''errcode'' = Some (JNum 40001)"
          by (auto simp: invalid_credential_def split: option.splits)
        have "case getAccessToken w opts True s2 of
                (Inl e, s4) \<Rightarrow> r = Inl e \<and> s' = s4
              | (Inr t, s4) \<Rightarrow> client_request w opts m path params True s4 = (r, s')"
          using run g Inr f r2 rd True
          by (subst (asm) client_request.simps) (auto simp: res_json_def split: prod.splits sum.splits)
        with True tr2 counts show ?thesis
          by (intro retry[of s2 ?es ?reply]) simp_all
      next
        case False
        have "r = json_outcome path ?reply \<and> s' = s2"
          using run g Inr f r2 False
          by (subst (asm) client_request.simps)
             (auto simp: res_json_def json_outcome_def invalid_credential_def split: option.splits if_splits)
        with False tr2 counts show ?thesis
          by (intro answered[of ?es ?reply]) auto
      qed
    qed
  qed
qed

lemma client_request_summary:
  assumes run: "client_request w opts m path params False s = (r, s')"
  shows "\<exists>es. trace s' = trace s @ es \<and> token_manager_calls es \<le> 3 \<and>
     length (data_replies es) \<le> 2 \<and>
     (data_replies es = [] \<longrightarrow> isl r) \<and>
     (\<forall>reply rest. data_replies es = reply # rest \<and> \<not> invalid_credential reply \<longrightarrow>
        rest = [] \<and> r = json_outcome path reply \<and> forced_refreshes es = 0 \<and>
        token_manager_calls es = 1 \<and> creations es = cache_misses es \<and> cache_misses es \<le> 1) \<and>
     (\<forall>reply. data_replies es = [reply] \<and> invalid_credential reply \<longrightarrow>
        isl r \<and> forced_refreshes es = 1) \<and>
     (\<forall>reply1 reply2 rest. data_replies es = reply1 # reply2 # rest \<longrightarrow>
        invalid_credential reply1 \<and> rest = [] \<and> r = json_outcome path reply2 \<and>
        forced_refreshes es = 1 \<and> token_manager_calls es = 3 \<and>
        creations es = 1 + cache_misses es \<and> cache_misses es \<le> 2)"
  using run
proof (cases rule: client_request_attempt)
  case (failed es)
  then show ?thesis by (intro exI[of _ es]) simp
next
  case (answered es reply)
  then show ?thesis by (intro exI[of _ es]) simp
next
  case (retry es reply s3)
  obtain r4 s4 where g: "getAccessToken w opts True s3 = (r4, s4)" by fastforce
  obtain es4 where es4: "trace s4 = trace s3 @ Call_getAccessToken True # es4"
    "data_replies es4 = []" "token_manager_calls es4 = 0" "forced_refreshes es4 = 0"
    "creations es4 = cache_misses es4 + 1" "cache_misses es4 = 0"
    using getAccessToken_summary[OF g] by auto
  let ?es = "es @ Call_getAccessToken True # es4"
  have mid: "trace s4 = trace s @ ?es" "token_manager_calls ?es = 2" "forced_refreshes ?es = 1"
    "creations ?es = 1 + cache_misses ?es" "cache_misses ?es \<le> 1" "data_replies ?es = [reply]"
    using retry es4 by simp_all
  show ?thesis
  proof (cases r4)
    case (Inl e)
    with retry(9) g have "r = Inl e" "s' = s4" by simp_all
    with mid retry(8) show ?thesis by (intro exI[of _ ?es]) simp
  next
    case (Inr t)
    with retry(9) g have again: "client_request w opts m path params True s4 = (r, s')" by simp
    from again show ?thesis
    proof (cases rule: client_request_attempt)
      case (failed es5)
      let ?all = "?es @ es5"
      have "trace s' = trace s @ ?all" "token_manager_calls ?all = 3" "forced_refreshes ?all = 1"
        "creations ?all = 1 + cache_misses ?all" "cache_misses ?all \<le> 2"
        "data_replies ?all = [reply]" "isl r"
        using failed mid retry es4 by simp_all
      with retry(8) show ?thesis by (intro exI[of _ ?all]) simp
    next
      case (answered es5 reply2)
      let ?all = "?es @ es5"
      have "trace s' = trace s @ ?all" "token_manager_calls ?all = 3" "forced_refreshes ?all = 1"
        "creations ?all = 1 + cache_misses ?all" "cache_misses ?all \<le> 2"
        "data_replies ?all = [reply, reply2]" "r = json_outcome path reply2"
        using answered mid retry es4 by simp_all
      with retry(8) show ?thesis by (intro exI[of _ ?all]) simp
    next
      case (retry es5 reply2 s5)
      then show ?thesis by simp
    qed
  qed
qed

lemma client_raw_attempt:
  assumes run: "client_raw w opts m path params isRetry s = (r, s')"
  obtains
    (failed) es where "trace s' = trace s @ es" "token_manager_calls es = 1"
      "forced_refreshes es = 0" "creations es = cache_misses es" "cache_misses es \<le> 1"
      "data_replies es = []" "isl r"
  | (answered) es reply where "trace s' = trace s @ es" "token_manager_calls es = 1"
      "forced_refreshes es = 0" "creations es = cache_misses es" "cache_misses es \<le> 1"
      "data_replies es = [reply]" "isRetry \<or> \<not> invalid_credential_raw reply"
      "r = raw_outcome path reply"
  | (retry) es reply s3 where "\<not> isRetry" "trace s3 = trace s @ es" "token_manager_calls es = 1"
      "forced_refreshes es = 0" "creations es = cache_misses es" "cache_misses es \<le> 1"
      "data_replies es = [reply]" "invalid_credential_raw reply"
      "case getAccessToken w opts True s3 of
         (Inl e, s4) \<Rightarrow> r = Inl e \<and> s' = s4
       | (Inr t, s4) \<Rightarrow> client_raw w opts m path params True s4 = (r, s')"
proof -
  obtain r1 s1 where g: "getAccessToken w opts False s = (r1, s1)" by fastforce
  obtain es1 where es1: "trace s1 = trace s @ Call_getAccessToken False # es1"
      "data_replies es1 = []" "token_manager_calls es1 = 0" "forced_refreshes es1 = 0"
      "creations es1 = cache_misses es1" "cache_misses es1 \<le> 1"
    using getAccessToken_summary[OF g] by auto
  show ?thesis
  proof (cases r1)
    case (Inl e)
    with g run have "r = Inl e" "s' = s1" by (simp_all add: client_raw.simps)
    with es1 show ?thesis
      by (intro failed[of "Call_getAccessToken False # es1"]) simp_all
  next
    case (Inr tok)
    obtain r2 s2 where f: "fetcher_request w m path (Some tok) params s1 = (r2, s2)" by fastforce
    from fetcher_request_summary[OF f] show ?thesis
    proof (elim disjE conjE exE)
      assume "s2 = s1" "r2 = Inl (PlainError path_error)"
      with g Inr f run have "r = Inl (PlainError path_error)" "s' = s1"
        by (simp_all add: client_raw.simps)
      with es1 show ?thesis
        by (intro failed[of "Call_getAccessToken False # es1"]) simp_all
    next
      fix c
      assume tr: "trace s2 = trace s1 @ [Fetch (Some tok) c (fetch_reply w (net_calls s1))]"
        and r2: "r2 = (case fetch_reply w (net_calls s1) of None \<Rightarrow> Inl FetchRejected | Some res \<Rightarrow> Inr res)"
      let ?reply = "fetch_reply w (net_calls s1)"
      let ?es = "Call_getAccessToken False # es1 @ [Fetch (Some tok) c ?reply]"
      have tr2: "trace s2 = trace s @ ?es" using tr es1 by simp
      have counts: "token_manager_calls ?es = 1" "forced_refreshes ?es = 0"
        "creations ?es = cache_misses ?es" "cache_misses ?es \<le> 1" "data_replies ?es = [?reply]"
        using es1 by simp_all
      show ?thesis
      proof (cases "\<not> isRetry \<and> invalid_credential_raw ?reply")
        case True
        then obtain res d where rd: "?reply = Some res" "json_content res" "json res = Some d"
            "map_of d ''errcode'' = Some (JNum 40001)"
          by (auto simp: invalid_credential_raw_def invalid_credential_def split: option.splits)
        have "case getAccessToken w opts True s2 of
                (Inl e, s4) \<Rightarrow> r = Inl e \<and> s' = s4
              | (Inr t, s4) \<Rightarrow> client_raw w opts m path params True s4 = (r, s')"
          using run g Inr f r2 rd True
          by (subst (asm) client_raw.simps) (auto simp: res_json_def split: prod.splits sum.splits)
        with True tr2 counts show ?thesis
          by (intro retry[of s2 ?es ?reply]) simp_all
      next
        case False
        have "r = raw_outcome path ?reply \<and> s' = s2"
          using run g Inr f r2 False
          by (subst (asm) client_raw.simps)
             (auto simp: res_json_def raw_outcome_def invalid_credential_raw_def invalid_credential_def split: option.splits if_splits)
        with False tr2 counts show ?thesis
          by (intro answered[of ?es ?reply]) auto
      qed
    qed
  qed
qed

lemma client_raw_summary:
  assumes run: "client_raw w opts m path params False s = (r, s')"
  shows "\<exists>es. trace s' = trace s @ es \<and> token_manager_calls es \<le> 3 \<and>
     length (data_replies es) \<le> 2 \<and>
     (data_replies es = [] \<longrightarrow> isl r) \<and>
     (\<forall>reply rest. data_replies es = reply # rest \<and> \<not> invalid_credential_raw reply \<longrightarrow>
        rest = [] \<and> r = raw_outcome path reply \<and> forced_refreshes es = 0 \<and>
        token_manager_calls es = 1 \<and> creations es = cache_misses es \<and> cache_misses es \<le> 1) \<and>
     (\<forall>reply. data_replies es = [reply] \<and> invalid_credential_raw reply \<longrightarrow>
        isl r \<and> forced_refreshes es = 1) \<and>
     (\<forall>reply1 reply2 rest. data_replies es = reply1 # reply2 # rest \<longrightarrow>
        invalid_credential_raw reply1 \<and> rest = [] \<and> r = raw_outcome path reply2 \<and>
        forced_refreshes es = 1 \<and> token_manager_calls es = 3 \<and>
        creations es = 1 + cache_misses es \<and> cache_misses es \<le> 2)"
  using run
proof (cases rule: client_raw_attempt)
  case (failed es)
  then show ?thesis by (intro exI[of _ es]) simp
next
  case (answered es reply)
  then show ?thesis by (intro exI[of _ es]) simp
next
  case (retry es reply s3)
  obtain r4 s4 where g: "getAccessToken w opts True s3 = (r4, s4)" by fastforce
  obtain es4 where es4: "trace s4 = trace s3 @ Call_getAccessToken True # es4"
    "data_replies es4 = []" "token_manager_calls es4 = 0" "forced_refreshes es4 = 0"
    "creations es4 = cache_misses es4 + 1" "cache_misses es4 = 0"
    using getAccessToken_summary[OF g] by auto
  let ?es = "es @ Call_getAccessToken True # es4"
  have mid: "trace s4 = trace s @ ?es" "token_manager_calls ?es = 2" "forced_refreshes ?es = 1"
    "creations ?es = 1 + cache_misses ?es" "cache_misses ?es \<le> 1" "data_replies ?es = [reply]"
    using retry es4 by simp_all
  show ?thesis
  proof (cases r4)
    case (Inl e)
    with retry(9) g have "r = Inl e" "s' = s4" by simp_all
    with mid retry(8) show ?thesis by (intro exI[of _ ?es]) simp
  next
    case (Inr t)
    with retry(9) g have again: "client_raw w opts m path params True s4 = (r, s')" by simp
    from again show ?thesis
    proof (cases rule: client_raw_attempt)
      case (failed es5)
      let ?all = "?es @ es5"
      have "trace s' = trace s @ ?all" "token_manager_calls ?all = 3" "forced_refreshes ?all = 1"
        "creations ?all = 1 + cache_misses ?all" "cache_misses ?all \<le> 2"
        "data_replies ?all = [reply]" "isl r"
        using failed mid retry es4 by simp_all
      with retry(8) show ?thesis by (intro exI[of _ ?all]) simp
    next
      case (answered es5 reply2)
      let ?all = "?es @ es5"
      have "trace s' = trace s @ ?all" "token_manager_calls ?all = 3" "forced_refreshes ?all = 1"
        "creations ?all = 1 + cache_misses ?all" "cache_misses ?all \<le> 2"
        "data_replies ?all = [reply, reply2]" "r = raw_outcome path reply2"
        using answered mid retry es4 by simp_all
      with retry(8) show ?thesis by (intro exI[of _ ?all]) simp
    next
      case (retry es5 reply2 s5)
      then show ?thesis by simp
    qed
  qed
qed

lemma json_run:
  assumes "get w opts path params s = (r, s') \<or> post w opts path params s = (r, s')"
  shows "\<exists>m. client_request w opts m path params False s = (r, s')"
  using assms by (auto simp: get_def post_def)

lemma raw_run:
  assumes "getRaw w opts path params s = (r, s') \<or> postRaw w opts path params s = (r, s')"
  shows "\<exists>m. client_raw w opts m path params False s = (r, s')"
  using assms by (auto simp: getRaw_def postRaw_def)

text \<open>
  The same runs read from the inputs: what the request does when the token function delivers
  a token and the world answers the data call.
\<close>

lemma fetcher_request_reply:
  assumes "prefix ''/'' path" and "fetch_reply w (net_calls s) = Some res"
  shows "fst (fetcher_request w m path a params s) = Inr res"
    and "\<exists>c. trace (snd (fetcher_request w m path a params s)) = trace s @ [Fetch a c (Some res)]"
  using fetcher_request_summary
    [of w m path a params s "fst (fetcher_request w m path a params s)"
        "snd (fetcher_request w m path a params s)"] assms
  by auto

lemma data_call_log:
  assumes t: "getAccessToken w opts f s = (Inr a, s1)"
    and p: "prefix ''/'' path" and r: "fetch_reply w (net_calls s1) = Some res"
  shows "\<exists>es. trace (snd (fetcher_request w m path (Some a) params s1)) = trace s @ es \<and>
           data_replies es = [Some res]"
proof -
  obtain es1 where es1: "trace s1 = trace s @ Call_getAccessToken f # es1" "data_replies es1 = []"
    using getAccessToken_summary[OF t] by auto
  obtain c where c: "trace (snd (fetcher_request w m path (Some a) params s1))
      = trace s1 @ [Fetch (Some a) c (Some res)]"
    using fetcher_request_reply(2)[OF p r] by blast
  show ?thesis
    using es1 c
    by (intro exI[of _ "Call_getAccessToken f # es1 @ [Fetch (Some a) c (Some res)]"]) simp
qed

lemma client_request_answered:
  assumes t: "getAccessToken w opts False s = (Inr a, s1)"
    and p: "prefix ''/'' path" and r: "fetch_reply w (net_calls s1) = Some res"
  shows "isRetry \<or> \<not> invalid_credential (Some res) \<Longrightarrow>
      client_request w opts m path params isRetry s
        = (json_outcome path (Some res), snd (fetcher_request w m path (Some a) params s1))"
    and "\<not> isRetry \<Longrightarrow> invalid_credential (Some res) \<Longrightarrow>
      client_request w opts m path params isRetry s
        = (case getAccessToken w opts True (snd (fetcher_request w m path (Some a) params s1)) of
             (Inl e, s4) \<Rightarrow> (Inl e, s4)
           | (Inr _, s4) \<Rightarrow> client_request w opts m path params True s4)"
proof -
  obtain s2 where f: "fetcher_request w m path (Some a) params s1 = (Inr res, s2)"
    using fetcher_request_reply(1)[OF p r, of m "Some a" params] by (metis prod.collapse)
  show "isRetry \<or> \<not> invalid_credential (Some res) \<Longrightarrow>
      client_request w opts m path params isRetry s
        = (json_outcome path (Some res), snd (fetcher_request w m path (Some a) params s1))"
    by (subst client_request.simps)
       (auto simp: t f res_json_def json_outcome_def invalid_credential_def split: option.splits)
  show "\<not> isRetry \<Longrightarrow> invalid_credential (Some res) \<Longrightarrow>
      client_request w opts m path params isRetry s
        = (case getAccessToken w opts True (snd (fetcher_request w m path (Some a) params s1)) of
             (Inl e, s4) \<Rightarrow> (Inl e, s4)
           | (Inr _, s4) \<Rightarrow> client_request w opts m path params True s4)"
    by (subst client_request.simps)
       (auto simp: t f res_json_def invalid_credential_def split: option.splits)
qed

lemma client_request_retried:
  assumes t1: "getAccessToken w opts False s = (Inr a1, s1)"
    and p: "prefix ''/'' path"
    and r1: "fetch_reply w (net_calls s1) = Some res1" "invalid_credential (Some res1)"
    and t2: "getAccessToken w opts True (snd (fetcher_request w m path (Some a1) params s1)) = (Inr a2, s3)"
    and t3: "getAccessToken w opts False s3 = (Inr a3, s4)"
    and r2: "fetch_reply w (net_calls s4) = Some res2"
  shows "client_request w opts m path params False s
           = (json_outcome path (Some res2), snd (fetcher_request w m path (Some a3) params s4))"
    and "data_replies (new_events s (snd (fetcher_request w m path (Some a3) params s4)))
           = [Some res1, Some res2]"
proof -
  have "client_request w opts m path params False s = client_request w opts m path params True s3"
    using client_request_answered(2)[OF t1 p r1(1), of False m params] r1(2) t2 by simp
  also have "\<dots> = (json_outcome path (Some res2), snd (fetcher_request w m path (Some a3) params s4))"
    using client_request_answered(1)[OF t3 p r2, of True m params] by simp
  finally show "client_request w opts m path params False s
           = (json_outcome path (Some res2), snd (fetcher_request w m path (Some a3) params s4))" .
  obtain esA where a: "trace (snd (fetcher_request w m path (Some a1) params s1)) = trace s @ esA"
      "data_replies esA = [Some res1]"
    using data_call_log[OF t1 p r1(1)] by blast
  obtain esB where b: "trace s3 = trace (snd (fetcher_request w m path (Some a1) params s1))
        @ Call_getAccessToken True # esB" "data_replies esB = []"
    using getAccessToken_summary[OF t2] by auto
  obtain esC where c: "trace (snd (fetcher_request w m path (Some a3) params s4)) = trace s3 @ esC"
      "data_replies esC = [Some res2]"
    using data_call_log[OF t3 p r2] by blast
  have "trace (snd (fetcher_request w m path (Some a3) params s4))
      = trace s @ (esA @ Call_getAccessToken True # esB @ esC)"
    using a b c by simp
  from new_events_append[OF this]
  show "data_replies (new_events s (snd (fetcher_request w m path (Some a3) params s4)))
           = [Some res1, Some res2]"
    using a b c by simp
qed

lemma client_raw_answered:
  assumes t: "getAccessToken w opts False s = (Inr a, s1)"
    and p: "prefix ''/'' path" and r: "fetch_reply w (net_calls s1) = Some res"
  shows "isRetry \<or> \<not> invalid_credential_raw (Some res) \<Longrightarrow>
      client_raw w opts m path params isRetry s
        = (raw_outcome path (Some res), snd (fetcher_request w m path (Some a) params s1))"
    and "\<not> isRetry \<Longrightarrow> invalid_credential_raw (Some res) \<Longrightarrow>
      client_raw w opts m path params isRetry s
        = (case getAccessToken w opts True (snd (fetcher_request w m path (Some a) params s1)) of
             (Inl e, s4) \<Rightarrow> (Inl e, s4)
           | (Inr _, s4) \<Rightarrow> client_raw w opts m path params True s4)"
proof -
  obtain s2 where f: "fetcher_request w m path (Some a) params s1 = (Inr res, s2)"
    using fetcher_request_reply(1)[OF p r, of m "Some a" params] by (metis prod.collapse)
  show "isRetry \<or> \<not> invalid_credential_raw (Some res) \<Longrightarrow>
      client_raw w opts m path params isRetry s
        = (raw_outcome path (Some res), snd (fetcher_request w m path (Some a) params s1))"
    by (subst client_raw.simps)
       (auto simp: t f res_json_def raw_outcome_def invalid_credential_raw_def invalid_credential_def split: option.splits)
  show "\<not> isRetry \<Longrightarrow> invalid_credential_raw (Some res) \<Longrightarrow>
      client_raw w opts m path params isRetry s
        = (case getAccessToken w opts True (snd (fetcher_request w m path (Some a) params s1)) of
             (Inl e, s4) \<Rightarrow> (Inl e, s4)
           | (Inr _, s4) \<Rightarrow> client_raw w opts m path params True s4)"
    by (subst client_raw.simps)
       (auto simp: t f res_json_def invalid_credential_raw_def invalid_credential_def split: option.splits)
qed

lemma client_raw_retried:
  assumes t1: "getAccessToken w opts False s = (Inr a1, s1)"
    and p: "prefix ''/'' path"
    and r1: "fetch_reply w (net_calls s1) = Some res1" "invalid_credential_raw (Some res1)"
    and t2: "getAccessToken w opts True (snd (fetcher_request w m path (Some a1) params s1)) = (Inr a2, s3)"
    and t3: "getAccessToken w opts False s3 = (Inr a3, s4)"
    and r2: "fetch_reply w (net_calls s4) = Some res2"
  shows "client_raw w opts m path params False s
           = (raw_outcome path (Some res2), snd (fetcher_request w m path (Some a3) params s4))"
    and "data_replies (new_events s (snd (fetcher_request w m path (Some a3) params s4)))
           = [Some res1, Some res2]"
proof -
  have "client_raw w opts m path params False s = client_raw w opts m path params True s3"
    using client_raw_answered(2)[OF t1 p r1(1), of False m params] r1(2) t2 by simp
  also have "\<dots> = (raw_outcome path (Some res2), snd (fetcher_request w m path (Some a3) params s4))"
    using client_raw_answered(1)[OF t3 p r2, of True m params] by simp
  finally show "client_raw w opts m path params False s
           = (raw_outcome path (Some res2), snd (fetcher_request w m path (Some a3) params s4))" .
  obtain esA where a: "trace (snd (fetcher_request w m path (Some a1) params s1)) = trace s @ esA"
      "data_replies esA = [Some res1]"
    using data_call_log[OF t1 p r1(1)] by blast
  obtain esB where b: "trace s3 = trace (snd (fetcher_request w m path (Some a1) params s1))
        @ Call_getAccessToken True # esB" "data_replies esB = []"
    using getAccessToken_summary[OF t2] by auto
  obtain esC where c: "trace (snd (fetcher_request w m path (Some a3) params s4)) = trace s3 @ esC"
      "data_replies esC = [Some res2]"
    using data_call_log[OF t3 p r2] by blast
  have "trace (snd (fetcher_request w m path (Some a3) params s4))
      = trace s @ (esA @ Call_getAccessToken True # esB @ esC)"
    using a b c by simp
  from new_events_append[OF this]
  show "data_replies (new_events s (snd (fetcher_request w m path (Some a3) params s4)))
           = [Some res1, Some res2]"
    using a b c by simp
qed

lemma json_entry: "(case m of GET \<Rightarrow> get w opts path params s | POST \<Rightarrow> post w opts path params s)
    = client_request w opts m path params False s"
  by (cases m) (simp_all add: get_def post_def)

lemma raw_entry: "(case m of GET \<Rightarrow> getRaw w opts path params s | POST \<Rightarrow> postRaw w opts path params s)
    = client_raw w opts m path params False s"
  by (cases m) (simp_all add: getRaw_def postRaw_def)

lemma json_retry_run:
  assumes "getAccessToken w opts False s = (Inr a1, s1)" and "prefix ''/'' path"
    and "fetch_reply w (net_calls s1) = Some r1"
    and "json r1 = Some d1" and "map_of d1 ''errcode'' = Some (JNum 40001)"
    and "getAccessToken w opts True (snd (fetcher_request w m path (Some a1) params s1)) = (Inr a2, s3)"
    and "getAccessToken w opts False s3 = (Inr a3, s4)"
    and "fetch_reply w (net_calls s4) = Some r2"
  shows "fst (client_request w opts m path params False s) = json_outcome path (Some r2) \<and>
     data_replies (new_events s (snd (client_request w opts m path params False s))) = [Some r1, Some r2] \<and>
     forced_refreshes (new_events s (snd (client_request w opts m path params False s))) = 1 \<and>
     token_manager_calls (new_events s (snd (client_request w opts m path params False s))) = 3 \<and>
     creations (new_events s (snd (client_request w opts m path params False s)))
       = 1 + cache_misses (new_events s (snd (client_request w opts m path params False s))) \<and>
     cache_misses (new_events s (snd (client_request w opts m path params False s))) \<le> 2"
proof -
  let ?s5 = "snd (fetcher_request w m path (Some a3) params s4)"
  have inv: "invalid_credential (Some r1)" using assms(4,5) by (simp add: invalid_credential_def)
  have run: "client_request w opts m path params False s = (json_outcome path (Some r2), ?s5)"
    and dr: "data_replies (new_events s ?s5) = [Some r1, Some r2]"
    using client_request_retried[OF assms(1,2,3) inv assms(6,7,8)] by blast+
  from client_request_summary[OF run] obtain es where es: "trace ?s5 = trace s @ es"
    and two: "\<forall>reply1 reply2 rest. data_replies es = reply1 # reply2 # rest \<longrightarrow>
        invalid_credential reply1 \<and> rest = [] \<and> json_outcome path (Some r2) = json_outcome path reply2 \<and>
        forced_refreshes es = 1 \<and> token_manager_calls es = 3 \<and>
        creations es = 1 + cache_misses es \<and> cache_misses es \<le> 2"
    by blast
  have ne: "new_events s ?s5 = es" using es by (rule new_events_append)
  with dr have "data_replies es = [Some r1, Some r2]" by simp
  with two have "forced_refreshes es = 1" "token_manager_calls es = 3"
    "creations es = 1 + cache_misses es" "cache_misses es \<le> 2" by blast+
  then show ?thesis using run dr ne by simp
qed

lemma raw_retry_run:
  assumes "getAccessToken w opts False s = (Inr a1, s1)" and "prefix ''/'' path"
    and "fetch_reply w (net_calls s1) = Some r1" and "json_content r1"
    and "json r1 = Some d1" and "map_of d1 ''errcode'' = Some (JNum 40001)"
    and "getAccessToken w opts True (snd (fetcher_request w m path (Some a1) params s1)) = (Inr a2, s3)"
    and "getAccessToken w opts False s3 = (Inr a3, s4)"
    and "fetch_reply w (net_calls s4) = Some r2"
  shows "fst (client_raw w opts m path params False s) = raw_outcome path (Some r2) \<and>
     data_replies (new_events s (snd (client_raw w opts m path params False s))) = [Some r1, Some r2] \<and>
     forced_refreshes (new_events s (snd (client_raw w opts m path params False s))) = 1 \<and>
     token_manager_calls (new_events s (snd (client_raw w opts m path params False s))) = 3 \<and>
     creations (new_events s (snd (client_raw w opts m path params False s)))
       = 1 + cache_misses (new_events s (snd (client_raw w opts m path params False s))) \<and>
     cache_misses (new_events s (snd (client_raw w opts m path params False s))) \<le> 2"
proof -
  let ?s5 = "snd (fetcher_request w m path (Some a3) params s4)"
  have inv: "invalid_credential_raw (Some r1)"
    using assms(4,5,6) by (simp add: invalid_credential_raw_def invalid_credential_def)
  have run: "client_raw w opts m path params False s = (raw_outcome path (Some r2), ?s5)"
    and dr: "data_replies (new_events s ?s5) = [Some r1, Some r2]"
    using client_raw_retried[OF assms(1,2,3) inv assms(7,8,9)] by blast+
  from client_raw_summary[OF run] obtain es where es: "trace ?s5 = trace s @ es"
    and two: "\<forall>reply1 reply2 rest. data_replies es = reply1 # reply2 # rest \<longrightarrow>
        invalid_credential_raw reply1 \<and> rest = [] \<and> raw_outcome path (Some r2) = raw_outcome path reply2 \<and>
        forced_refreshes es = 1 \<and> token_manager_calls es = 3 \<and>
        creations es = 1 + cache_misses es \<and> cache_misses es \<le> 2"
    by blast
  have ne: "new_events s ?s5 = es" using es by (rule new_events_append)
  with dr have "data_replies es = [Some r1, Some r2]" by simp
  with two have "forced_refreshes es = 1" "token_manager_calls es = 3"
    "creations es = 1 + cache_misses es" "cache_misses es \<le> 2" by blast+
  then show ?thesis using run dr ne by simp
qed

lemma json_single_run:
  assumes "getAccessToken w opts False s = (Inr a1, s1)" and "prefix ''/'' path"
    and "fetch_reply w (net_calls s1) = Some r1" and "\<not> invalid_credential (Some r1)"
  shows "fst (client_request w opts m path params False s) = json_outcome path (Some r1) \<and>
     data_replies (new_events s (snd (client_request w opts m path params False s))) = [Some r1] \<and>
     forced_refreshes (new_events s (snd (client_request w opts m path params False s))) = 0"
proof -
  let ?s2 = "snd (fetcher_request w m path (Some a1) params s1)"
  have run: "client_request w opts m path params False s = (json_outcome path (Some r1), ?s2)"
    using client_request_answered(1)[OF assms(1,2,3), of False m params] assms(4) by simp
  obtain esA where a: "trace ?s2 = trace s @ esA" "data_replies esA = [Some r1]"
    using data_call_log[OF assms(1,2,3)] by blast
  from client_request_summary[OF run] obtain es where es: "trace ?s2 = trace s @ es"
    and one: "\<forall>reply rest. data_replies es = reply # rest \<and> \<not> invalid_credential reply \<longrightarrow>
        rest = [] \<and> json_outcome path (Some r1) = json_outcome path reply \<and> forced_refreshes es = 0 \<and>
        token_manager_calls es = 1 \<and> creations es = cache_misses es \<and> cache_misses es \<le> 1"
    by blast
  have "es = esA" using a es by simp
  with a one assms(4) have "forced_refreshes es = 0" by auto
  then show ?thesis using run a \<open>es = esA\<close> new_events_append[OF es] by simp
qed

lemma raw_single_run:
  assumes "getAccessToken w opts False s = (Inr a1, s1)" and "prefix ''/'' path"
    and "fetch_reply w (net_calls s1) = Some r1" and "\<not> invalid_credential_raw (Some r1)"
  shows "fst (client_raw w opts m path params False s) = raw_outcome path (Some r1) \<and>
     data_replies (new_events s (snd (client_raw w opts m path params False s))) = [Some r1] \<and>
     forced_refreshes (new_events s (snd (client_raw w opts m path params False s))) = 0"
proof -
  let ?s2 = "snd (fetcher_request w m path (Some a1) params s1)"
  have run: "client_raw w opts m path params False s = (raw_outcome path (Some r1), ?s2)"
    using client_raw_answered(1)[OF assms(1,2,3), of False m params] assms(4) by simp
  obtain esA where a: "trace ?s2 = trace s @ esA" "data_replies esA = [Some r1]"
    using data_call_log[OF assms(1,2,3)] by blast
  from client_raw_summary[OF run] obtain es where es: "trace ?s2 = trace s @ es"
    and one: "\<forall>reply rest. data_replies es = reply # rest \<and> \<not> invalid_credential_raw reply \<longrightarrow>
        rest = [] \<and> raw_outcome path (Some r1) = raw_outcome path reply \<and> forced_refreshes es = 0 \<and>
        token_manager_calls es = 1 \<and> creations es = cache_misses es \<and> cache_misses es \<le> 1"
    by blast
  have "es = esA" using a es by simp
  with a one assms(4) have "forced_refreshes es = 0" by auto
  then show ?thesis using run a \<open>es = esA\<close> new_events_append[OF es] by simp
qed

section \<open>The error classifier\<close>

text \<open>
  C6. For every context message and error response, \<open>createError\<close> looks the
  \<open>errcode\<close> up in the authorization-code table (40029, 40163, 42003). On a match it
  yields the authorization-code subtype, whose message is the context message with a
  trailing dot stripped and \<open>: phrase.\<close> appended, or with \<open>: phrase\<close>
  appended when the message has no trailing dot. Any other \<open>errcode\<close> yields the generic
  subtype with the message unchanged. Every error serialises to its name, message and
  response: the name is \<open>WeixinAuthCodeError\<close> for the first subtype and
  \<open>WeixinError\<close> for the second, the message is the formatted or the unchanged one,
  the response is the one given.
\<close>

theorem createError_classification:
  "(\<forall>phrase. authcodeErrorMap (map_of resp ''errcode'') = Some phrase \<longrightarrow>
      (\<exists>m. createError msg resp = WeixinAuthCodeError m resp \<and>
           (\<forall>t. msg = t @ ''.'' \<longrightarrow> m = t @ '': '' @ phrase @ ''.'') \<and>
           ((\<forall>t. msg \<noteq> t @ ''.'') \<longrightarrow> m = msg @ '': '' @ phrase) \<and>
           error_name (createError msg resp) = ''WeixinAuthCodeError'' \<and>
           error_message (createError msg resp) = m \<and>
           error_response (createError msg resp) = resp \<and>
           toJSON (createError msg resp) =
             [(''name'', JStr ''WeixinAuthCodeError''), (''message'', JStr m),
              (''response'', JObj resp)]))
   \<and> (authcodeErrorMap (map_of resp ''errcode'') = None \<longrightarrow>
        createError msg resp = WeixinError msg resp \<and>
        error_name (createError msg resp) = ''WeixinError'' \<and>
        error_message (createError msg resp) = msg \<and>
        error_response (createError msg resp) = resp \<and>
        toJSON (createError msg resp) =
          [(''name'', JStr ''WeixinError''), (''message'', JStr msg), (''response'', JObj resp)])
   \<and> authcodeErrorMap (Some (JNum 40029)) = Some ''invalid code''
   \<and> authcodeErrorMap (Some (JNum 40163)) = Some ''code has been used''
   \<and> authcodeErrorMap (Some (JNum 42003)) = Some ''code has expired''
   \<and> (\<forall>c. c \<notin> {Some (JNum 40029), Some (JNum 40163), Some (JNum 42003)} \<longrightarrow>
          authcodeErrorMap c = None)
   \<and> toJSON (createError msg resp) =
        [(''name'', JStr (error_name (createError msg resp))),
         (''message'', JStr (error_message (createError msg resp))),
         (''response'', JObj resp)]"
proof -
  have ends: "msg \<noteq> [] \<and> last msg = CHR ''.'' \<longleftrightarrow> (\<exists>t. msg = t @ ''.'')"
    by (metis snoc_eq_iff_butlast)
  have phr: "\<And>phrase. authcodeErrorMap (map_of resp ''errcode'') = Some phrase \<Longrightarrow> phrase \<noteq> []"
    by (auto simp: authcodeErrorMap_def split: if_splits)
  show ?thesis
    using ends phr
    by (auto simp: createError_def formatMessage_def authcodeErrorMap_def toJSON_def
        split: option.splits)
qed

theorem createError_classification_witness:
  "toJSON (createError ''Unable to create a session.''
       [(''errcode'', JNum 40029), (''errmsg'', JStr ''invalid code'')])
     = [(''name'', JStr ''WeixinAuthCodeError''),
        (''message'', JStr ''Unable to create a session: invalid code.''),
        (''response'', JObj [(''errcode'', JNum 40029), (''errmsg'', JStr ''invalid code'')])]
   \<and> createError ''Unable to create a session''
       [(''errcode'', JNum 42003), (''errmsg'', JStr ''expired'')]
     = WeixinAuthCodeError ''Unable to create a session: code has expired''
         [(''errcode'', JNum 42003), (''errmsg'', JStr ''expired'')]
   \<and> toJSON (createError ''Unable to create a session.''
       [(''errcode'', JNum 40013), (''errmsg'', JStr ''invalid appid'')])
     = [(''name'', JStr ''WeixinError''),
        (''message'', JStr ''Unable to create a session.''),
        (''response'', JObj [(''errcode'', JNum 40013), (''errmsg'', JStr ''invalid appid'')])]"
  using
    createError_classification
      [of "[(''errcode'', JNum 40029), (''errmsg'', JStr ''invalid code'')]"
          "''Unable to create a session.''"]
    createError_classification
      [of "[(''errcode'', JNum 42003), (''errmsg'', JStr ''expired'')]"
          "''Unable to create a session''"]
    createError_classification
      [of "[(''errcode'', JNum 40013), (''errmsg'', JStr ''invalid appid'')]"
          "''Unable to create a session.''"]
  by (simp add: authcodeErrorMap_def toJSON_def)

section \<open>The transport\<close>

text \<open>
  C7. For every path that does not start with \<open>/\<close> (the empty path included),
  \<open>request\<close> raises the input-validation error and leaves the state as it was: no
  network call is made and nothing is logged, whatever the method, the access token and
  the parameters.
\<close>

theorem path_must_start_with_slash:
  "\<not> prefix ''/'' path \<Longrightarrow>
     fetcher_request w method path accessToken params s = (Inl (PlainError path_error), s)"
  by (cases path) (auto simp: fetcher_request_def)

theorem path_must_start_with_slash_witness:
  "\<not> prefix ''/'' ''cgi-bin/token'' \<and>
   fetcher_request (scripted_world [] 0) POST ''cgi-bin/token'' (Some ''t'') [] cold_state
     = (Inl (PlainError path_error), cold_state) \<and>
   fetcher_request (scripted_world [] 0) GET [] None [] cold_state
     = (Inl (PlainError path_error), cold_state) \<and>
   net_calls (snd (fetcher_request (scripted_world [] 0) GET ''cgi-bin/token'' None [] cold_state)) = 0"
  using
    path_must_start_with_slash
      [of "''cgi-bin/token''" "scripted_world [] 0" POST "Some ''t''" "[]" cold_state]
    path_must_start_with_slash [of "[]" "scripted_world [] 0" GET None "[]" cold_state]
    path_must_start_with_slash
      [of "''cgi-bin/token''" "scripted_world [] 0" GET None "[]" cold_state]
  by (simp add: cold_state_def)

section \<open>The memory store\<close>

text \<open>
  C9. A token stored under a key with a TTL of \<open>ttl\<close> seconds, when the clock showed
  \<open>date_now w (clock_reads s)\<close>, is returned unchanged by the next \<open>get\<close> of that
  key if the clock then shows less than the time of the \<open>set\<close> plus \<open>ttl * 1000\<close>
  milliseconds, and the table is left as it was, so that a later read finds the same entry.
  If the clock shows that time or more, \<open>get\<close> returns \<open>null\<close> and the entry is
  removed from the table by that read.
\<close>

theorem store_round_trip:
  "(date_now w (Suc (clock_reads s)) < date_now w (clock_reads s) + ttl * 1000 \<longrightarrow>
      fst (store_get w k (store_set w k tok ttl s)) = Some tok \<and>
      tokens (snd (store_get w k (store_set w k tok ttl s))) = tokens (store_set w k tok ttl s)) \<and>
   (date_now w (clock_reads s) + ttl * 1000 \<le> date_now w (Suc (clock_reads s)) \<longrightarrow>
      fst (store_get w k (store_set w k tok ttl s)) = None \<and>
      tokens (snd (store_get w k (store_set w k tok ttl s))) = (tokens s)(k := None))"
  by (auto simp: store_get_def store_set_def getTokenData_def setToken_def log_event_def Let_def)

theorem store_round_trip_witness:
  "fst (store_get \<lparr>fetch_reply = (\<lambda>n. None), date_now = (\<lambda>n. if n = 0 then 5000 else 5999)\<rparr> ''key''
         (store_set \<lparr>fetch_reply = (\<lambda>n. None), date_now = (\<lambda>n. if n = 0 then 5000 else 5999)\<rparr> ''key''
            \<lparr>access_token = ''abc'', refresh_token = None\<rparr> 1 cold_state))
     = Some \<lparr>access_token = ''abc'', refresh_token = None\<rparr> \<and>
   fst (store_get \<lparr>fetch_reply = (\<lambda>n. None), date_now = (\<lambda>n. if n = 0 then 5000 else 6000)\<rparr> ''key''
         (store_set \<lparr>fetch_reply = (\<lambda>n. None), date_now = (\<lambda>n. if n = 0 then 5000 else 6000)\<rparr> ''key''
            \<lparr>access_token = ''abc'', refresh_token = None\<rparr> 1 cold_state))
     = None \<and>
   tokens (snd (store_get \<lparr>fetch_reply = (\<lambda>n. None), date_now = (\<lambda>n. if n = 0 then 5000 else 6000)\<rparr> ''key''
         (store_set \<lparr>fetch_reply = (\<lambda>n. None), date_now = (\<lambda>n. if n = 0 then 5000 else 6000)\<rparr> ''key''
            \<lparr>access_token = ''abc'', refresh_token = None\<rparr> 1 cold_state))) ''key''
     = None"
  using
    store_round_trip
      [of "\<lparr>fetch_reply = (\<lambda>n. None), date_now = (\<lambda>n. if n = 0 then 5000 else 5999)\<rparr>"
          cold_state 1 "''key''" "\<lparr>access_token = ''abc'', refresh_token = None\<rparr>"]
    store_round_trip
      [of "\<lparr>fetch_reply = (\<lambda>n. None), date_now = (\<lambda>n. if n = 0 then 5000 else 6000)\<rparr>"
          cold_state 1 "''key''" "\<lparr>access_token = ''abc'', refresh_token = None\<rparr>"]
  by (simp add: cold_state_def)

section \<open>The cache key\<close>

lemma fetcher_request_other_key:
  "fetcher_request w m p a ps (with_entry k' x s) = apsnd (with_entry k' x) (fetcher_request w m p a ps s)"
  by (auto simp: fetcher_request_def fetch_def log_event_def with_entry_def Let_def
      split: list.splits option.splits)

lemma createAccessToken_other_key:
  "createAccessToken w a b (with_entry k' x s) = apsnd (with_entry k' x) (createAccessToken w a b s)"
proof -
  have l: "log_event e (with_entry k' x s) = with_entry k' x (log_event e s)" for e
    by (simp add: log_event_def with_entry_def)
  show ?thesis
    by (simp add: createAccessToken_def l fetcher_request_other_key res_json_def
        split: prod.splits sum.splits option.splits)
qed

lemma createStableAccessToken_other_key:
  "createStableAccessToken w a b f (with_entry k' x s) = apsnd (with_entry k' x) (createStableAccessToken w a b f s)"
proof -
  have l: "log_event e (with_entry k' x s) = with_entry k' x (log_event e s)" for e
    by (simp add: log_event_def with_entry_def)
  show ?thesis
    by (simp add: createStableAccessToken_def l fetcher_request_other_key res_json_def
        split: prod.splits sum.splits option.splits)
qed

lemma store_other_key:
  assumes "k' \<noteq> k"
  shows "store_get w k (with_entry k' x s) = apsnd (with_entry k' x) (store_get w k s)"
    and "store_delete k (with_entry k' x s) = with_entry k' x (store_delete k s)"
    and "store_set w k tok ttl (with_entry k' x s) = with_entry k' x (store_set w k tok ttl s)"
    and "store_new_token w k c d (with_entry k' x s) = apsnd (with_entry k' x) (store_new_token w k c d s)"
  using assms
  by (auto simp: store_get_def store_delete_def store_set_def store_new_token_def getTokenData_def
        setToken_def deleteToken_def log_event_def with_entry_def Let_def fun_upd_twist
      split: option.splits jval.splits)

lemma getAccessToken_other_key:
  assumes "k' \<noteq> compositeKey (appid opts) (take 6 (secret opts)) False"
  shows "getAccessToken w opts f (with_entry k' x s) = apsnd (with_entry k' x) (getAccessToken w opts f s)"
proof -
  have l: "log_event e (with_entry k' x s) = with_entry k' x (log_event e s)" for e
    by (simp add: log_event_def with_entry_def)
  show ?thesis
    by (simp add: getAccessToken_def l store_other_key[OF assms] createAccessToken_other_key Let_def
        split: prod.splits sum.splits option.splits)
qed

lemma getStableAccessToken_other_key:
  assumes "k' \<noteq> compositeKey (appid opts) (take 6 (secret opts)) True"
  shows "getStableAccessToken w opts f (with_entry k' x s) = apsnd (with_entry k' x) (getStableAccessToken w opts f s)"
proof -
  have l: "log_event e (with_entry k' x s) = with_entry k' x (log_event e s)" for e
    by (simp add: log_event_def with_entry_def)
  show ?thesis
    by (simp add: getStableAccessToken_def l store_other_key[OF assms] createStableAccessToken_other_key Let_def
        split: prod.splits sum.splits option.splits)
qed

text \<open>
  C3 (as amended). Two clients with the same \<open>appid\<close> compute the same composite key
  exactly when their secrets agree on the first six characters and the token kind is the
  same. A client whose secret differs from another's within the first six characters never
  reads or returns the other's cached token: whatever is stored under the other's key,
  \<open>getAccessToken\<close> and \<open>getStableAccessToken\<close> return the same and leave that entry
  as it is.
\<close>

theorem composite_key_isolation:
  "((compositeKey a (take 6 sec1) st1 = compositeKey a (take 6 sec2) st2) =
      (take 6 sec1 = take 6 sec2 \<and> st1 = st2)) \<and>
   (appid o1 = appid o2 \<and> take 6 (secret o1) \<noteq> take 6 (secret o2) \<longrightarrow>
      fst (getAccessToken w o2 f
             (with_entry (compositeKey (appid o1) (take 6 (secret o1)) False) x s))
        = fst (getAccessToken w o2 f s) \<and>
      snd (getAccessToken w o2 f
             (with_entry (compositeKey (appid o1) (take 6 (secret o1)) False) x s))
        = with_entry (compositeKey (appid o1) (take 6 (secret o1)) False) x
            (snd (getAccessToken w o2 f s)) \<and>
      fst (getStableAccessToken w o2 f
             (with_entry (compositeKey (appid o1) (take 6 (secret o1)) True) x s))
        = fst (getStableAccessToken w o2 f s) \<and>
      snd (getStableAccessToken w o2 f
             (with_entry (compositeKey (appid o1) (take 6 (secret o1)) True) x s))
        = with_entry (compositeKey (appid o1) (take 6 (secret o1)) True) x
            (snd (getStableAccessToken w o2 f s)))"
proof -
  have len: "take 6 u \<noteq> take 6 v @ '':stable''" for u v :: string
  proof
    assume "take 6 u = take 6 v @ '':stable''"
    then have "length (take 6 u) = length (take 6 v @ '':stable'')" by simp
    then show False by simp
  qed
  have keys: "(compositeKey b (take 6 u) p = compositeKey b (take 6 v) q) = (take 6 u = take 6 v \<and> p = q)"
    for b u v p q
    using len[of u v] len[of v u] by (cases p; cases q) (auto simp: compositeKey_def)
  show ?thesis
    by (simp add: keys getAccessToken_other_key getStableAccessToken_other_key)
qed

theorem composite_key_isolation_witness:
  "fst (getAccessToken (scripted_world [token_response ''MINE''] 1000) unrelated_client False warm_state)
     = Inr ''MINE'' \<and>
   tokens (snd (getAccessToken (scripted_world [token_response ''MINE''] 1000) unrelated_client False
                  warm_state)) ''appid:secret''
     = Some \<lparr>data = \<lparr>access_token = ''CACHED'', refresh_token = None\<rparr>, expiresAt = 7190000\<rparr>"
proof -
  let ?w = "scripted_world [token_response ''MINE''] 1000"
  let ?e = "Some \<lparr>data = \<lparr>access_token = ''CACHED'', refresh_token = None\<rparr>, expiresAt = 7190000\<rparr>"
  have warm: "warm_state = with_entry ''appid:secret'' ?e cold_state"
    by (simp add: warm_state_def cold_state_def with_entry_def)
  have cold: "fst (getAccessToken ?w unrelated_client False cold_state) = Inr ''MINE''"
    by (simp add: run_defs example_defs Let_def)
  have iso:
    "fst (getAccessToken ?w unrelated_client False (with_entry ''appid:secret'' ?e cold_state))
       = fst (getAccessToken ?w unrelated_client False cold_state) \<and>
     snd (getAccessToken ?w unrelated_client False (with_entry ''appid:secret'' ?e cold_state))
       = with_entry ''appid:secret'' ?e (snd (getAccessToken ?w unrelated_client False cold_state))"
    using composite_key_isolation
      [where ?o1.0 = example_options and ?o2.0 = unrelated_client and w = ?w and f = False
         and x = ?e and s = cold_state]
    by (simp add: compositeKey_def example_options_def unrelated_client_def)
  then have a: "fst (getAccessToken ?w unrelated_client False warm_state)
       = fst (getAccessToken ?w unrelated_client False cold_state)"
    and b: "snd (getAccessToken ?w unrelated_client False warm_state)
       = with_entry ''appid:secret'' ?e (snd (getAccessToken ?w unrelated_client False cold_state))"
    by (simp_all add: warm)
  show ?thesis by (simp add: a b cold with_entry_def)
qed

theorem shared_prefix_shares_token:
  "appid example_options = appid other_client \<and>
   secret example_options \<noteq> secret other_client \<and>
   compositeKey (appid example_options) (take 6 (secret example_options)) False
     = compositeKey (appid other_client) (take 6 (secret other_client)) False \<and>
   fst (getAccessToken cold_stale_then_ok example_options False cold_state) = Inr ''FIRST'' \<and>
   fst (getAccessToken cold_stale_then_ok other_client False
          (snd (getAccessToken cold_stale_then_ok example_options False cold_state))) = Inr ''FIRST'' \<and>
   net_calls (snd (getAccessToken cold_stale_then_ok other_client False
          (snd (getAccessToken cold_stale_then_ok example_options False cold_state)))) = 1"
  by (simp add: run_defs example_defs Let_def)

section \<open>The token manager\<close>

lemma getAccessToken_hit:
  assumes "tokens s (compositeKey (appid opts) (take 6 (secret opts)) False) = Some entry"
    and "date_now w (clock_reads s) < expiresAt entry"
  shows "getAccessToken w opts False s =
    (Inr (access_token (data entry)),
     s\<lparr>clock_reads := Suc (clock_reads s),
       trace := trace s @ [Call_getAccessToken False,
         Store_get (compositeKey (appid opts) (take 6 (secret opts)) False) (Some (data entry))]\<rparr>)"
  using assms
  by (simp add: getAccessToken_def store_get_def getTokenData_def log_event_def Let_def)

lemma getStableAccessToken_hit:
  assumes "tokens s (compositeKey (appid opts) (take 6 (secret opts)) True) = Some entry"
    and "date_now w (clock_reads s) < expiresAt entry"
  shows "getStableAccessToken w opts False s =
    (Inr (access_token (data entry)),
     s\<lparr>clock_reads := Suc (clock_reads s),
       trace := trace s @ [Call_getStableAccessToken False,
         Store_get (compositeKey (appid opts) (take 6 (secret opts)) True) (Some (data entry))]\<rparr>)"
  using assms
  by (simp add: getStableAccessToken_def store_get_def getTokenData_def log_event_def Let_def)

lemma repeated_hits:
  assumes step: "\<And>s. tokens s k = Some entry \<Longrightarrow> date_now w (clock_reads s) < expiresAt entry \<Longrightarrow>
      f s = (Inr v, s\<lparr>clock_reads := Suc (clock_reads s), trace := trace s @ [ea, eb k]\<rparr>)"
    and quiet: "\<not> is_creation ea" "\<not> is_creation (eb k)" "\<not> is_network_call ea" "\<not> is_network_call (eb k)"
  shows "tokens s k = Some entry \<Longrightarrow> \<forall>i<n. date_now w (clock_reads s + i) < expiresAt entry \<Longrightarrow>
    \<exists>es. repeated f n s = (replicate n (Inr v), s\<lparr>clock_reads := clock_reads s + n, trace := trace s @ es\<rparr>)
       \<and> creations es = 0 \<and> network_calls es = 0"
proof (induction n arbitrary: s)
  case 0
  then show ?case by (intro exI[of _ "[]"]) simp
next
  case (Suc n)
  let ?s1 = "s\<lparr>clock_reads := Suc (clock_reads s), trace := trace s @ [ea, eb k]\<rparr>"
  have now: "date_now w (clock_reads s) < expiresAt entry" using Suc.prems(2)[rule_format, of 0] by simp
  have first: "f s = (Inr v, ?s1)" using step[OF Suc.prems(1) now] .
  have "tokens ?s1 k = Some entry" using Suc.prems(1) by simp
  moreover have "\<forall>i<n. date_now w (clock_reads ?s1 + i) < expiresAt entry"
    using Suc.prems(2) by (auto dest: spec[of _ "Suc _"])
  ultimately obtain es where es:
    "repeated f n ?s1 = (replicate n (Inr v), ?s1\<lparr>clock_reads := clock_reads ?s1 + n, trace := trace ?s1 @ es\<rparr>)"
    "creations es = 0" "network_calls es = 0"
    using Suc.IH[of ?s1] by blast
  show ?case
    using first es quiet by (intro exI[of _ "[ea, eb k] @ es"]) simp
qed

text \<open>
  C8. While the store holds an entry under the client's key and the clock is before its
  \<open>expiresAt\<close> at each read, \<open>getAccessToken()\<close> called n times in a row returns the
  cached \<open>access_token\<close> every time, makes no network call and no token creation, and
  leaves the table as it was; so does \<open>getStableAccessToken()\<close> with its own key. One
  call is the case \<open>n = 1\<close>.
\<close>

theorem warm_cache_idempotence:
  "(tokens s (compositeKey (appid opts) (take 6 (secret opts)) False) = Some entry \<and>
    (\<forall>i<n. date_now w (clock_reads s + i) < expiresAt entry) \<longrightarrow>
      fst (repeated (getAccessToken w opts False) n s) = replicate n (Inr (access_token (data entry))) \<and>
      tokens (snd (repeated (getAccessToken w opts False) n s)) = tokens s \<and>
      net_calls (snd (repeated (getAccessToken w opts False) n s)) = net_calls s \<and>
      creations (new_events s (snd (repeated (getAccessToken w opts False) n s))) = 0 \<and>
      network_calls (new_events s (snd (repeated (getAccessToken w opts False) n s))) = 0) \<and>
   (tokens s (compositeKey (appid opts) (take 6 (secret opts)) True) = Some entry \<and>
    (\<forall>i<n. date_now w (clock_reads s + i) < expiresAt entry) \<longrightarrow>
      fst (repeated (getStableAccessToken w opts False) n s) = replicate n (Inr (access_token (data entry))) \<and>
      tokens (snd (repeated (getStableAccessToken w opts False) n s)) = tokens s \<and>
      net_calls (snd (repeated (getStableAccessToken w opts False) n s)) = net_calls s \<and>
      creations (new_events s (snd (repeated (getStableAccessToken w opts False) n s))) = 0 \<and>
      network_calls (new_events s (snd (repeated (getStableAccessToken w opts False) n s))) = 0)"
proof (rule conjI; rule impI)
  let ?k = "compositeKey (appid opts) (take 6 (secret opts)) False"
  assume h: "tokens s ?k = Some entry \<and> (\<forall>i<n. date_now w (clock_reads s + i) < expiresAt entry)"
  have "\<exists>es. repeated (getAccessToken w opts False) n s =
      (replicate n (Inr (access_token (data entry))),
       s\<lparr>clock_reads := clock_reads s + n, trace := trace s @ es\<rparr>)
      \<and> creations es = 0 \<and> network_calls es = 0"
    using h
    by (intro repeated_hits[where w = w and k = ?k and ea = "Call_getAccessToken False"
          and eb = "\<lambda>k. Store_get k (Some (data entry))" and entry = entry])
       (simp_all add: getAccessToken_hit)
  then show "fst (repeated (getAccessToken w opts False) n s) = replicate n (Inr (access_token (data entry))) \<and>
      tokens (snd (repeated (getAccessToken w opts False) n s)) = tokens s \<and>
      net_calls (snd (repeated (getAccessToken w opts False) n s)) = net_calls s \<and>
      creations (new_events s (snd (repeated (getAccessToken w opts False) n s))) = 0 \<and>
      network_calls (new_events s (snd (repeated (getAccessToken w opts False) n s))) = 0"
    by (auto simp: new_events_def)
next
  let ?k = "compositeKey (appid opts) (take 6 (secret opts)) True"
  assume h: "tokens s ?k = Some entry \<and> (\<forall>i<n. date_now w (clock_reads s + i) < expiresAt entry)"
  have "\<exists>es. repeated (getStableAccessToken w opts False) n s =
      (replicate n (Inr (access_token (data entry))),
       s\<lparr>clock_reads := clock_reads s + n, trace := trace s @ es\<rparr>)
      \<and> creations es = 0 \<and> network_calls es = 0"
    using h
    by (intro repeated_hits[where w = w and k = ?k and ea = "Call_getStableAccessToken False"
          and eb = "\<lambda>k. Store_get k (Some (data entry))" and entry = entry])
       (simp_all add: getStableAccessToken_hit)
  then show "fst (repeated (getStableAccessToken w opts False) n s) = replicate n (Inr (access_token (data entry))) \<and>
      tokens (snd (repeated (getStableAccessToken w opts False) n s)) = tokens s \<and>
      net_calls (snd (repeated (getStableAccessToken w opts False) n s)) = net_calls s \<and>
      creations (new_events s (snd (repeated (getStableAccessToken w opts False) n s))) = 0 \<and>
      network_calls (new_events s (snd (repeated (getStableAccessToken w opts False) n s))) = 0"
    by (auto simp: new_events_def)
qed

theorem warm_cache_idempotence_witness:
  "fst (repeated (getAccessToken silent_world example_options False) (Suc (Suc (Suc 0))) warm_state)
     = [Inr ''CACHED'', Inr ''CACHED'', Inr ''CACHED''] \<and>
   net_calls (snd (repeated (getAccessToken silent_world example_options False) (Suc (Suc (Suc 0)))
                     warm_state)) = 0 \<and>
   fst (repeated (getStableAccessToken silent_world example_options False) (Suc (Suc 0)) warm_stable_state)
     = [Inr ''STABLE'', Inr ''STABLE''] \<and>
   tokens (snd (repeated (getStableAccessToken silent_world example_options False) (Suc (Suc 0))
                     warm_stable_state)) = tokens warm_stable_state"
  using
    warm_cache_idempotence
      [where s = warm_state and opts = example_options and w = silent_world
         and n = "Suc (Suc (Suc 0))"
         and entry = "\<lparr>data = \<lparr>access_token = ''CACHED'', refresh_token = None\<rparr>, expiresAt = 7190000\<rparr>"]
    warm_cache_idempotence
      [where s = warm_stable_state and opts = example_options and w = silent_world
         and n = "Suc (Suc 0)"
         and entry = "\<lparr>data = \<lparr>access_token = ''STABLE'', refresh_token = None\<rparr>, expiresAt = 7190000\<rparr>"]
  by (simp add: compositeKey_def example_options_def warm_state_def warm_stable_state_def
      silent_world_def scripted_world_def)

text \<open>
  C10. With \<open>forceRefresh = true\<close>, \<open>getAccessToken\<close> and \<open>getStableAccessToken\<close>
  delete the entry under the client's key before they call the token endpoint: the log of
  the call starts with the call, the deletion, the creation and its network call, in this
  order. Whenever the call then fails, the table is the old one without that entry: the
  old token is not restored. When the endpoint answers with a payload that has no
  \<open>access_token\<close>, the call raises the classified error with the kind's message.
\<close>

theorem forced_refresh_deletes_first:
  "take 4 (new_events s (snd (getAccessToken w opts True s))) =
     [Call_getAccessToken True,
      Store_delete (compositeKey (appid opts) (take 6 (secret opts)) False),
      Call_createAccessToken,
      Fetch None
        (HttpGet (API_URL @ ''/cgi-bin/token'')
           [(''appid'', JStr (appid opts)), (''secret'', JStr (secret opts)),
            (''grant_type'', JStr ''client_credential'')])
        (fetch_reply w (net_calls s))] \<and>
   (isl (fst (getAccessToken w opts True s)) \<longrightarrow>
      tokens (snd (getAccessToken w opts True s))
        = (tokens s)(compositeKey (appid opts) (take 6 (secret opts)) False := None)) \<and>
   (fetch_reply w (net_calls s) = Some res \<and> json res = Some d \<and> map_of d ''access_token'' = None \<longrightarrow>
      fst (getAccessToken w opts True s)
        = Inl (Thrown (createError ''Unable to get an access token.'' d))) \<and>
   take 4 (new_events s (snd (getStableAccessToken w opts True s))) =
     [Call_getStableAccessToken True,
      Store_delete (compositeKey (appid opts) (take 6 (secret opts)) True),
      Call_createStableAccessToken True,
      Fetch None
        (HttpPost (API_URL @ ''/cgi-bin/stable_token'')
           [(''appid'', JStr (appid opts)), (''secret'', JStr (secret opts)),
            (''grant_type'', JStr ''client_credential''), (''force_refresh'', JBool True)])
        (fetch_reply w (net_calls s))] \<and>
   (isl (fst (getStableAccessToken w opts True s)) \<longrightarrow>
      tokens (snd (getStableAccessToken w opts True s))
        = (tokens s)(compositeKey (appid opts) (take 6 (secret opts)) True := None)) \<and>
   (fetch_reply w (net_calls s) = Some res \<and> json res = Some d \<and> map_of d ''access_token'' = None \<longrightarrow>
      fst (getStableAccessToken w opts True s)
        = Inl (Thrown (createError ''Unable to get a stable access token.'' d)))"
  by (auto simp: getAccessToken_def getStableAccessToken_def createAccessToken_def
        createStableAccessToken_def fetcher_request_def fetch_def truthy_def
        store_new_token_def store_set_def store_delete_def setToken_def deleteToken_def
        res_json_def log_event_def new_events_def Let_def
      split: option.splits jval.splits)

theorem forced_refresh_deletes_first_witness:
  "fst (getAccessToken invalid_secret_world example_options True warm_state)
     = Inl (Thrown (WeixinError ''Unable to get an access token.''
                      [(''errcode'', JNum 40125), (''errmsg'', JStr ''failed'')])) \<and>
   tokens (snd (getAccessToken invalid_secret_world example_options True warm_state)) ''appid:secret''
     = None \<and>
   fst (getStableAccessToken invalid_secret_world example_options True warm_stable_state)
     = Inl (Thrown (WeixinError ''Unable to get a stable access token.''
                      [(''errcode'', JNum 40125), (''errmsg'', JStr ''failed'')])) \<and>
   tokens (snd (getStableAccessToken invalid_secret_world example_options True warm_stable_state))
       ''appid:secret:stable''
     = None"
  using
    forced_refresh_deletes_first
      [where s = warm_state and opts = example_options and w = invalid_secret_world
         and res = "errcode_response 40125"
         and d = "[(''errcode'', JNum 40125), (''errmsg'', JStr ''failed'')]"]
    forced_refresh_deletes_first
      [where s = warm_stable_state and opts = example_options and w = invalid_secret_world
         and res = "errcode_response 40125"
         and d = "[(''errcode'', JNum 40125), (''errmsg'', JStr ''failed'')]"]
  by (simp add: compositeKey_def example_defs createError_def authcodeErrorMap_def)

section \<open>The request client\<close>

text \<open>
  C1 (as amended). \<open>getRaw\<close> and \<open>postRaw\<close> decide by the content type alone.
  When the token function has delivered a token and the path is valid, the data call is
  made, and

  \<^item> a reply whose content type does not start with \<open>application/json\<close> is returned
    as it is, after that one data call;
  \<^item> a reply with such a content type and an \<open>errcode\<close> other than 40001 (absent and
    zero included) raises the classified error at once, with no refresh;
  \<^item> a reply with such a content type and \<open>errcode\<close> 40001 makes the client refresh
    the token by force; when the token function delivers again, the request is issued a
    second time, and its reply is returned if its content type is not JSON and raises the
    classified error if it is, whatever its \<open>errcode\<close>.

  The last four parts say the same of any run by its log, and that a response is returned
  only if it is the last data reply and has no JSON content type.
\<close>

theorem raw_success_by_content_type:
  "(getAccessToken w opts False s = (Inr a1, s1) \<and> prefix ''/'' path \<and>
    fetch_reply w (net_calls s1) = Some r1 \<and>
    \<not> json_content r1
    \<longrightarrow> fst (case m of GET \<Rightarrow> getRaw w opts path params s | POST \<Rightarrow> postRaw w opts path params s) = Inr r1 \<and>
        data_replies (new_events s (snd (case m of GET \<Rightarrow> getRaw w opts path params s | POST \<Rightarrow> postRaw w opts path params s))) = [Some r1] \<and>
        forced_refreshes (new_events s (snd (case m of GET \<Rightarrow> getRaw w opts path params s | POST \<Rightarrow> postRaw w opts path params s))) = 0) \<and>
   (getAccessToken w opts False s = (Inr a1, s1) \<and> prefix ''/'' path \<and>
    fetch_reply w (net_calls s1) = Some r1 \<and>
    json_content r1 \<and> json r1 = Some d1 \<and> map_of d1 ''errcode'' \<noteq> Some (JNum 40001)
    \<longrightarrow> fst (case m of GET \<Rightarrow> getRaw w opts path params s | POST \<Rightarrow> postRaw w opts path params s) = Inl (Thrown (createError (request_failed path) d1)) \<and>
        data_replies (new_events s (snd (case m of GET \<Rightarrow> getRaw w opts path params s | POST \<Rightarrow> postRaw w opts path params s))) = [Some r1] \<and>
        forced_refreshes (new_events s (snd (case m of GET \<Rightarrow> getRaw w opts path params s | POST \<Rightarrow> postRaw w opts path params s))) = 0) \<and>
   (getAccessToken w opts False s = (Inr a1, s1) \<and> prefix ''/'' path \<and>
    fetch_reply w (net_calls s1) = Some r1 \<and>
    json_content r1 \<and> json r1 = Some d1 \<and> map_of d1 ''errcode'' = Some (JNum 40001) \<and>
    getAccessToken w opts True (snd (fetcher_request w m path (Some a1) params s1)) = (Inr a2, s3) \<and>
    getAccessToken w opts False s3 = (Inr a3, s4) \<and>
    fetch_reply w (net_calls s4) = Some r2 \<and>
    \<not> json_content r2
    \<longrightarrow> fst (case m of GET \<Rightarrow> getRaw w opts path params s | POST \<Rightarrow> postRaw w opts path params s) = Inr r2 \<and>
        data_replies (new_events s (snd (case m of GET \<Rightarrow> getRaw w opts path params s | POST \<Rightarrow> postRaw w opts path params s))) = [Some r1, Some r2] \<and>
        forced_refreshes (new_events s (snd (case m of GET \<Rightarrow> getRaw w opts path params s | POST \<Rightarrow> postRaw w opts path params s))) = 1) \<and>
   (getAccessToken w opts False s = (Inr a1, s1) \<and> prefix ''/'' path \<and>
    fetch_reply w (net_calls s1) = Some r1 \<and>
    json_content r1 \<and> json r1 = Some d1 \<and> map_of d1 ''errcode'' = Some (JNum 40001) \<and>
    getAccessToken w opts True (snd (fetcher_request w m path (Some a1) params s1)) = (Inr a2, s3) \<and>
    getAccessToken w opts False s3 = (Inr a3, s4) \<and>
    fetch_reply w (net_calls s4) = Some r2 \<and>
    json_content r2 \<and> json r2 = Some d2
    \<longrightarrow> fst (case m of GET \<Rightarrow> getRaw w opts path params s | POST \<Rightarrow> postRaw w opts path params s) = Inl (Thrown (createError (request_failed path) d2)) \<and>
        data_replies (new_events s (snd (case m of GET \<Rightarrow> getRaw w opts path params s | POST \<Rightarrow> postRaw w opts path params s))) = [Some r1, Some r2] \<and>
        forced_refreshes (new_events s (snd (case m of GET \<Rightarrow> getRaw w opts path params s | POST \<Rightarrow> postRaw w opts path params s))) = 1) \<and>
   ((getRaw w opts path params s = (rr, t') \<or> postRaw w opts path params s = (rr, t')) \<and>
    data_replies (new_events s t') = Some r1 # rest \<and> \<not> json_content r1
    \<longrightarrow> rr = Inr r1 \<and> rest = []) \<and>
   ((getRaw w opts path params s = (rr, t') \<or> postRaw w opts path params s = (rr, t')) \<and>
    data_replies (new_events s t') = Some r1 # rest \<and> json_content r1 \<and>
    json r1 = Some d1 \<and> map_of d1 ''errcode'' \<noteq> Some (JNum 40001)
    \<longrightarrow> rr = Inl (Thrown (createError (request_failed path) d1)) \<and> rest = []) \<and>
   ((getRaw w opts path params s = (rr, t') \<or> postRaw w opts path params s = (rr, t')) \<and>
    data_replies (new_events s t') = Some r1 # rest \<and> json_content r1 \<and>
    json r1 = Some d1 \<and> map_of d1 ''errcode'' = Some (JNum 40001)
    \<longrightarrow> forced_refreshes (new_events s t') = 1) \<and>
   ((getRaw w opts path params s = (rr, t') \<or> postRaw w opts path params s = (rr, t')) \<and>
    rr = Inr res
    \<longrightarrow> data_replies (new_events s t') \<noteq> [] \<and>
        last (data_replies (new_events s t')) = Some res \<and> \<not> json_content res)"
proof -
  have n1: "(getAccessToken w opts False s = (Inr a1, s1) \<and> prefix ''/'' path \<and>
    fetch_reply w (net_calls s1) = Some r1 \<and>
    \<not> json_content r1
    \<longrightarrow> fst (case m of GET \<Rightarrow> getRaw w opts path params s | POST \<Rightarrow> postRaw w opts path params s) = Inr r1 \<and>
        data_replies (new_events s (snd (case m of GET \<Rightarrow> getRaw w opts path params s | POST \<Rightarrow> postRaw w opts path params s))) = [Some r1] \<and>
        forced_refreshes (new_events s (snd (case m of GET \<Rightarrow> getRaw w opts path params s | POST \<Rightarrow> postRaw w opts path params s))) = 0)"
  proof (rule impI)
    assume h: "getAccessToken w opts False s = (Inr a1, s1) \<and> prefix ''/'' path \<and>
    fetch_reply w (net_calls s1) = Some r1 \<and>
    \<not> json_content r1"
    then have "\<not> invalid_credential_raw (Some r1)" "raw_outcome path (Some r1) = Inr r1"
      by (auto simp: invalid_credential_raw_def invalid_credential_def raw_outcome_def)
    with h raw_single_run[of w opts s a1 s1 path r1 m params]
    show "fst (case m of GET \<Rightarrow> getRaw w opts path params s | POST \<Rightarrow> postRaw w opts path params s) = Inr r1 \<and>
        data_replies (new_events s (snd (case m of GET \<Rightarrow> getRaw w opts path params s | POST \<Rightarrow> postRaw w opts path params s))) = [Some r1] \<and>
        forced_refreshes (new_events s (snd (case m of GET \<Rightarrow> getRaw w opts path params s | POST \<Rightarrow> postRaw w opts path params s))) = 0"
      by (simp add: raw_entry)
  qed
  have n2: "(getAccessToken w opts False s = (Inr a1, s1) \<and> prefix ''/'' path \<and>
    fetch_reply w (net_calls s1) = Some r1 \<and>
    json_content r1 \<and> json r1 = Some d1 \<and> map_of d1 ''errcode'' \<noteq> Some (JNum 40001)
    \<longrightarrow> fst (case m of GET \<Rightarrow> getRaw w opts path params s | POST \<Rightarrow> postRaw w opts path params s) = Inl (Thrown (createError (request_failed path) d1)) \<and>
        data_replies (new_events s (snd (case m of GET \<Rightarrow> getRaw w opts path params s | POST \<Rightarrow> postRaw w opts path params s))) = [Some r1] \<and>
        forced_refreshes (new_events s (snd (case m of GET \<Rightarrow> getRaw w opts path params s | POST \<Rightarrow> postRaw w opts path params s))) = 0)"
  proof (rule impI)
    assume h: "getAccessToken w opts False s = (Inr a1, s1) \<and> prefix ''/'' path \<and>
    fetch_reply w (net_calls s1) = Some r1 \<and>
    json_content r1 \<and> json r1 = Some d1 \<and> map_of d1 ''errcode'' \<noteq> Some (JNum 40001)"
    then have "\<not> invalid_credential_raw (Some r1)" "raw_outcome path (Some r1) = Inl (Thrown (createError (request_failed path) d1))"
      by (auto simp: invalid_credential_raw_def invalid_credential_def raw_outcome_def)
    with h raw_single_run[of w opts s a1 s1 path r1 m params]
    show "fst (case m of GET \<Rightarrow> getRaw w opts path params s | POST \<Rightarrow> postRaw w opts path params s) = Inl (Thrown (createError (request_failed path) d1)) \<and>
        data_replies (new_events s (snd (case m of GET \<Rightarrow> getRaw w opts path params s | POST \<Rightarrow> postRaw w opts path params s))) = [Some r1] \<and>
        forced_refreshes (new_events s (snd (case m of GET \<Rightarrow> getRaw w opts path params s | POST \<Rightarrow> postRaw w opts path params s))) = 0"
      by (simp add: raw_entry)
  qed
  have n3: "(getAccessToken w opts False s = (Inr a1, s1) \<and> prefix ''/'' path \<and>
    fetch_reply w (net_calls s1) = Some r1 \<and>
    json_content r1 \<and> json r1 = Some d1 \<and> map_of d1 ''errcode'' = Some (JNum 40001) \<and>
    getAccessToken w opts True (snd (fetcher_request w m path (Some a1) params s1)) = (Inr a2, s3) \<and>
    getAccessToken w opts False s3 = (Inr a3, s4) \<and>
    fetch_reply w (net_calls s4) = Some r2 \<and>
    \<not> json_content r2
    \<longrightarrow> fst (case m of GET \<Rightarrow> getRaw w opts path params s | POST \<Rightarrow> postRaw w opts path params s) = Inr r2 \<and>
        data_replies (new_events s (snd (case m of GET \<Rightarrow> getRaw w opts path params s | POST \<Rightarrow> postRaw w opts path params s))) = [Some r1, Some r2] \<and>
        forced_refreshes (new_events s (snd (case m of GET \<Rightarrow> getRaw w opts path params s | POST \<Rightarrow> postRaw w opts path params s))) = 1)"
  proof (rule impI)
    assume h: "getAccessToken w opts False s = (Inr a1, s1) \<and> prefix ''/'' path \<and>
    fetch_reply w (net_calls s1) = Some r1 \<and>
    json_content r1 \<and> json r1 = Some d1 \<and> map_of d1 ''errcode'' = Some (JNum 40001) \<and>
    getAccessToken w opts True (snd (fetcher_request w m path (Some a1) params s1)) = (Inr a2, s3) \<and>
    getAccessToken w opts False s3 = (Inr a3, s4) \<and>
    fetch_reply w (net_calls s4) = Some r2 \<and>
    \<not> json_content r2"
    then have "raw_outcome path (Some r2) = Inr r2" by (auto simp: raw_outcome_def)
    with h raw_retry_run[of w opts s a1 s1 path r1 d1 m params a2 s3 a3 s4 r2]
    show "fst (case m of GET \<Rightarrow> getRaw w opts path params s | POST \<Rightarrow> postRaw w opts path params s) = Inr r2 \<and>
        data_replies (new_events s (snd (case m of GET \<Rightarrow> getRaw w opts path params s | POST \<Rightarrow> postRaw w opts path params s))) = [Some r1, Some r2] \<and>
        forced_refreshes (new_events s (snd (case m of GET \<Rightarrow> getRaw w opts path params s | POST \<Rightarrow> postRaw w opts path params s))) = 1"
      by (simp add: raw_entry)
  qed
  have n4: "(getAccessToken w opts False s = (Inr a1, s1) \<and> prefix ''/'' path \<and>
    fetch_reply w (net_calls s1) = Some r1 \<and>
    json_content r1 \<and> json r1 = Some d1 \<and> map_of d1 ''errcode'' = Some (JNum 40001) \<and>
    getAccessToken w opts True (snd (fetcher_request w m path (Some a1) params s1)) = (Inr a2, s3) \<and>
    getAccessToken w opts False s3 = (Inr a3, s4) \<and>
    fetch_reply w (net_calls s4) = Some r2 \<and>
    json_content r2 \<and> json r2 = Some d2
    \<longrightarrow> fst (case m of GET \<Rightarrow> getRaw w opts path params s | POST \<Rightarrow> postRaw w opts path params s) = Inl (Thrown (createError (request_failed path) d2)) \<and>
        data_replies (new_events s (snd (case m of GET \<Rightarrow> getRaw w opts path params s | POST \<Rightarrow> postRaw w opts path params s))) = [Some r1, Some r2] \<and>
        forced_refreshes (new_events s (snd (case m of GET \<Rightarrow> getRaw w opts path params s | POST \<Rightarrow> postRaw w opts path params s))) = 1)"
  proof (rule impI)
    assume h: "getAccessToken w opts False s = (Inr a1, s1) \<and> prefix ''/'' path \<and>
    fetch_reply w (net_calls s1) = Some r1 \<and>
    json_content r1 \<and> json r1 = Some d1 \<and> map_of d1 ''errcode'' = Some (JNum 40001) \<and>
    getAccessToken w opts True (snd (fetcher_request w m path (Some a1) params s1)) = (Inr a2, s3) \<and>
    getAccessToken w opts False s3 = (Inr a3, s4) \<and>
    fetch_reply w (net_calls s4) = Some r2 \<and>
    json_content r2 \<and> json r2 = Some d2"
    then have "raw_outcome path (Some r2) = Inl (Thrown (createError (request_failed path) d2))" by (auto simp: raw_outcome_def)
    with h raw_retry_run[of w opts s a1 s1 path r1 d1 m params a2 s3 a3 s4 r2]
    show "fst (case m of GET \<Rightarrow> getRaw w opts path params s | POST \<Rightarrow> postRaw w opts path params s) = Inl (Thrown (createError (request_failed path) d2)) \<and>
        data_replies (new_events s (snd (case m of GET \<Rightarrow> getRaw w opts path params s | POST \<Rightarrow> postRaw w opts path params s))) = [Some r1, Some r2] \<and>
        forced_refreshes (new_events s (snd (case m of GET \<Rightarrow> getRaw w opts path params s | POST \<Rightarrow> postRaw w opts path params s))) = 1"
      by (simp add: raw_entry)
  qed
  have logged: "((getRaw w opts path params s = (rr, t') \<or> postRaw w opts path params s = (rr, t')) \<and>
    data_replies (new_events s t') = Some r1 # rest \<and> \<not> json_content r1
    \<longrightarrow> rr = Inr r1 \<and> rest = []) \<and>
   ((getRaw w opts path params s = (rr, t') \<or> postRaw w opts path params s = (rr, t')) \<and>
    data_replies (new_events s t') = Some r1 # rest \<and> json_content r1 \<and>
    json r1 = Some d1 \<and> map_of d1 ''errcode'' \<noteq> Some (JNum 40001)
    \<longrightarrow> rr = Inl (Thrown (createError (request_failed path) d1)) \<and> rest = []) \<and>
   ((getRaw w opts path params s = (rr, t') \<or> postRaw w opts path params s = (rr, t')) \<and>
    data_replies (new_events s t') = Some r1 # rest \<and> json_content r1 \<and>
    json r1 = Some d1 \<and> map_of d1 ''errcode'' = Some (JNum 40001)
    \<longrightarrow> forced_refreshes (new_events s t') = 1) \<and>
   ((getRaw w opts path params s = (rr, t') \<or> postRaw w opts path params s = (rr, t')) \<and>
    rr = Inr res
    \<longrightarrow> data_replies (new_events s t') \<noteq> [] \<and>
        last (data_replies (new_events s t')) = Some res \<and> \<not> json_content res)"
  proof -
  have ?thesis if run: "client_raw w opts m path params False s = (rr, t')" for m
  proof -
    from client_raw_summary[OF run] obtain es where es: "trace t' = trace s @ es"
      and len: "length (data_replies es) \<le> 2"
      and none: "data_replies es = [] \<longrightarrow> isl rr"
      and one: "\<forall>reply rest. data_replies es = reply # rest \<and> \<not> invalid_credential_raw reply \<longrightarrow>
          rest = [] \<and> rr = raw_outcome path reply \<and> forced_refreshes es = 0 \<and>
          token_manager_calls es = 1 \<and> creations es = cache_misses es \<and> cache_misses es \<le> 1"
      and bad: "\<forall>reply. data_replies es = [reply] \<and> invalid_credential_raw reply \<longrightarrow>
          isl rr \<and> forced_refreshes es = 1"
      and two: "\<forall>reply1 reply2 rest. data_replies es = reply1 # reply2 # rest \<longrightarrow>
          invalid_credential_raw reply1 \<and> rest = [] \<and> rr = raw_outcome path reply2 \<and>
          forced_refreshes es = 1 \<and> token_manager_calls es = 3 \<and>
          creations es = 1 + cache_misses es \<and> cache_misses es \<le> 2"
      by blast
    have ne: "new_events s t' = es" using es by (rule new_events_append)
    have a: "rr = Inr r1 \<and> rest = []"
      if "data_replies es = Some r1 # rest" "\<not> json_content r1"
    proof -
      have "\<not> invalid_credential_raw (Some r1)" using that by (simp add: invalid_credential_raw_def)
      with one that have "rest = []" "rr = raw_outcome path (Some r1)" by blast+
      then show ?thesis using that by (simp add: raw_outcome_def)
    qed
    have b: "rr = Inl (Thrown (createError (request_failed path) d1)) \<and> rest = []"
      if "data_replies es = Some r1 # rest" "json_content r1" "json r1 = Some d1"
        "map_of d1 ''errcode'' \<noteq> Some (JNum 40001)"
    proof -
      have "\<not> invalid_credential_raw (Some r1)"
        using that by (simp add: invalid_credential_raw_def invalid_credential_def)
      with one that have "rest = []" "rr = raw_outcome path (Some r1)" by blast+
      then show ?thesis using that by (simp add: raw_outcome_def)
    qed
    have c: "forced_refreshes es = 1"
      if "data_replies es = Some r1 # rest" "json_content r1" "json r1 = Some d1"
        "map_of d1 ''errcode'' = Some (JNum 40001)"
    proof (cases rest)
      case Nil
      have "invalid_credential_raw (Some r1)"
        using that by (simp add: invalid_credential_raw_def invalid_credential_def)
      with bad that Nil show ?thesis by blast
    next
      case (Cons x xs)
      with two that show ?thesis by blast
    qed
    have d: "data_replies es \<noteq> [] \<and> last (data_replies es) = Some res \<and> \<not> json_content res"
      if "rr = Inr res"
    proof (cases "data_replies es")
      case Nil
      with none that show ?thesis by simp
    next
      case (Cons x xs)
      show ?thesis
      proof (cases xs)
        case Nil
        show ?thesis
        proof (cases "invalid_credential_raw x")
          case True
          with bad Cons Nil that show ?thesis by auto
        next
          case False
          with one Cons have "rr = raw_outcome path x" by blast
          with that Cons Nil show ?thesis
            by (auto simp: raw_outcome_def split: option.splits if_splits)
        qed
      next
        case (Cons y ys)
        with two \<open>data_replies es = x # xs\<close> have "ys = []" "rr = raw_outcome path y" by blast+
        with that Cons \<open>data_replies es = x # xs\<close> show ?thesis
          by (auto simp: raw_outcome_def split: option.splits if_splits)
      qed
    qed
    show ?thesis using a b c d ne by simp
  qed
  then show ?thesis using raw_run[of w opts path params s rr t'] by blast
qed
  show ?thesis by (rule conjI[OF n1 conjI[OF n2 conjI[OF n3 conjI[OF n4 logged]]]])
qed

theorem raw_success_by_content_type_witness:
  "fst (postRaw image_world example_options ''/wxa/getwxacodeunlimit'' [] warm_state) = Inr image_response \<and>
   data_replies (new_events warm_state (snd (postRaw image_world example_options ''/wxa/getwxacodeunlimit'' [] warm_state))) = [Some (image_response)] \<and>
   fst (getRaw zero_errcode example_options ''/wxa/getwxacodeunlimit'' [] warm_state) = Inl (Thrown (WeixinError (request_failed ''/wxa/getwxacodeunlimit'') [(''errcode'', JNum 0), (''errmsg'', JStr ''ok'')])) \<and>
   data_replies (new_events warm_state (snd (getRaw zero_errcode example_options ''/wxa/getwxacodeunlimit'' [] warm_state))) = [Some (json_response [(''errcode'', JNum 0), (''errmsg'', JStr ''ok'')])] \<and>
   fst (postRaw stale_then_image example_options ''/wxa/getwxacodeunlimit'' [] warm_state) = Inr image_response \<and>
   data_replies (new_events warm_state (snd (postRaw stale_then_image example_options ''/wxa/getwxacodeunlimit'' [] warm_state))) = [Some (errcode_response 40001), Some (image_response)] \<and>
   forced_refreshes (new_events warm_state (snd (postRaw stale_then_image example_options ''/wxa/getwxacodeunlimit'' [] warm_state))) = 1 \<and>
   fst (getRaw stale_then_zero example_options ''/wxa/getwxacodeunlimit'' [] warm_state) = Inl (Thrown (WeixinError (request_failed ''/wxa/getwxacodeunlimit'') [(''errcode'', JNum 0), (''errmsg'', JStr ''ok'')])) \<and>
   data_replies (new_events warm_state (snd (getRaw stale_then_zero example_options ''/wxa/getwxacodeunlimit'' [] warm_state))) = [Some (errcode_response 40001), Some (json_response [(''errcode'', JNum 0), (''errmsg'', JStr ''ok'')])] \<and>
   forced_refreshes (new_events warm_state (snd (getRaw stale_then_zero example_options ''/wxa/getwxacodeunlimit'' [] warm_state))) = 1"
proof -
  have j: "json (errcode_response 40001) = Some [(''errcode'', JNum 40001), (''errmsg'', JStr ''failed'')]"
    "map_of [(''errcode'', JNum 40001), (''errmsg'', JStr ''failed'')] ''errcode'' = Some (JNum 40001)"
    "json (errcode_response 40125) = Some [(''errcode'', JNum 40125), (''errmsg'', JStr ''failed'')]"
    "map_of [(''errcode'', JNum 40125), (''errmsg'', JStr ''failed'')] ''errcode'' = Some (JNum 40125)"
    "json (json_response d) = Some d" "json_content (json_response d)"
    "json_content (errcode_response c)" "\<not> json_content image_response"
    "createError msg [(''errcode'', JNum 40001), (''errmsg'', JStr ''still invalid'')]
       = WeixinError msg [(''errcode'', JNum 40001), (''errmsg'', JStr ''still invalid'')]"
    "createError msg [(''errcode'', JNum 0), (''errmsg'', JStr ''ok'')]
       = WeixinError msg [(''errcode'', JNum 0), (''errmsg'', JStr ''ok'')]"
    for d c msg
    by (simp_all add: example_defs json_content_def createError_def authcodeErrorMap_def)
  have a1: "getAccessToken image_world example_options False warm_state = (Inr ''CACHED'', (snd (getAccessToken image_world example_options False warm_state)))"
    by (simp add: run_defs example_defs Let_def)
  have a2: "fetch_reply image_world (net_calls (snd (getAccessToken image_world example_options False warm_state))) = Some (image_response)"
    by (simp add: run_defs example_defs Let_def)
  have a: "fst (postRaw image_world example_options ''/wxa/getwxacodeunlimit'' [] warm_state) = Inr image_response \<and>
   data_replies (new_events warm_state (snd (postRaw image_world example_options ''/wxa/getwxacodeunlimit'' [] warm_state))) = [Some (image_response)]"
    using raw_success_by_content_type
        [where w = image_world and opts = example_options and s = warm_state and m = POST
           and path = "''/wxa/getwxacodeunlimit''" and params = "[]"
           and ?a1.0 = "''CACHED''" and ?s1.0 = "snd (getAccessToken image_world example_options False warm_state)"
           and ?r1.0 = "image_response"]
      a1 a2 j
    by simp
  have b1: "getAccessToken zero_errcode example_options False warm_state = (Inr ''CACHED'', (snd (getAccessToken zero_errcode example_options False warm_state)))"
    by (simp add: run_defs example_defs Let_def)
  have b2: "fetch_reply zero_errcode (net_calls (snd (getAccessToken zero_errcode example_options False warm_state))) = Some (json_response [(''errcode'', JNum 0), (''errmsg'', JStr ''ok'')])"
    by (simp add: run_defs example_defs Let_def)
  have b: "fst (getRaw zero_errcode example_options ''/wxa/getwxacodeunlimit'' [] warm_state) = Inl (Thrown (WeixinError (request_failed ''/wxa/getwxacodeunlimit'') [(''errcode'', JNum 0), (''errmsg'', JStr ''ok'')])) \<and>
   data_replies (new_events warm_state (snd (getRaw zero_errcode example_options ''/wxa/getwxacodeunlimit'' [] warm_state))) = [Some (json_response [(''errcode'', JNum 0), (''errmsg'', JStr ''ok'')])]"
    using raw_success_by_content_type
        [where w = zero_errcode and opts = example_options and s = warm_state and m = GET
           and path = "''/wxa/getwxacodeunlimit''" and params = "[]"
           and ?a1.0 = "''CACHED''" and ?s1.0 = "snd (getAccessToken zero_errcode example_options False warm_state)"
           and ?r1.0 = "json_response [(''errcode'', JNum 0), (''errmsg'', JStr ''ok'')]" and ?d1.0 = "[(''errcode'', JNum 0), (''errmsg'', JStr ''ok'')]"]
      b1 b2 j
    by simp
  have c1: "getAccessToken stale_then_image example_options False warm_state = (Inr ''CACHED'', (snd (getAccessToken stale_then_image example_options False warm_state)))"
    by (simp add: run_defs example_defs Let_def)
  have c2: "fetch_reply stale_then_image (net_calls (snd (getAccessToken stale_then_image example_options False warm_state))) = Some (errcode_response 40001)"
    by (simp add: run_defs example_defs Let_def)
  have c3: "getAccessToken stale_then_image example_options True (snd (fetcher_request stale_then_image POST ''/wxa/getwxacodeunlimit'' (Some ''CACHED'') [] (snd (getAccessToken stale_then_image example_options False warm_state)))) = (Inr ''FRESH'', (snd (getAccessToken stale_then_image example_options True (snd (fetcher_request stale_then_image POST ''/wxa/getwxacodeunlimit'' (Some ''CACHED'') [] (snd (getAccessToken stale_then_image example_options False warm_state)))))))"
    by (simp add: run_defs example_defs Let_def)
  have c4: "getAccessToken stale_then_image example_options False (snd (getAccessToken stale_then_image example_options True (snd (fetcher_request stale_then_image POST ''/wxa/getwxacodeunlimit'' (Some ''CACHED'') [] (snd (getAccessToken stale_then_image example_options False warm_state)))))) = (Inr ''FRESH'', (snd (getAccessToken stale_then_image example_options False (snd (getAccessToken stale_then_image example_options True (snd (fetcher_request stale_then_image POST ''/wxa/getwxacodeunlimit'' (Some ''CACHED'') [] (snd (getAccessToken stale_then_image example_options False warm_state)))))))))"
    by (simp add: run_defs example_defs Let_def)
  have c5: "fetch_reply stale_then_image (net_calls (snd (getAccessToken stale_then_image example_options False (snd (getAccessToken stale_then_image example_options True (snd (fetcher_request stale_then_image POST ''/wxa/getwxacodeunlimit'' (Some ''CACHED'') [] (snd (getAccessToken stale_then_image example_options False warm_state))))))))) = Some (image_response)"
    by (simp add: run_defs example_defs Let_def)
  have c: "fst (postRaw stale_then_image example_options ''/wxa/getwxacodeunlimit'' [] warm_state) = Inr image_response \<and>
   data_replies (new_events warm_state (snd (postRaw stale_then_image example_options ''/wxa/getwxacodeunlimit'' [] warm_state))) = [Some (errcode_response 40001), Some (image_response)] \<and>
   forced_refreshes (new_events warm_state (snd (postRaw stale_then_image example_options ''/wxa/getwxacodeunlimit'' [] warm_state))) = 1"
    using raw_success_by_content_type
        [where w = stale_then_image and opts = example_options and s = warm_state and m = POST
           and path = "''/wxa/getwxacodeunlimit''" and params = "[]"
           and ?a1.0 = "''CACHED''" and ?s1.0 = "snd (getAccessToken stale_then_image example_options False warm_state)"
           and ?r1.0 = "errcode_response 40001" and ?d1.0 = "[(''errcode'', JNum 40001), (''errmsg'', JStr ''failed'')]"
           and ?a2.0 = "''FRESH''" and ?s3.0 = "snd (getAccessToken stale_then_image example_options True (snd (fetcher_request stale_then_image POST ''/wxa/getwxacodeunlimit'' (Some ''CACHED'') [] (snd (getAccessToken stale_then_image example_options False warm_state)))))"
           and ?a3.0 = "''FRESH''" and ?s4.0 = "snd (getAccessToken stale_then_image example_options False (snd (getAccessToken stale_then_image example_options True (snd (fetcher_request stale_then_image POST ''/wxa/getwxacodeunlimit'' (Some ''CACHED'') [] (snd (getAccessToken stale_then_image example_options False warm_state)))))))"
           and ?r2.0 = "image_response"]
      c1 c2 c3 c4 c5 j
    by simp
  have e1: "getAccessToken stale_then_zero example_options False warm_state = (Inr ''CACHED'', (snd (getAccessToken stale_then_zero example_options False warm_state)))"
    by (simp add: run_defs example_defs Let_def)
  have e2: "fetch_reply stale_then_zero (net_calls (snd (getAccessToken stale_then_zero example_options False warm_state))) = Some (errcode_response 40001)"
    by (simp add: run_defs example_defs Let_def)
  have e3: "getAccessToken stale_then_zero example_options True (snd (fetcher_request stale_then_zero GET ''/wxa/getwxacodeunlimit'' (Some ''CACHED'') [] (snd (getAccessToken stale_then_zero example_options False warm_state)))) = (Inr ''FRESH'', (snd (getAccessToken stale_then_zero example_options True (snd (fetcher_request stale_then_zero GET ''/wxa/getwxacodeunlimit'' (Some ''CACHED'') [] (snd (getAccessToken stale_then_zero example_options False warm_state)))))))"
    by (simp add: run_defs example_defs Let_def)
  have e4: "getAccessToken stale_then_zero example_options False (snd (getAccessToken stale_then_zero example_options True (snd (fetcher_request stale_then_zero GET ''/wxa/getwxacodeunlimit'' (Some ''CACHED'') [] (snd (getAccessToken stale_then_zero example_options False warm_state)))))) = (Inr ''FRESH'', (snd (getAccessToken stale_then_zero example_options False (snd (getAccessToken stale_then_zero example_options True (snd (fetcher_request stale_then_zero GET ''/wxa/getwxacodeunlimit'' (Some ''CACHED'') [] (snd (getAccessToken stale_then_zero example_options False warm_state)))))))))"
    by (simp add: run_defs example_defs Let_def)
  have e5: "fetch_reply stale_then_zero (net_calls (snd (getAccessToken stale_then_zero example_options False (snd (getAccessToken stale_then_zero example_options True (snd (fetcher_request stale_then_zero GET ''/wxa/getwxacodeunlimit'' (Some ''CACHED'') [] (snd (getAccessToken stale_then_zero example_options False warm_state))))))))) = Some (json_response [(''errcode'', JNum 0), (''errmsg'', JStr ''ok'')])"
    by (simp add: run_defs example_defs Let_def)
  have e: "fst (getRaw stale_then_zero example_options ''/wxa/getwxacodeunlimit'' [] warm_state) = Inl (Thrown (WeixinError (request_failed ''/wxa/getwxacodeunlimit'') [(''errcode'', JNum 0), (''errmsg'', JStr ''ok'')])) \<and>
   data_replies (new_events warm_state (snd (getRaw stale_then_zero example_options ''/wxa/getwxacodeunlimit'' [] warm_state))) = [Some (errcode_response 40001), Some (json_response [(''errcode'', JNum 0), (''errmsg'', JStr ''ok'')])] \<and>
   forced_refreshes (new_events warm_state (snd (getRaw stale_then_zero example_options ''/wxa/getwxacodeunlimit'' [] warm_state))) = 1"
    using raw_success_by_content_type
        [where w = stale_then_zero and opts = example_options and s = warm_state and m = GET
           and path = "''/wxa/getwxacodeunlimit''" and params = "[]"
           and ?a1.0 = "''CACHED''" and ?s1.0 = "snd (getAccessToken stale_then_zero example_options False warm_state)"
           and ?r1.0 = "errcode_response 40001" and ?d1.0 = "[(''errcode'', JNum 40001), (''errmsg'', JStr ''failed'')]"
           and ?a2.0 = "''FRESH''" and ?s3.0 = "snd (getAccessToken stale_then_zero example_options True (snd (fetcher_request stale_then_zero GET ''/wxa/getwxacodeunlimit'' (Some ''CACHED'') [] (snd (getAccessToken stale_then_zero example_options False warm_state)))))"
           and ?a3.0 = "''FRESH''" and ?s4.0 = "snd (getAccessToken stale_then_zero example_options False (snd (getAccessToken stale_then_zero example_options True (snd (fetcher_request stale_then_zero GET ''/wxa/getwxacodeunlimit'' (Some ''CACHED'') [] (snd (getAccessToken stale_then_zero example_options False warm_state)))))))"
           and ?r2.0 = "json_response [(''errcode'', JNum 0), (''errmsg'', JStr ''ok'')]" and ?d2.0 = "[(''errcode'', JNum 0), (''errmsg'', JStr ''ok'')]"]
      e1 e2 e3 e4 e5 j
    by simp
  show ?thesis using a b c e by simp
qed

text \<open>
  Against C1 as it was stated: a response with a JSON content type and \<open>errcode\<close> 0,
  and one with no \<open>errcode\<close>, both make the raw call raise.
\<close>

theorem raw_json_without_error_raises:
  "fst (getRaw zero_errcode example_options ''/wxa/getwxacodeunlimit'' [] warm_state)
     = Inl (Thrown (WeixinError (request_failed ''/wxa/getwxacodeunlimit'')
                      [(''errcode'', JNum 0), (''errmsg'', JStr ''ok'')])) \<and>
   fst (postRaw no_errcode example_options ''/wxa/getwxacodeunlimit'' [] warm_state)
     = Inl (Thrown (WeixinError (request_failed ''/wxa/getwxacodeunlimit'') quota_payload))"
  by (simp add: run_defs example_defs Let_def createError_def authcodeErrorMap_def)

text \<open>
  C2 (as amended). For every request through \<open>get\<close>, \<open>post\<close>, \<open>getRaw\<close> or
  \<open>postRaw\<close>, the token function \<open>getAccessToken\<close> is called at most three times
  (before the first attempt, by force after a 40001, and again by the retried attempt) and
  at most two data-endpoint calls are made.
\<close>

theorem request_call_bounds:
  "token_manager_calls (new_events s (snd (get w opts path params s))) \<le> 3 \<and>
   length (data_replies (new_events s (snd (get w opts path params s)))) \<le> 2 \<and>
   token_manager_calls (new_events s (snd (post w opts path params s))) \<le> 3 \<and>
   length (data_replies (new_events s (snd (post w opts path params s)))) \<le> 2 \<and>
   token_manager_calls (new_events s (snd (getRaw w opts path params s))) \<le> 3 \<and>
   length (data_replies (new_events s (snd (getRaw w opts path params s)))) \<le> 2 \<and>
   token_manager_calls (new_events s (snd (postRaw w opts path params s))) \<le> 3 \<and>
   length (data_replies (new_events s (snd (postRaw w opts path params s)))) \<le> 2"
proof -
  have json: "token_manager_calls (new_events s (snd (client_request w opts m path params False s))) \<le> 3 \<and>
     length (data_replies (new_events s (snd (client_request w opts m path params False s)))) \<le> 2" for m
  proof -
    obtain r s' where run: "client_request w opts m path params False s = (r, s')" by fastforce
    from client_request_summary[OF run] obtain es where
      "trace s' = trace s @ es" "token_manager_calls es \<le> 3" "length (data_replies es) \<le> 2"
      by blast
    then show ?thesis using run by (simp add: new_events_append)
  qed
  have raw: "token_manager_calls (new_events s (snd (client_raw w opts m path params False s))) \<le> 3 \<and>
     length (data_replies (new_events s (snd (client_raw w opts m path params False s)))) \<le> 2" for m
  proof -
    obtain r s' where run: "client_raw w opts m path params False s = (r, s')" by fastforce
    from client_raw_summary[OF run] obtain es where
      "trace s' = trace s @ es" "token_manager_calls es \<le> 3" "length (data_replies es) \<le> 2"
      by blast
    then show ?thesis using run by (simp add: new_events_append)
  qed
  show ?thesis using json[of GET] json[of POST] raw[of GET] raw[of POST]
    by (simp add: get_def post_def getRaw_def postRaw_def)
qed

theorem request_call_bounds_witness:
  "token_manager_calls (new_events warm_state
      (snd (post stale_twice example_options ''/cgi-bin/openapi/quota/get'' [] warm_state))) \<le> 3 \<and>
   length (data_replies (new_events warm_state
      (snd (post stale_twice example_options ''/cgi-bin/openapi/quota/get'' [] warm_state)))) \<le> 2"
  using request_call_bounds
    [of warm_state stale_twice example_options "''/cgi-bin/openapi/quota/get''" "[]"]
  by simp

text \<open>
  Against C2 as it was stated: a cached token that the data endpoint rejects once makes
  three calls of \<open>getAccessToken\<close>.
\<close>

theorem three_token_manager_calls: "token_manager_calls (new_events warm_state (snd (get stale_then_ok example_options ''/cgi-bin/openapi/quota/get'' [] warm_state))) = 3"
  by (simp add: run_defs example_defs Let_def)

text \<open>
  C4 (as amended). When the token function delivers a token each time it is asked, the
  first data response is \<open>errcode\<close> 40001 and the second is a success (for \<open>get\<close>
  and \<open>post\<close> a body with no \<open>errcode\<close> or \<open>errcode\<close> 0, for \<open>getRaw\<close>
  and \<open>postRaw\<close> a response without a JSON content type), the request is issued a second
  time and the call returns the second payload: the data replies of the run are exactly
  these two, and the token is refreshed by force exactly once. The token-creation primitive
  is invoked once for that forced refresh and once more for each of the two unforced token
  reads that finds no valid entry in the cache. The last two parts say the same of any run
  whose log shows the two replies.
\<close>

theorem retry_after_invalid_credential:
  "(getAccessToken w opts False s = (Inr a1, s1) \<and> prefix ''/'' path \<and>
    fetch_reply w (net_calls s1) = Some r1 \<and>
    json r1 = Some d1 \<and> map_of d1 ''errcode'' = Some (JNum 40001) \<and>
    getAccessToken w opts True (snd (fetcher_request w m path (Some a1) params s1)) = (Inr a2, s3) \<and>
    getAccessToken w opts False s3 = (Inr a3, s4) \<and>
    fetch_reply w (net_calls s4) = Some r2 \<and>
    json r2 = Some d2 \<and> (map_of d2 ''errcode'' = None \<or> map_of d2 ''errcode'' = Some (JNum 0))
    \<longrightarrow> fst (case m of GET \<Rightarrow> get w opts path params s | POST \<Rightarrow> post w opts path params s) = Inr d2 \<and>
        data_replies (new_events s (snd (case m of GET \<Rightarrow> get w opts path params s | POST \<Rightarrow> post w opts path params s))) = [Some r1, Some r2] \<and>
        forced_refreshes (new_events s (snd (case m of GET \<Rightarrow> get w opts path params s | POST \<Rightarrow> post w opts path params s))) = 1 \<and>
        creations (new_events s (snd (case m of GET \<Rightarrow> get w opts path params s | POST \<Rightarrow> post w opts path params s))) = 1 + cache_misses (new_events s (snd (case m of GET \<Rightarrow> get w opts path params s | POST \<Rightarrow> post w opts path params s))) \<and>
        cache_misses (new_events s (snd (case m of GET \<Rightarrow> get w opts path params s | POST \<Rightarrow> post w opts path params s))) \<le> 2) \<and>
   (getAccessToken w opts False s = (Inr a1, s1) \<and> prefix ''/'' path \<and>
    fetch_reply w (net_calls s1) = Some r1 \<and>
    json_content r1 \<and> json r1 = Some d1 \<and> map_of d1 ''errcode'' = Some (JNum 40001) \<and>
    getAccessToken w opts True (snd (fetcher_request w m path (Some a1) params s1)) = (Inr a2, s3) \<and>
    getAccessToken w opts False s3 = (Inr a3, s4) \<and>
    fetch_reply w (net_calls s4) = Some r2 \<and>
    \<not> json_content r2
    \<longrightarrow> fst (case m of GET \<Rightarrow> getRaw w opts path params s | POST \<Rightarrow> postRaw w opts path params s) = Inr r2 \<and>
        data_replies (new_events s (snd (case m of GET \<Rightarrow> getRaw w opts path params s | POST \<Rightarrow> postRaw w opts path params s))) = [Some r1, Some r2] \<and>
        forced_refreshes (new_events s (snd (case m of GET \<Rightarrow> getRaw w opts path params s | POST \<Rightarrow> postRaw w opts path params s))) = 1 \<and>
        creations (new_events s (snd (case m of GET \<Rightarrow> getRaw w opts path params s | POST \<Rightarrow> postRaw w opts path params s))) = 1 + cache_misses (new_events s (snd (case m of GET \<Rightarrow> getRaw w opts path params s | POST \<Rightarrow> postRaw w opts path params s))) \<and>
        cache_misses (new_events s (snd (case m of GET \<Rightarrow> getRaw w opts path params s | POST \<Rightarrow> postRaw w opts path params s))) \<le> 2) \<and>
   ((get w opts path params s = (r, s') \<or> post w opts path params s = (r, s')) \<and>
    data_replies (new_events s s') = Some r1 # Some r2 # rest \<and>
    json r1 = Some d1 \<and> map_of d1 ''errcode'' = Some (JNum 40001) \<and>
    json r2 = Some d2 \<and> (map_of d2 ''errcode'' = None \<or> map_of d2 ''errcode'' = Some (JNum 0))
    \<longrightarrow> r = Inr d2 \<and> rest = [] \<and> forced_refreshes (new_events s s') = 1 \<and>
        creations (new_events s s') = 1 + cache_misses (new_events s s') \<and>
        cache_misses (new_events s s') \<le> 2) \<and>
   ((getRaw w opts path params s = (rr, t') \<or> postRaw w opts path params s = (rr, t')) \<and>
    data_replies (new_events s t') = Some r1 # Some r2 # rest \<and>
    json_content r1 \<and> json r1 = Some d1 \<and> map_of d1 ''errcode'' = Some (JNum 40001) \<and>
    \<not> json_content r2
    \<longrightarrow> rr = Inr r2 \<and> rest = [] \<and> forced_refreshes (new_events s t') = 1 \<and>
        creations (new_events s t') = 1 + cache_misses (new_events s t') \<and>
        cache_misses (new_events s t') \<le> 2)"
proof -
  have a: "(getAccessToken w opts False s = (Inr a1, s1) \<and> prefix ''/'' path \<and>
    fetch_reply w (net_calls s1) = Some r1 \<and>
    json r1 = Some d1 \<and> map_of d1 ''errcode'' = Some (JNum 40001) \<and>
    getAccessToken w opts True (snd (fetcher_request w m path (Some a1) params s1)) = (Inr a2, s3) \<and>
    getAccessToken w opts False s3 = (Inr a3, s4) \<and>
    fetch_reply w (net_calls s4) = Some r2 \<and>
    json r2 = Some d2 \<and> (map_of d2 ''errcode'' = None \<or> map_of d2 ''errcode'' = Some (JNum 0))
    \<longrightarrow> fst (case m of GET \<Rightarrow> get w opts path params s | POST \<Rightarrow> post w opts path params s) = Inr d2 \<and>
        data_replies (new_events s (snd (case m of GET \<Rightarrow> get w opts path params s | POST \<Rightarrow> post w opts path params s))) = [Some r1, Some r2] \<and>
        forced_refreshes (new_events s (snd (case m of GET \<Rightarrow> get w opts path params s | POST \<Rightarrow> post w opts path params s))) = 1 \<and>
        creations (new_events s (snd (case m of GET \<Rightarrow> get w opts path params s | POST \<Rightarrow> post w opts path params s))) = 1 + cache_misses (new_events s (snd (case m of GET \<Rightarrow> get w opts path params s | POST \<Rightarrow> post w opts path params s))) \<and>
        cache_misses (new_events s (snd (case m of GET \<Rightarrow> get w opts path params s | POST \<Rightarrow> post w opts path params s))) \<le> 2)"
  proof (rule impI)
    assume h: "getAccessToken w opts False s = (Inr a1, s1) \<and> prefix ''/'' path \<and>
    fetch_reply w (net_calls s1) = Some r1 \<and>
    json r1 = Some d1 \<and> map_of d1 ''errcode'' = Some (JNum 40001) \<and>
    getAccessToken w opts True (snd (fetcher_request w m path (Some a1) params s1)) = (Inr a2, s3) \<and>
    getAccessToken w opts False s3 = (Inr a3, s4) \<and>
    fetch_reply w (net_calls s4) = Some r2 \<and>
    json r2 = Some d2 \<and> (map_of d2 ''errcode'' = None \<or> map_of d2 ''errcode'' = Some (JNum 0))"
    then have "json_outcome path (Some r2) = Inr d2" by (auto simp: json_outcome_def)
    with h json_retry_run[of w opts s a1 s1 path r1 d1 m params a2 s3 a3 s4 r2]
    show "fst (case m of GET \<Rightarrow> get w opts path params s | POST \<Rightarrow> post w opts path params s) = Inr d2 \<and>
        data_replies (new_events s (snd (case m of GET \<Rightarrow> get w opts path params s | POST \<Rightarrow> post w opts path params s))) = [Some r1, Some r2] \<and>
        forced_refreshes (new_events s (snd (case m of GET \<Rightarrow> get w opts path params s | POST \<Rightarrow> post w opts path params s))) = 1 \<and>
        creations (new_events s (snd (case m of GET \<Rightarrow> get w opts path params s | POST \<Rightarrow> post w opts path params s))) = 1 + cache_misses (new_events s (snd (case m of GET \<Rightarrow> get w opts path params s | POST \<Rightarrow> post w opts path params s))) \<and>
        cache_misses (new_events s (snd (case m of GET \<Rightarrow> get w opts path params s | POST \<Rightarrow> post w opts path params s))) \<le> 2"
      by (simp add: json_entry)
  qed
  have b: "(getAccessToken w opts False s = (Inr a1, s1) \<and> prefix ''/'' path \<and>
    fetch_reply w (net_calls s1) = Some r1 \<and>
    json_content r1 \<and> json r1 = Some d1 \<and> map_of d1 ''errcode'' = Some (JNum 40001) \<and>
    getAccessToken w opts True (snd (fetcher_request w m path (Some a1) params s1)) = (Inr a2, s3) \<and>
    getAccessToken w opts False s3 = (Inr a3, s4) \<and>
    fetch_reply w (net_calls s4) = Some r2 \<and>
    \<not> json_content r2
    \<longrightarrow> fst (case m of GET \<Rightarrow> getRaw w opts path params s | POST \<Rightarrow> postRaw w opts path params s) = Inr r2 \<and>
        data_replies (new_events s (snd (case m of GET \<Rightarrow> getRaw w opts path params s | POST \<Rightarrow> postRaw w opts path params s))) = [Some r1, Some r2] \<and>
        forced_refreshes (new_events s (snd (case m of GET \<Rightarrow> getRaw w opts path params s | POST \<Rightarrow> postRaw w opts path params s))) = 1 \<and>
        creations (new_events s (snd (case m of GET \<Rightarrow> getRaw w opts path params s | POST \<Rightarrow> postRaw w opts path params s))) = 1 + cache_misses (new_events s (snd (case m of GET \<Rightarrow> getRaw w opts path params s | POST \<Rightarrow> postRaw w opts path params s))) \<and>
        cache_misses (new_events s (snd (case m of GET \<Rightarrow> getRaw w opts path params s | POST \<Rightarrow> postRaw w opts path params s))) \<le> 2)"
  proof (rule impI)
    assume h: "getAccessToken w opts False s = (Inr a1, s1) \<and> prefix ''/'' path \<and>
    fetch_reply w (net_calls s1) = Some r1 \<and>
    json_content r1 \<and> json r1 = Some d1 \<and> map_of d1 ''errcode'' = Some (JNum 40001) \<and>
    getAccessToken w opts True (snd (fetcher_request w m path (Some a1) params s1)) = (Inr a2, s3) \<and>
    getAccessToken w opts False s3 = (Inr a3, s4) \<and>
    fetch_reply w (net_calls s4) = Some r2 \<and>
    \<not> json_content r2"
    then have "raw_outcome path (Some r2) = Inr r2" by (auto simp: raw_outcome_def)
    with h raw_retry_run[of w opts s a1 s1 path r1 d1 m params a2 s3 a3 s4 r2]
    show "fst (case m of GET \<Rightarrow> getRaw w opts path params s | POST \<Rightarrow> postRaw w opts path params s) = Inr r2 \<and>
        data_replies (new_events s (snd (case m of GET \<Rightarrow> getRaw w opts path params s | POST \<Rightarrow> postRaw w opts path params s))) = [Some r1, Some r2] \<and>
        forced_refreshes (new_events s (snd (case m of GET \<Rightarrow> getRaw w opts path params s | POST \<Rightarrow> postRaw w opts path params s))) = 1 \<and>
        creations (new_events s (snd (case m of GET \<Rightarrow> getRaw w opts path params s | POST \<Rightarrow> postRaw w opts path params s))) = 1 + cache_misses (new_events s (snd (case m of GET \<Rightarrow> getRaw w opts path params s | POST \<Rightarrow> postRaw w opts path params s))) \<and>
        cache_misses (new_events s (snd (case m of GET \<Rightarrow> getRaw w opts path params s | POST \<Rightarrow> postRaw w opts path params s))) \<le> 2"
      by (simp add: raw_entry)
  qed
  have c: "((get w opts path params s = (r, s') \<or> post w opts path params s = (r, s')) \<and>
    data_replies (new_events s s') = Some r1 # Some r2 # rest \<and>
    json r1 = Some d1 \<and> map_of d1 ''errcode'' = Some (JNum 40001) \<and>
    json r2 = Some d2 \<and> (map_of d2 ''errcode'' = None \<or> map_of d2 ''errcode'' = Some (JNum 0))
    \<longrightarrow> r = Inr d2 \<and> rest = [] \<and> forced_refreshes (new_events s s') = 1 \<and>
        creations (new_events s s') = 1 + cache_misses (new_events s s') \<and>
        cache_misses (new_events s s') \<le> 2) \<and>
   ((getRaw w opts path params s = (rr, t') \<or> postRaw w opts path params s = (rr, t')) \<and>
    data_replies (new_events s t') = Some r1 # Some r2 # rest \<and>
    json_content r1 \<and> json r1 = Some d1 \<and> map_of d1 ''errcode'' = Some (JNum 40001) \<and>
    \<not> json_content r2
    \<longrightarrow> rr = Inr r2 \<and> rest = [] \<and> forced_refreshes (new_events s t') = 1 \<and>
        creations (new_events s t') = 1 + cache_misses (new_events s t') \<and>
        cache_misses (new_events s t') \<le> 2)"
  proof (rule conjI; rule impI)
  assume h: "(get w opts path params s = (r, s') \<or> post w opts path params s = (r, s')) \<and>
    data_replies (new_events s s') = Some r1 # Some r2 # rest \<and>
    json r1 = Some d1 \<and> map_of d1 ''errcode'' = Some (JNum 40001) \<and>
    json r2 = Some d2 \<and> (map_of d2 ''errcode'' = None \<or> map_of d2 ''errcode'' = Some (JNum 0))"
  then obtain m where run: "client_request w opts m path params False s = (r, s')"
    using json_run[of w opts path params s r s'] by blast
  from client_request_summary[OF run] obtain es where es: "trace s' = trace s @ es"
    and two: "\<forall>reply1 reply2 rest. data_replies es = reply1 # reply2 # rest \<longrightarrow>
        invalid_credential reply1 \<and> rest = [] \<and> r = json_outcome path reply2 \<and>
        forced_refreshes es = 1 \<and> token_manager_calls es = 3 \<and>
        creations es = 1 + cache_misses es \<and> cache_misses es \<le> 2"
    by blast
  have ne: "new_events s s' = es" using es by (rule new_events_append)
  with h have "data_replies es = Some r1 # Some r2 # rest" by simp
  with two have "rest = []" "r = json_outcome path (Some r2)" "forced_refreshes es = 1"
    "creations es = 1 + cache_misses es" "cache_misses es \<le> 2" by blast+
  moreover have "json_outcome path (Some r2) = Inr d2" using h by (auto simp: json_outcome_def)
  ultimately show "r = Inr d2 \<and> rest = [] \<and> forced_refreshes (new_events s s') = 1 \<and>
        creations (new_events s s') = 1 + cache_misses (new_events s s') \<and>
        cache_misses (new_events s s') \<le> 2" using ne by simp
next
  assume h: "(getRaw w opts path params s = (rr, t') \<or> postRaw w opts path params s = (rr, t')) \<and>
    data_replies (new_events s t') = Some r1 # Some r2 # rest \<and>
    json_content r1 \<and> json r1 = Some d1 \<and> map_of d1 ''errcode'' = Some (JNum 40001) \<and>
    \<not> json_content r2"
  then obtain m where run: "client_raw w opts m path params False s = (rr, t')"
    using raw_run[of w opts path params s rr t'] by blast
  from client_raw_summary[OF run] obtain es where es: "trace t' = trace s @ es"
    and two: "\<forall>reply1 reply2 rest. data_replies es = reply1 # reply2 # rest \<longrightarrow>
        invalid_credential_raw reply1 \<and> rest = [] \<and> rr = raw_outcome path reply2 \<and>
        forced_refreshes es = 1 \<and> token_manager_calls es = 3 \<and>
        creations es = 1 + cache_misses es \<and> cache_misses es \<le> 2"
    by blast
  have ne: "new_events s t' = es" using es by (rule new_events_append)
  with h have "data_replies es = Some r1 # Some r2 # rest" by simp
  with two have "rest = []" "rr = raw_outcome path (Some r2)" "forced_refreshes es = 1"
    "creations es = 1 + cache_misses es" "cache_misses es \<le> 2" by blast+
  moreover have "raw_outcome path (Some r2) = Inr r2" using h by (auto simp: raw_outcome_def)
  ultimately show "rr = Inr r2 \<and> rest = [] \<and> forced_refreshes (new_events s t') = 1 \<and>
        creations (new_events s t') = 1 + cache_misses (new_events s t') \<and>
        cache_misses (new_events s t') \<le> 2" using ne by simp
qed
  show ?thesis by (rule conjI[OF a conjI[OF b c]])
qed

theorem retry_after_invalid_credential_witness:
  "fst (get cold_stale_then_ok example_options ''/cgi-bin/openapi/quota/get'' [] cold_state) = Inr quota_payload \<and>
   data_replies (new_events cold_state (snd (get cold_stale_then_ok example_options ''/cgi-bin/openapi/quota/get'' [] cold_state))) = [Some (errcode_response 40001), Some (json_response quota_payload)] \<and>
   creations (new_events cold_state (snd (get cold_stale_then_ok example_options ''/cgi-bin/openapi/quota/get'' [] cold_state))) = 2 \<and>
   fst (post stale_then_ok example_options ''/cgi-bin/openapi/quota/get'' [] warm_state) = Inr quota_payload \<and>
   data_replies (new_events warm_state (snd (post stale_then_ok example_options ''/cgi-bin/openapi/quota/get'' [] warm_state))) = [Some (errcode_response 40001), Some (json_response quota_payload)] \<and>
   creations (new_events warm_state (snd (post stale_then_ok example_options ''/cgi-bin/openapi/quota/get'' [] warm_state))) = 1 \<and>
   fst (getRaw cold_stale_then_image example_options ''/wxa/getwxacodeunlimit'' [] cold_state) = Inr image_response \<and>
   data_replies (new_events cold_state (snd (getRaw cold_stale_then_image example_options ''/wxa/getwxacodeunlimit'' [] cold_state))) = [Some (errcode_response 40001), Some (image_response)] \<and>
   creations (new_events cold_state (snd (getRaw cold_stale_then_image example_options ''/wxa/getwxacodeunlimit'' [] cold_state))) = 2 \<and>
   fst (postRaw stale_then_image example_options ''/wxa/getwxacodeunlimit'' [] warm_state) = Inr image_response \<and>
   data_replies (new_events warm_state (snd (postRaw stale_then_image example_options ''/wxa/getwxacodeunlimit'' [] warm_state))) = [Some (errcode_response 40001), Some (image_response)] \<and>
   creations (new_events warm_state (snd (postRaw stale_then_image example_options ''/wxa/getwxacodeunlimit'' [] warm_state))) = 1"
proof -
  have j: "json (errcode_response 40001) = Some [(''errcode'', JNum 40001), (''errmsg'', JStr ''failed'')]"
    "map_of [(''errcode'', JNum 40001), (''errmsg'', JStr ''failed'')] ''errcode'' = Some (JNum 40001)"
    "json (json_response quota_payload) = Some quota_payload"
    "map_of quota_payload ''errcode'' = None"
    "json_content (errcode_response 40001)" "\<not> json_content image_response"
    by (simp_all add: example_defs json_content_def)
  have g1: "getAccessToken cold_stale_then_ok example_options False cold_state = (Inr ''FIRST'', (snd (getAccessToken cold_stale_then_ok example_options False cold_state)))"
    by (simp add: run_defs example_defs Let_def)
  have g2: "fetch_reply cold_stale_then_ok (net_calls (snd (getAccessToken cold_stale_then_ok example_options False cold_state))) = Some (errcode_response 40001)"
    by (simp add: run_defs example_defs Let_def)
  have g3: "getAccessToken cold_stale_then_ok example_options True (snd (fetcher_request cold_stale_then_ok GET ''/cgi-bin/openapi/quota/get'' (Some ''FIRST'') [] (snd (getAccessToken cold_stale_then_ok example_options False cold_state)))) = (Inr ''FRESH'', (snd (getAccessToken cold_stale_then_ok example_options True (snd (fetcher_request cold_stale_then_ok GET ''/cgi-bin/openapi/quota/get'' (Some ''FIRST'') [] (snd (getAccessToken cold_stale_then_ok example_options False cold_state)))))))"
    by (simp add: run_defs example_defs Let_def)
  have g4: "getAccessToken cold_stale_then_ok example_options False (snd (getAccessToken cold_stale_then_ok example_options True (snd (fetcher_request cold_stale_then_ok GET ''/cgi-bin/openapi/quota/get'' (Some ''FIRST'') [] (snd (getAccessToken cold_stale_then_ok example_options False cold_state)))))) = (Inr ''FRESH'', (snd (getAccessToken cold_stale_then_ok example_options False (snd (getAccessToken cold_stale_then_ok example_options True (snd (fetcher_request cold_stale_then_ok GET ''/cgi-bin/openapi/quota/get'' (Some ''FIRST'') [] (snd (getAccessToken cold_stale_then_ok example_options False cold_state)))))))))"
    by (simp add: run_defs example_defs Let_def)
  have g5: "fetch_reply cold_stale_then_ok (net_calls (snd (getAccessToken cold_stale_then_ok example_options False (snd (getAccessToken cold_stale_then_ok example_options True (snd (fetcher_request cold_stale_then_ok GET ''/cgi-bin/openapi/quota/get'' (Some ''FIRST'') [] (snd (getAccessToken cold_stale_then_ok example_options False cold_state))))))))) = Some (json_response quota_payload)"
    by (simp add: run_defs example_defs Let_def)
  have g6: "cache_misses (new_events cold_state (snd (get cold_stale_then_ok example_options ''/cgi-bin/openapi/quota/get'' [] cold_state))) = 1"
    by (simp add: run_defs example_defs Let_def)
  have g: "fst (get cold_stale_then_ok example_options ''/cgi-bin/openapi/quota/get'' [] cold_state) = Inr quota_payload \<and>
      data_replies (new_events cold_state (snd (get cold_stale_then_ok example_options ''/cgi-bin/openapi/quota/get'' [] cold_state))) = [Some (errcode_response 40001), Some (json_response quota_payload)] \<and>
      creations (new_events cold_state (snd (get cold_stale_then_ok example_options ''/cgi-bin/openapi/quota/get'' [] cold_state))) = 1 + cache_misses (new_events cold_state (snd (get cold_stale_then_ok example_options ''/cgi-bin/openapi/quota/get'' [] cold_state)))"
    using retry_after_invalid_credential
        [where w = cold_stale_then_ok and opts = example_options and s = cold_state and m = GET
           and path = "''/cgi-bin/openapi/quota/get''" and params = "[]"
           and ?a1.0 = "''FIRST''" and ?s1.0 = "snd (getAccessToken cold_stale_then_ok example_options False cold_state)"
           and ?r1.0 = "errcode_response 40001" and ?d1.0 = "[(''errcode'', JNum 40001), (''errmsg'', JStr ''failed'')]"
           and ?a2.0 = "''FRESH''" and ?s3.0 = "snd (getAccessToken cold_stale_then_ok example_options True (snd (fetcher_request cold_stale_then_ok GET ''/cgi-bin/openapi/quota/get'' (Some ''FIRST'') [] (snd (getAccessToken cold_stale_then_ok example_options False cold_state)))))"
           and ?a3.0 = "''FRESH''" and ?s4.0 = "snd (getAccessToken cold_stale_then_ok example_options False (snd (getAccessToken cold_stale_then_ok example_options True (snd (fetcher_request cold_stale_then_ok GET ''/cgi-bin/openapi/quota/get'' (Some ''FIRST'') [] (snd (getAccessToken cold_stale_then_ok example_options False cold_state)))))))"
           and ?r2.0 = "json_response quota_payload" and ?d2.0 = "quota_payload"]
      g1 g2 g3 g4 g5 j
    by simp
  have p1: "getAccessToken stale_then_ok example_options False warm_state = (Inr ''CACHED'', (snd (getAccessToken stale_then_ok example_options False warm_state)))"
    by (simp add: run_defs example_defs Let_def)
  have p2: "fetch_reply stale_then_ok (net_calls (snd (getAccessToken stale_then_ok example_options False warm_state))) = Some (errcode_response 40001)"
    by (simp add: run_defs example_defs Let_def)
  have p3: "getAccessToken stale_then_ok example_options True (snd (fetcher_request stale_then_ok POST ''/cgi-bin/openapi/quota/get'' (Some ''CACHED'') [] (snd (getAccessToken stale_then_ok example_options False warm_state)))) = (Inr ''FRESH'', (snd (getAccessToken stale_then_ok example_options True (snd (fetcher_request stale_then_ok POST ''/cgi-bin/openapi/quota/get'' (Some ''CACHED'') [] (snd (getAccessToken stale_then_ok example_options False warm_state)))))))"
    by (simp add: run_defs example_defs Let_def)
  have p4: "getAccessToken stale_then_ok example_options False (snd (getAccessToken stale_then_ok example_options True (snd (fetcher_request stale_then_ok POST ''/cgi-bin/openapi/quota/get'' (Some ''CACHED'') [] (snd (getAccessToken stale_then_ok example_options False warm_state)))))) = (Inr ''FRESH'', (snd (getAccessToken stale_then_ok example_options False (snd (getAccessToken stale_then_ok example_options True (snd (fetcher_request stale_then_ok POST ''/cgi-bin/openapi/quota/get'' (Some ''CACHED'') [] (snd (getAccessToken stale_then_ok example_options False warm_state)))))))))"
    by (simp add: run_defs example_defs Let_def)
  have p5: "fetch_reply stale_then_ok (net_calls (snd (getAccessToken stale_then_ok example_options False (snd (getAccessToken stale_then_ok example_options True (snd (fetcher_request stale_then_ok POST ''/cgi-bin/openapi/quota/get'' (Some ''CACHED'') [] (snd (getAccessToken stale_then_ok example_options False warm_state))))))))) = Some (json_response quota_payload)"
    by (simp add: run_defs example_defs Let_def)
  have p6: "cache_misses (new_events warm_state (snd (post stale_then_ok example_options ''/cgi-bin/openapi/quota/get'' [] warm_state))) = 0"
    by (simp add: run_defs example_defs Let_def)
  have p: "fst (post stale_then_ok example_options ''/cgi-bin/openapi/quota/get'' [] warm_state) = Inr quota_payload \<and>
      data_replies (new_events warm_state (snd (post stale_then_ok example_options ''/cgi-bin/openapi/quota/get'' [] warm_state))) = [Some (errcode_response 40001), Some (json_response quota_payload)] \<and>
      creations (new_events warm_state (snd (post stale_then_ok example_options ''/cgi-bin/openapi/quota/get'' [] warm_state))) = 1 + cache_misses (new_events warm_state (snd (post stale_then_ok example_options ''/cgi-bin/openapi/quota/get'' [] warm_state)))"
    using retry_after_invalid_credential
        [where w = stale_then_ok and opts = example_options and s = warm_state and m = POST
           and path = "''/cgi-bin/openapi/quota/get''" and params = "[]"
           and ?a1.0 = "''CACHED''" and ?s1.0 = "snd (getAccessToken stale_then_ok example_options False warm_state)"
           and ?r1.0 = "errcode_response 40001" and ?d1.0 = "[(''errcode'', JNum 40001), (''errmsg'', JStr ''failed'')]"
           and ?a2.0 = "''FRESH''" and ?s3.0 = "snd (getAccessToken stale_then_ok example_options True (snd (fetcher_request stale_then_ok POST ''/cgi-bin/openapi/quota/get'' (Some ''CACHED'') [] (snd (getAccessToken stale_then_ok example_options False warm_state)))))"
           and ?a3.0 = "''FRESH''" and ?s4.0 = "snd (getAccessToken stale_then_ok example_options False (snd (getAccessToken stale_then_ok example_options True (snd (fetcher_request stale_then_ok POST ''/cgi-bin/openapi/quota/get'' (Some ''CACHED'') [] (snd (getAccessToken stale_then_ok example_options False warm_state)))))))"
           and ?r2.0 = "json_response quota_payload" and ?d2.0 = "quota_payload"]
      p1 p2 p3 p4 p5 j
    by simp
  have h1: "getAccessToken cold_stale_then_image example_options False cold_state = (Inr ''FIRST'', (snd (getAccessToken cold_stale_then_image example_options False cold_state)))"
    by (simp add: run_defs example_defs Let_def)
  have h2: "fetch_reply cold_stale_then_image (net_calls (snd (getAccessToken cold_stale_then_image example_options False cold_state))) = Some (errcode_response 40001)"
    by (simp add: run_defs example_defs Let_def)
  have h3: "getAccessToken cold_stale_then_image example_options True (snd (fetcher_request cold_stale_then_image GET ''/wxa/getwxacodeunlimit'' (Some ''FIRST'') [] (snd (getAccessToken cold_stale_then_image example_options False cold_state)))) = (Inr ''FRESH'', (snd (getAccessToken cold_stale_then_image example_options True (snd (fetcher_request cold_stale_then_image GET ''/wxa/getwxacodeunlimit'' (Some ''FIRST'') [] (snd (getAccessToken cold_stale_then_image example_options False cold_state)))))))"
    by (simp add: run_defs example_defs Let_def)
  have h4: "getAccessToken cold_stale_then_image example_options False (snd (getAccessToken cold_stale_then_image example_options True (snd (fetcher_request cold_stale_then_image GET ''/wxa/getwxacodeunlimit'' (Some ''FIRST'') [] (snd (getAccessToken cold_stale_then_image example_options False cold_state)))))) = (Inr ''FRESH'', (snd (getAccessToken cold_stale_then_image example_options False (snd (getAccessToken cold_stale_then_image example_options True (snd (fetcher_request cold_stale_then_image GET ''/wxa/getwxacodeunlimit'' (Some ''FIRST'') [] (snd (getAccessToken cold_stale_then_image example_options False cold_state)))))))))"
    by (simp add: run_defs example_defs Let_def)
  have h5: "fetch_reply cold_stale_then_image (net_calls (snd (getAccessToken cold_stale_then_image example_options False (snd (getAccessToken cold_stale_then_image example_options True (snd (fetcher_request cold_stale_then_image GET ''/wxa/getwxacodeunlimit'' (Some ''FIRST'') [] (snd (getAccessToken cold_stale_then_image example_options False cold_state))))))))) = Some (image_response)"
    by (simp add: run_defs example_defs Let_def)
  have h6: "cache_misses (new_events cold_state (snd (getRaw cold_stale_then_image example_options ''/wxa/getwxacodeunlimit'' [] cold_state))) = 1"
    by (simp add: run_defs example_defs Let_def)
  have h: "fst (getRaw cold_stale_then_image example_options ''/wxa/getwxacodeunlimit'' [] cold_state) = Inr image_response \<and>
      data_replies (new_events cold_state (snd (getRaw cold_stale_then_image example_options ''/wxa/getwxacodeunlimit'' [] cold_state))) = [Some (errcode_response 40001), Some (image_response)] \<and>
      creations (new_events cold_state (snd (getRaw cold_stale_then_image example_options ''/wxa/getwxacodeunlimit'' [] cold_state))) = 1 + cache_misses (new_events cold_state (snd (getRaw cold_stale_then_image example_options ''/wxa/getwxacodeunlimit'' [] cold_state)))"
    using retry_after_invalid_credential
        [where w = cold_stale_then_image and opts = example_options and s = cold_state and m = GET
           and path = "''/wxa/getwxacodeunlimit''" and params = "[]"
           and ?a1.0 = "''FIRST''" and ?s1.0 = "snd (getAccessToken cold_stale_then_image example_options False cold_state)"
           and ?r1.0 = "errcode_response 40001" and ?d1.0 = "[(''errcode'', JNum 40001), (''errmsg'', JStr ''failed'')]"
           and ?a2.0 = "''FRESH''" and ?s3.0 = "snd (getAccessToken cold_stale_then_image example_options True (snd (fetcher_request cold_stale_then_image GET ''/wxa/getwxacodeunlimit'' (Some ''FIRST'') [] (snd (getAccessToken cold_stale_then_image example_options False cold_state)))))"
           and ?a3.0 = "''FRESH''" and ?s4.0 = "snd (getAccessToken cold_stale_then_image example_options False (snd (getAccessToken cold_stale_then_image example_options True (snd (fetcher_request cold_stale_then_image GET ''/wxa/getwxacodeunlimit'' (Some ''FIRST'') [] (snd (getAccessToken cold_stale_then_image example_options False cold_state)))))))"
           and ?r2.0 = "image_response"]
      h1 h2 h3 h4 h5 j
    by simp
  have q1: "getAccessToken stale_then_image example_options False warm_state = (Inr ''CACHED'', (snd (getAccessToken stale_then_image example_options False warm_state)))"
    by (simp add: run_defs example_defs Let_def)
  have q2: "fetch_reply stale_then_image (net_calls (snd (getAccessToken stale_then_image example_options False warm_state))) = Some (errcode_response 40001)"
    by (simp add: run_defs example_defs Let_def)
  have q3: "getAccessToken stale_then_image example_options True (snd (fetcher_request stale_then_image POST ''/wxa/getwxacodeunlimit'' (Some ''CACHED'') [] (snd (getAccessToken stale_then_image example_options False warm_state)))) = (Inr ''FRESH'', (snd (getAccessToken stale_then_image example_options True (snd (fetcher_request stale_then_image POST ''/wxa/getwxacodeunlimit'' (Some ''CACHED'') [] (snd (getAccessToken stale_then_image example_options False warm_state)))))))"
    by (simp add: run_defs example_defs Let_def)
  have q4: "getAccessToken stale_then_image example_options False (snd (getAccessToken stale_then_image example_options True (snd (fetcher_request stale_then_image POST ''/wxa/getwxacodeunlimit'' (Some ''CACHED'') [] (snd (getAccessToken stale_then_image example_options False warm_state)))))) = (Inr ''FRESH'', (snd (getAccessToken stale_then_image example_options False (snd (getAccessToken stale_then_image example_options True (snd (fetcher_request stale_then_image POST ''/wxa/getwxacodeunlimit'' (Some ''CACHED'') [] (snd (getAccessToken stale_then_image example_options False warm_state)))))))))"
    by (simp add: run_defs example_defs Let_def)
  have q5: "fetch_reply stale_then_image (net_calls (snd (getAccessToken stale_then_image example_options False (snd (getAccessToken stale_then_image example_options True (snd (fetcher_request stale_then_image POST ''/wxa/getwxacodeunlimit'' (Some ''CACHED'') [] (snd (getAccessToken stale_then_image example_options False warm_state))))))))) = Some (image_response)"
    by (simp add: run_defs example_defs Let_def)
  have q6: "cache_misses (new_events warm_state (snd (postRaw stale_then_image example_options ''/wxa/getwxacodeunlimit'' [] warm_state))) = 0"
    by (simp add: run_defs example_defs Let_def)
  have q: "fst (postRaw stale_then_image example_options ''/wxa/getwxacodeunlimit'' [] warm_state) = Inr image_response \<and>
      data_replies (new_events warm_state (snd (postRaw stale_then_image example_options ''/wxa/getwxacodeunlimit'' [] warm_state))) = [Some (errcode_response 40001), Some (image_response)] \<and>
      creations (new_events warm_state (snd (postRaw stale_then_image example_options ''/wxa/getwxacodeunlimit'' [] warm_state))) = 1 + cache_misses (new_events warm_state (snd (postRaw stale_then_image example_options ''/wxa/getwxacodeunlimit'' [] warm_state)))"
    using retry_after_invalid_credential
        [where w = stale_then_image and opts = example_options and s = warm_state and m = POST
           and path = "''/wxa/getwxacodeunlimit''" and params = "[]"
           and ?a1.0 = "''CACHED''" and ?s1.0 = "snd (getAccessToken stale_then_image example_options False warm_state)"
           and ?r1.0 = "errcode_response 40001" and ?d1.0 = "[(''errcode'', JNum 40001), (''errmsg'', JStr ''failed'')]"
           and ?a2.0 = "''FRESH''" and ?s3.0 = "snd (getAccessToken stale_then_image example_options True (snd (fetcher_request stale_then_image POST ''/wxa/getwxacodeunlimit'' (Some ''CACHED'') [] (snd (getAccessToken stale_then_image example_options False warm_state)))))"
           and ?a3.0 = "''FRESH''" and ?s4.0 = "snd (getAccessToken stale_then_image example_options False (snd (getAccessToken stale_then_image example_options True (snd (fetcher_request stale_then_image POST ''/wxa/getwxacodeunlimit'' (Some ''CACHED'') [] (snd (getAccessToken stale_then_image example_options False warm_state)))))))"
           and ?r2.0 = "image_response"]
      q1 q2 q3 q4 q5 j
    by simp
  show ?thesis using g g6 p p6 h h6 q q6 by simp
qed

text \<open>
  Against C4 as it was stated: with a cached token that the data endpoint rejects, the
  retry succeeds and the token-creation primitive is invoked once, not twice.
\<close>

theorem stale_cache_one_creation:
  "fst (get stale_then_ok example_options ''/cgi-bin/openapi/quota/get'' [] warm_state) = Inr quota_payload \<and>
   data_replies (new_events warm_state (snd (get stale_then_ok example_options ''/cgi-bin/openapi/quota/get'' [] warm_state)))
     = [Some (errcode_response 40001), Some (json_response quota_payload)] \<and>
   creations (new_events warm_state (snd (get stale_then_ok example_options ''/cgi-bin/openapi/quota/get'' [] warm_state))) = 1"
  by (simp add: run_defs example_defs Let_def)

text \<open>
  C5. When the token function delivers a token each time it is asked and the first two data
  responses both carry \<open>errcode\<close> 40001 (for \<open>getRaw\<close> and \<open>postRaw\<close>: under a
  JSON content type, where a body is read at all), the request is issued a second time and
  the call ends with the classified error raised for the second response: the data replies
  of the run are exactly these two, after exactly one forced refresh and three calls of the
  token function. The last two parts say of any run whose log shows the two replies that
  there is no third data call. The functions are total, so the call always ends.
\<close>

theorem double_invalid_credential:
  "(getAccessToken w opts False s = (Inr a1, s1) \<and> prefix ''/'' path \<and>
    fetch_reply w (net_calls s1) = Some r1 \<and>
    json r1 = Some d1 \<and> map_of d1 ''errcode'' = Some (JNum 40001) \<and>
    getAccessToken w opts True (snd (fetcher_request w m path (Some a1) params s1)) = (Inr a2, s3) \<and>
    getAccessToken w opts False s3 = (Inr a3, s4) \<and>
    fetch_reply w (net_calls s4) = Some r2 \<and>
    json r2 = Some d2 \<and> map_of d2 ''errcode'' = Some (JNum 40001)
    \<longrightarrow> fst (case m of GET \<Rightarrow> get w opts path params s | POST \<Rightarrow> post w opts path params s) = Inl (Thrown (createError (request_failed path) d2)) \<and>
        data_replies (new_events s (snd (case m of GET \<Rightarrow> get w opts path params s | POST \<Rightarrow> post w opts path params s))) = [Some r1, Some r2] \<and>
        forced_refreshes (new_events s (snd (case m of GET \<Rightarrow> get w opts path params s | POST \<Rightarrow> post w opts path params s))) = 1 \<and>
        token_manager_calls (new_events s (snd (case m of GET \<Rightarrow> get w opts path params s | POST \<Rightarrow> post w opts path params s))) = 3) \<and>
   (getAccessToken w opts False s = (Inr a1, s1) \<and> prefix ''/'' path \<and>
    fetch_reply w (net_calls s1) = Some r1 \<and>
    json_content r1 \<and> json r1 = Some d1 \<and> map_of d1 ''errcode'' = Some (JNum 40001) \<and>
    getAccessToken w opts True (snd (fetcher_request w m path (Some a1) params s1)) = (Inr a2, s3) \<and>
    getAccessToken w opts False s3 = (Inr a3, s4) \<and>
    fetch_reply w (net_calls s4) = Some r2 \<and>
    json_content r2 \<and> json r2 = Some d2 \<and> map_of d2 ''errcode'' = Some (JNum 40001)
    \<longrightarrow> fst (case m of GET \<Rightarrow> getRaw w opts path params s | POST \<Rightarrow> postRaw w opts path params s) = Inl (Thrown (createError (request_failed path) d2)) \<and>
        data_replies (new_events s (snd (case m of GET \<Rightarrow> getRaw w opts path params s | POST \<Rightarrow> postRaw w opts path params s))) = [Some r1, Some r2] \<and>
        forced_refreshes (new_events s (snd (case m of GET \<Rightarrow> getRaw w opts path params s | POST \<Rightarrow> postRaw w opts path params s))) = 1 \<and>
        token_manager_calls (new_events s (snd (case m of GET \<Rightarrow> getRaw w opts path params s | POST \<Rightarrow> postRaw w opts path params s))) = 3) \<and>
   ((get w opts path params s = (r, s') \<or> post w opts path params s = (r, s')) \<and>
    data_replies (new_events s s') = Some r1 # Some r2 # rest \<and>
    json r1 = Some d1 \<and> map_of d1 ''errcode'' = Some (JNum 40001) \<and>
    json r2 = Some d2 \<and> map_of d2 ''errcode'' = Some (JNum 40001)
    \<longrightarrow> r = Inl (Thrown (createError (request_failed path) d2)) \<and> rest = [] \<and>
        forced_refreshes (new_events s s') = 1) \<and>
   ((getRaw w opts path params s = (rr, t') \<or> postRaw w opts path params s = (rr, t')) \<and>
    data_replies (new_events s t') = Some r1 # Some r2 # rest \<and>
    json_content r1 \<and> json r1 = Some d1 \<and> map_of d1 ''errcode'' = Some (JNum 40001) \<and>
    json_content r2 \<and> json r2 = Some d2 \<and> map_of d2 ''errcode'' = Some (JNum 40001)
    \<longrightarrow> rr = Inl (Thrown (createError (request_failed path) d2)) \<and> rest = [] \<and>
        forced_refreshes (new_events s t') = 1)"
proof -
  have a: "(getAccessToken w opts False s = (Inr a1, s1) \<and> prefix ''/'' path \<and>
    fetch_reply w (net_calls s1) = Some r1 \<and>
    json r1 = Some d1 \<and> map_of d1 ''errcode'' = Some (JNum 40001) \<and>
    getAccessToken w opts True (snd (fetcher_request w m path (Some a1) params s1)) = (Inr a2, s3) \<and>
    getAccessToken w opts False s3 = (Inr a3, s4) \<and>
    fetch_reply w (net_calls s4) = Some r2 \<and>
    json r2 = Some d2 \<and> map_of d2 ''errcode'' = Some (JNum 40001)
    \<longrightarrow> fst (case m of GET \<Rightarrow> get w opts path params s | POST \<Rightarrow> post w opts path params s) = Inl (Thrown (createError (request_failed path) d2)) \<and>
        data_replies (new_events s (snd (case m of GET \<Rightarrow> get w opts path params s | POST \<Rightarrow> post w opts path params s))) = [Some r1, Some r2] \<and>
        forced_refreshes (new_events s (snd (case m of GET \<Rightarrow> get w opts path params s | POST \<Rightarrow> post w opts path params s))) = 1 \<and>
        token_manager_calls (new_events s (snd (case m of GET \<Rightarrow> get w opts path params s | POST \<Rightarrow> post w opts path params s))) = 3)"
  proof (rule impI)
    assume h: "getAccessToken w opts False s = (Inr a1, s1) \<and> prefix ''/'' path \<and>
    fetch_reply w (net_calls s1) = Some r1 \<and>
    json r1 = Some d1 \<and> map_of d1 ''errcode'' = Some (JNum 40001) \<and>
    getAccessToken w opts True (snd (fetcher_request w m path (Some a1) params s1)) = (Inr a2, s3) \<and>
    getAccessToken w opts False s3 = (Inr a3, s4) \<and>
    fetch_reply w (net_calls s4) = Some r2 \<and>
    json r2 = Some d2 \<and> map_of d2 ''errcode'' = Some (JNum 40001)"
    then have "json_outcome path (Some r2) = Inl (Thrown (createError (request_failed path) d2))" by (auto simp: json_outcome_def)
    with h json_retry_run[of w opts s a1 s1 path r1 d1 m params a2 s3 a3 s4 r2]
    show "fst (case m of GET \<Rightarrow> get w opts path params s | POST \<Rightarrow> post w opts path params s) = Inl (Thrown (createError (request_failed path) d2)) \<and>
        data_replies (new_events s (snd (case m of GET \<Rightarrow> get w opts path params s | POST \<Rightarrow> post w opts path params s))) = [Some r1, Some r2] \<and>
        forced_refreshes (new_events s (snd (case m of GET \<Rightarrow> get w opts path params s | POST \<Rightarrow> post w opts path params s))) = 1 \<and>
        token_manager_calls (new_events s (snd (case m of GET \<Rightarrow> get w opts path params s | POST \<Rightarrow> post w opts path params s))) = 3"
      by (simp add: json_entry)
  qed
  have b: "(getAccessToken w opts False s = (Inr a1, s1) \<and> prefix ''/'' path \<and>
    fetch_reply w (net_calls s1) = Some r1 \<and>
    json_content r1 \<and> json r1 = Some d1 \<and> map_of d1 ''errcode'' = Some (JNum 40001) \<and>
    getAccessToken w opts True (snd (fetcher_request w m path (Some a1) params s1)) = (Inr a2, s3) \<and>
    getAccessToken w opts False s3 = (Inr a3, s4) \<and>
    fetch_reply w (net_calls s4) = Some r2 \<and>
    json_content r2 \<and> json r2 = Some d2 \<and> map_of d2 ''errcode'' = Some (JNum 40001)
    \<longrightarrow> fst (case m of GET \<Rightarrow> getRaw w opts path params s | POST \<Rightarrow> postRaw w opts path params s) = Inl (Thrown (createError (request_failed path) d2)) \<and>
        data_replies (new_events s (snd (case m of GET \<Rightarrow> getRaw w opts path params s | POST \<Rightarrow> postRaw w opts path params s))) = [Some r1, Some r2] \<and>
        forced_refreshes (new_events s (snd (case m of GET \<Rightarrow> getRaw w opts path params s | POST \<Rightarrow> postRaw w opts path params s))) = 1 \<and>
        token_manager_calls (new_events s (snd (case m of GET \<Rightarrow> getRaw w opts path params s | POST \<Rightarrow> postRaw w opts path params s))) = 3)"
  proof (rule impI)
    assume h: "getAccessToken w opts False s = (Inr a1, s1) \<and> prefix ''/'' path \<and>
    fetch_reply w (net_calls s1) = Some r1 \<and>
    json_content r1 \<and> json r1 = Some d1 \<and> map_of d1 ''errcode'' = Some (JNum 40001) \<and>
    getAccessToken w opts True (snd (fetcher_request w m path (Some a1) params s1)) = (Inr a2, s3) \<and>
    getAccessToken w opts False s3 = (Inr a3, s4) \<and>
    fetch_reply w (net_calls s4) = Some r2 \<and>
    json_content r2 \<and> json r2 = Some d2 \<and> map_of d2 ''errcode'' = Some (JNum 40001)"
    then have "raw_outcome path (Some r2) = Inl (Thrown (createError (request_failed path) d2))" by (auto simp: raw_outcome_def)
    with h raw_retry_run[of w opts s a1 s1 path r1 d1 m params a2 s3 a3 s4 r2]
    show "fst (case m of GET \<Rightarrow> getRaw w opts path params s | POST \<Rightarrow> postRaw w opts path params s) = Inl (Thrown (createError (request_failed path) d2)) \<and>
        data_replies (new_events s (snd (case m of GET \<Rightarrow> getRaw w opts path params s | POST \<Rightarrow> postRaw w opts path params s))) = [Some r1, Some r2] \<and>
        forced_refreshes (new_events s (snd (case m of GET \<Rightarrow> getRaw w opts path params s | POST \<Rightarrow> postRaw w opts path params s))) = 1 \<and>
        token_manager_calls (new_events s (snd (case m of GET \<Rightarrow> getRaw w opts path params s | POST \<Rightarrow> postRaw w opts path params s))) = 3"
      by (simp add: raw_entry)
  qed
  have c: "((get w opts path params s = (r, s') \<or> post w opts path params s = (r, s')) \<and>
    data_replies (new_events s s') = Some r1 # Some r2 # rest \<and>
    json r1 = Some d1 \<and> map_of d1 ''errcode'' = Some (JNum 40001) \<and>
    json r2 = Some d2 \<and> map_of d2 ''errcode'' = Some (JNum 40001)
    \<longrightarrow> r = Inl (Thrown (createError (request_failed path) d2)) \<and> rest = [] \<and>
        forced_refreshes (new_events s s') = 1) \<and>
   ((getRaw w opts path params s = (rr, t') \<or> postRaw w opts path params s = (rr, t')) \<and>
    data_replies (new_events s t') = Some r1 # Some r2 # rest \<and>
    json_content r1 \<and> json r1 = Some d1 \<and> map_of d1 ''errcode'' = Some (JNum 40001) \<and>
    json_content r2 \<and> json r2 = Some d2 \<and> map_of d2 ''errcode'' = Some (JNum 40001)
    \<longrightarrow> rr = Inl (Thrown (createError (request_failed path) d2)) \<and> rest = [] \<and>
        forced_refreshes (new_events s t') = 1)"
  proof (rule conjI; rule impI)
  assume h: "(get w opts path params s = (r, s') \<or> post w opts path params s = (r, s')) \<and>
    data_replies (new_events s s') = Some r1 # Some r2 # rest \<and>
    json r1 = Some d1 \<and> map_of d1 ''errcode'' = Some (JNum 40001) \<and>
    json r2 = Some d2 \<and> map_of d2 ''errcode'' = Some (JNum 40001)"
  then obtain m where run: "client_request w opts m path params False s = (r, s')"
    using json_run[of w opts path params s r s'] by blast
  from client_request_summary[OF run] obtain es where es: "trace s' = trace s @ es"
    and two: "\<forall>reply1 reply2 rest. data_replies es = reply1 # reply2 # rest \<longrightarrow>
        invalid_credential reply1 \<and> rest = [] \<and> r = json_outcome path reply2 \<and>
        forced_refreshes es = 1 \<and> token_manager_calls es = 3 \<and>
        creations es = 1 + cache_misses es \<and> cache_misses es \<le> 2"
    by blast
  have ne: "new_events s s' = es" using es by (rule new_events_append)
  with h have "data_replies es = Some r1 # Some r2 # rest" by simp
  with two have "rest = []" "r = json_outcome path (Some r2)" "forced_refreshes es = 1" by blast+
  moreover have "json_outcome path (Some r2) = Inl (Thrown (createError (request_failed path) d2))"
    using h by (auto simp: json_outcome_def)
  ultimately show "r = Inl (Thrown (createError (request_failed path) d2)) \<and> rest = [] \<and>
        forced_refreshes (new_events s s') = 1" using ne by simp
next
  assume h: "(getRaw w opts path params s = (rr, t') \<or> postRaw w opts path params s = (rr, t')) \<and>
    data_replies (new_events s t') = Some r1 # Some r2 # rest \<and>
    json_content r1 \<and> json r1 = Some d1 \<and> map_of d1 ''errcode'' = Some (JNum 40001) \<and>
    json_content r2 \<and> json r2 = Some d2 \<and> map_of d2 ''errcode'' = Some (JNum 40001)"
  then obtain m where run: "client_raw w opts m path params False s = (rr, t')"
    using raw_run[of w opts path params s rr t'] by blast
  from client_raw_summary[OF run] obtain es where es: "trace t' = trace s @ es"
    and two: "\<forall>reply1 reply2 rest. data_replies es = reply1 # reply2 # rest \<longrightarrow>
        invalid_credential_raw reply1 \<and> rest = [] \<and> rr = raw_outcome path reply2 \<and>
        forced_refreshes es = 1 \<and> token_manager_calls es = 3 \<and>
        creations es = 1 + cache_misses es \<and> cache_misses es \<le> 2"
    by blast
  have ne: "new_events s t' = es" using es by (rule new_events_append)
  with h have "data_replies es = Some r1 # Some r2 # rest" by simp
  with two have "rest = []" "rr = raw_outcome path (Some r2)" "forced_refreshes es = 1" by blast+
  moreover have "raw_outcome path (Some r2) = Inl (Thrown (createError (request_failed path) d2))"
    using h by (auto simp: raw_outcome_def)
  ultimately show "rr = Inl (Thrown (createError (request_failed path) d2)) \<and> rest = [] \<and>
        forced_refreshes (new_events s t') = 1" using ne by simp
qed
  show ?thesis by (rule conjI[OF a conjI[OF b c]])
qed

theorem double_invalid_credential_witness:
  "fst (post stale_twice_told_apart example_options ''/cgi-bin/openapi/quota/get'' [] warm_state) = Inl (Thrown (WeixinError (request_failed ''/cgi-bin/openapi/quota/get'') [(''errcode'', JNum 40001), (''errmsg'', JStr ''still invalid'')])) \<and>
   data_replies (new_events warm_state (snd (post stale_twice_told_apart example_options ''/cgi-bin/openapi/quota/get'' [] warm_state))) = [Some (errcode_response 40001), Some (json_response [(''errcode'', JNum 40001), (''errmsg'', JStr ''still invalid'')])] \<and>
   forced_refreshes (new_events warm_state (snd (post stale_twice_told_apart example_options ''/cgi-bin/openapi/quota/get'' [] warm_state))) = 1 \<and>
   token_manager_calls (new_events warm_state (snd (post stale_twice_told_apart example_options ''/cgi-bin/openapi/quota/get'' [] warm_state))) = 3 \<and>
   fst (getRaw stale_twice_told_apart example_options ''/wxa/getwxacodeunlimit'' [] warm_state) = Inl (Thrown (WeixinError (request_failed ''/wxa/getwxacodeunlimit'') [(''errcode'', JNum 40001), (''errmsg'', JStr ''still invalid'')])) \<and>
   data_replies (new_events warm_state (snd (getRaw stale_twice_told_apart example_options ''/wxa/getwxacodeunlimit'' [] warm_state))) = [Some (errcode_response 40001), Some (json_response [(''errcode'', JNum 40001), (''errmsg'', JStr ''still invalid'')])] \<and>
   forced_refreshes (new_events warm_state (snd (getRaw stale_twice_told_apart example_options ''/wxa/getwxacodeunlimit'' [] warm_state))) = 1 \<and>
   token_manager_calls (new_events warm_state (snd (getRaw stale_twice_told_apart example_options ''/wxa/getwxacodeunlimit'' [] warm_state))) = 3"
proof -
  have j: "json (errcode_response 40001) = Some [(''errcode'', JNum 40001), (''errmsg'', JStr ''failed'')]"
    "map_of [(''errcode'', JNum 40001), (''errmsg'', JStr ''failed'')] ''errcode'' = Some (JNum 40001)"
    "json (errcode_response 40125) = Some [(''errcode'', JNum 40125), (''errmsg'', JStr ''failed'')]"
    "map_of [(''errcode'', JNum 40125), (''errmsg'', JStr ''failed'')] ''errcode'' = Some (JNum 40125)"
    "json (json_response d) = Some d" "json_content (json_response d)"
    "json_content (errcode_response c)" "\<not> json_content image_response"
    "createError msg [(''errcode'', JNum 40001), (''errmsg'', JStr ''still invalid'')]
       = WeixinError msg [(''errcode'', JNum 40001), (''errmsg'', JStr ''still invalid'')]"
    "createError msg [(''errcode'', JNum 0), (''errmsg'', JStr ''ok'')]
       = WeixinError msg [(''errcode'', JNum 0), (''errmsg'', JStr ''ok'')]"
    for d c msg
    by (simp_all add: example_defs json_content_def createError_def authcodeErrorMap_def)
  have p1: "getAccessToken stale_twice_told_apart example_options False warm_state = (Inr ''CACHED'', (snd (getAccessToken stale_twice_told_apart example_options False warm_state)))"
    by (simp add: run_defs example_defs Let_def)
  have p2: "fetch_reply stale_twice_told_apart (net_calls (snd (getAccessToken stale_twice_told_apart example_options False warm_state))) = Some (errcode_response 40001)"
    by (simp add: run_defs example_defs Let_def)
  have p3: "getAccessToken stale_twice_told_apart example_options True (snd (fetcher_request stale_twice_told_apart POST ''/cgi-bin/openapi/quota/get'' (Some ''CACHED'') [] (snd (getAccessToken stale_twice_told_apart example_options False warm_state)))) = (Inr ''FRESH'', (snd (getAccessToken stale_twice_told_apart example_options True (snd (fetcher_request stale_twice_told_apart POST ''/cgi-bin/openapi/quota/get'' (Some ''CACHED'') [] (snd (getAccessToken stale_twice_told_apart example_options False warm_state)))))))"
    by (simp add: run_defs example_defs Let_def)
  have p4: "getAccessToken stale_twice_told_apart example_options False (snd (getAccessToken stale_twice_told_apart example_options True (snd (fetcher_request stale_twice_told_apart POST ''/cgi-bin/openapi/quota/get'' (Some ''CACHED'') [] (snd (getAccessToken stale_twice_told_apart example_options False warm_state)))))) = (Inr ''FRESH'', (snd (getAccessToken stale_twice_told_apart example_options False (snd (getAccessToken stale_twice_told_apart example_options True (snd (fetcher_request stale_twice_told_apart POST ''/cgi-bin/openapi/quota/get'' (Some ''CACHED'') [] (snd (getAccessToken stale_twice_told_apart example_options False warm_state)))))))))"
    by (simp add: run_defs example_defs Let_def)
  have p5: "fetch_reply stale_twice_told_apart (net_calls (snd (getAccessToken stale_twice_told_apart example_options False (snd (getAccessToken stale_twice_told_apart example_options True (snd (fetcher_request stale_twice_told_apart POST ''/cgi-bin/openapi/quota/get'' (Some ''CACHED'') [] (snd (getAccessToken stale_twice_told_apart example_options False warm_state))))))))) = Some (json_response [(''errcode'', JNum 40001), (''errmsg'', JStr ''still invalid'')])"
    by (simp add: run_defs example_defs Let_def)
  have p: "fst (post stale_twice_told_apart example_options ''/cgi-bin/openapi/quota/get'' [] warm_state) = Inl (Thrown (WeixinError (request_failed ''/cgi-bin/openapi/quota/get'') [(''errcode'', JNum 40001), (''errmsg'', JStr ''still invalid'')])) \<and>
   data_replies (new_events warm_state (snd (post stale_twice_told_apart example_options ''/cgi-bin/openapi/quota/get'' [] warm_state))) = [Some (errcode_response 40001), Some (json_response [(''errcode'', JNum 40001), (''errmsg'', JStr ''still invalid'')])] \<and>
   forced_refreshes (new_events warm_state (snd (post stale_twice_told_apart example_options ''/cgi-bin/openapi/quota/get'' [] warm_state))) = 1 \<and>
   token_manager_calls (new_events warm_state (snd (post stale_twice_told_apart example_options ''/cgi-bin/openapi/quota/get'' [] warm_state))) = 3"
    using double_invalid_credential
        [where w = stale_twice_told_apart and opts = example_options and s = warm_state and m = POST
           and path = "''/cgi-bin/openapi/quota/get''" and params = "[]"
           and ?a1.0 = "''CACHED''" and ?s1.0 = "snd (getAccessToken stale_twice_told_apart example_options False warm_state)"
           and ?r1.0 = "errcode_response 40001" and ?d1.0 = "[(''errcode'', JNum 40001), (''errmsg'', JStr ''failed'')]"
           and ?a2.0 = "''FRESH''" and ?s3.0 = "snd (getAccessToken stale_twice_told_apart example_options True (snd (fetcher_request stale_twice_told_apart POST ''/cgi-bin/openapi/quota/get'' (Some ''CACHED'') [] (snd (getAccessToken stale_twice_told_apart example_options False warm_state)))))"
           and ?a3.0 = "''FRESH''" and ?s4.0 = "snd (getAccessToken stale_twice_told_apart example_options False (snd (getAccessToken stale_twice_told_apart example_options True (snd (fetcher_request stale_twice_told_apart POST ''/cgi-bin/openapi/quota/get'' (Some ''CACHED'') [] (snd (getAccessToken stale_twice_told_apart example_options False warm_state)))))))"
           and ?r2.0 = "json_response [(''errcode'', JNum 40001), (''errmsg'', JStr ''still invalid'')]" and ?d2.0 = "[(''errcode'', JNum 40001), (''errmsg'', JStr ''still invalid'')]"]
      p1 p2 p3 p4 p5 j
    by simp
  have g1: "getAccessToken stale_twice_told_apart example_options False warm_state = (Inr ''CACHED'', (snd (getAccessToken stale_twice_told_apart example_options False warm_state)))"
    by (simp add: run_defs example_defs Let_def)
  have g2: "fetch_reply stale_twice_told_apart (net_calls (snd (getAccessToken stale_twice_told_apart example_options False warm_state))) = Some (errcode_response 40001)"
    by (simp add: run_defs example_defs Let_def)
  have g3: "getAccessToken stale_twice_told_apart example_options True (snd (fetcher_request stale_twice_told_apart GET ''/wxa/getwxacodeunlimit'' (Some ''CACHED'') [] (snd (getAccessToken stale_twice_told_apart example_options False warm_state)))) = (Inr ''FRESH'', (snd (getAccessToken stale_twice_told_apart example_options True (snd (fetcher_request stale_twice_told_apart GET ''/wxa/getwxacodeunlimit'' (Some ''CACHED'') [] (snd (getAccessToken stale_twice_told_apart example_options False warm_state)))))))"
    by (simp add: run_defs example_defs Let_def)
  have g4: "getAccessToken stale_twice_told_apart example_options False (snd (getAccessToken stale_twice_told_apart example_options True (snd (fetcher_request stale_twice_told_apart GET ''/wxa/getwxacodeunlimit'' (Some ''CACHED'') [] (snd (getAccessToken stale_twice_told_apart example_options False warm_state)))))) = (Inr ''FRESH'', (snd (getAccessToken stale_twice_told_apart example_options False (snd (getAccessToken stale_twice_told_apart example_options True (snd (fetcher_request stale_twice_told_apart GET ''/wxa/getwxacodeunlimit'' (Some ''CACHED'') [] (snd (getAccessToken stale_twice_told_apart example_options False warm_state)))))))))"
    by (simp add: run_defs example_defs Let_def)
  have g5: "fetch_reply stale_twice_told_apart (net_calls (snd (getAccessToken stale_twice_told_apart example_options False (snd (getAccessToken stale_twice_told_apart example_options True (snd (fetcher_request stale_twice_told_apart GET ''/wxa/getwxacodeunlimit'' (Some ''CACHED'') [] (snd (getAccessToken stale_twice_told_apart example_options False warm_state))))))))) = Some (json_response [(''errcode'', JNum 40001), (''errmsg'', JStr ''still invalid'')])"
    by (simp add: run_defs example_defs Let_def)
  have g: "fst (getRaw stale_twice_told_apart example_options ''/wxa/getwxacodeunlimit'' [] warm_state) = Inl (Thrown (WeixinError (request_failed ''/wxa/getwxacodeunlimit'') [(''errcode'', JNum 40001), (''errmsg'', JStr ''still invalid'')])) \<and>
   data_replies (new_events warm_state (snd (getRaw stale_twice_told_apart example_options ''/wxa/getwxacodeunlimit'' [] warm_state))) = [Some (errcode_response 40001), Some (json_response [(''errcode'', JNum 40001), (''errmsg'', JStr ''still invalid'')])] \<and>
   forced_refreshes (new_events warm_state (snd (getRaw stale_twice_told_apart example_options ''/wxa/getwxacodeunlimit'' [] warm_state))) = 1 \<and>
   token_manager_calls (new_events warm_state (snd (getRaw stale_twice_told_apart example_options ''/wxa/getwxacodeunlimit'' [] warm_state))) = 3"
    using double_invalid_credential
        [where w = stale_twice_told_apart and opts = example_options and s = warm_state and m = GET
           and path = "''/wxa/getwxacodeunlimit''" and params = "[]"
           and ?a1.0 = "''CACHED''" and ?s1.0 = "snd (getAccessToken stale_twice_told_apart example_options False warm_state)"
           and ?r1.0 = "errcode_response 40001" and ?d1.0 = "[(''errcode'', JNum 40001), (''errmsg'', JStr ''failed'')]"
           and ?a2.0 = "''FRESH''" and ?s3.0 = "snd (getAccessToken stale_twice_told_apart example_options True (snd (fetcher_request stale_twice_told_apart GET ''/wxa/getwxacodeunlimit'' (Some ''CACHED'') [] (snd (getAccessToken stale_twice_told_apart example_options False warm_state)))))"
           and ?a3.0 = "''FRESH''" and ?s4.0 = "snd (getAccessToken stale_twice_told_apart example_options False (snd (getAccessToken stale_twice_told_apart example_options True (snd (fetcher_request stale_twice_told_apart GET ''/wxa/getwxacodeunlimit'' (Some ''CACHED'') [] (snd (getAccessToken stale_twice_told_apart example_options False warm_state)))))))"
           and ?r2.0 = "json_response [(''errcode'', JNum 40001), (''errmsg'', JStr ''still invalid'')]" and ?d2.0 = "[(''errcode'', JNum 40001), (''errmsg'', JStr ''still invalid'')]"]
      g1 g2 g3 g4 g5 j
    by simp
  show ?thesis using p g by simp
qed

end
